theory Spec2Isabelle
  imports Complex_Main
begin

section \<open>The values of the program\<close>

text \<open>
  The program is one TypeScript file, \<^verbatim>\<open>src/main.ts\<close>: a read-eval-print loop whose
  commands call the REST interface of a web site and print what it answers.

  Strings are lists of bytes (UTF-8). A number of the program is an IEEE 754 double:
  \<open>Fin x\<close> is the finite double whose value is the real \<open>x\<close> (\<open>Fin 0\<close> is +0),
  \<open>NegZero\<close> is -0, and there are the two infinities and NaN. The arithmetic of the
  program rounds every result to the nearest double, a tie to the even one
  (\<open>to_double\<close>).
\<close>

datatype number = NaN | PosInf | NegInf | NegZero | Fin real

datatype error = TypeError | SyntaxError | NotFound | PermissionDenied | NetworkError

text \<open>
  What \<^verbatim>\<open>console.log\<close> and a template string can be given. \<^verbatim>\<open>Builtin n\<close> is a value
  that the language or a library defines (a method of \<^verbatim>\<open>Object.prototype\<close>, a property
  of \<^verbatim>\<open>chalk\<close>), kept by its name.
\<close>

datatype jsval = Undefined | Null | Bool bool | Num number | Str string | Builtin string | Err error

subsection \<open>Doubles\<close>

fun num_neg :: "number \<Rightarrow> number" where
  "num_neg NaN = NaN"
| "num_neg PosInf = NegInf"
| "num_neg NegInf = PosInf"
| "num_neg NegZero = Fin 0"
| "num_neg (Fin x) = (if x = 0 then NegZero else Fin (- x))"

text \<open>The sign bit, the absolute value of a finite number, and the two kinds of special value.\<close>

fun is_negative :: "number \<Rightarrow> bool" where
  "is_negative NegInf = True"
| "is_negative NegZero = True"
| "is_negative (Fin x) = (x < 0)"
| "is_negative n = False"

fun magnitude :: "number \<Rightarrow> real" where
  "magnitude (Fin x) = \<bar>x\<bar>"
| "magnitude n = 0"

definition is_infinite :: "number \<Rightarrow> bool" where
  "is_infinite n = (n = PosInf \<or> n = NegInf)"

definition is_zero :: "number \<Rightarrow> bool" where
  "is_zero n = (n = NegZero \<or> n = Fin 0)"

definition with_sign :: "bool \<Rightarrow> number \<Rightarrow> number" where
  "with_sign s n = (if s then num_neg n else n)"

definition pow2 :: "int \<Rightarrow> real" where
  "pow2 q = (if 0 \<le> q then 2 ^ nat q else 1 / 2 ^ nat (- q))"

text \<open>
  The binade of a positive real \<open>x\<close> between \<open>2 ^ -1022\<close> and \<open>2 ^ 1024\<close>: the
  exponent \<open>e\<close> with \<open>2 ^ e \<le> x < 2 ^ (e + 1)\<close>, found bit by bit.
\<close>

definition scale_down :: "nat \<Rightarrow> real \<times> int \<Rightarrow> real \<times> int" where
  "scale_down k p = (case p of (y, e) \<Rightarrow> if 2 ^ k \<le> y then (y / 2 ^ k, e + int k) else (y, e))"

definition scale_up :: "nat \<Rightarrow> real \<times> int \<Rightarrow> real \<times> int" where
  "scale_up k p = (case p of (y, e) \<Rightarrow> if y * 2 ^ k < 1 then (y * 2 ^ k, e - int k) else (y, e))"

definition binade :: "real \<Rightarrow> int" where
  "binade x =
     (if 1 \<le> x then snd (fold scale_down [512, 256, 128, 64, 32, 16, 8, 4, 2, 1] (x, 0))
      else snd (fold scale_up [512, 256, 128, 64, 32, 16, 8, 4, 2, 1] (x, 0)) - 1)"

text \<open>The nearest integer, a tie to the even one.\<close>

definition round_even :: "real \<Rightarrow> int" where
  "round_even m =
     (let f = \<lfloor>m\<rfloor>; d = m - of_int f in
      if d < 1 / 2 then f else if 1 / 2 < d then f + 1 else if even f then f else f + 1)"

text \<open>
  The double nearest to a real \<open>x \<ge> 0\<close>: 53 bits of mantissa, the exponents -1022 to
  1023, subnormal numbers below, infinity from \<open>2 ^ 1024 - 2 ^ 970\<close> on.
\<close>

definition to_double :: "real \<Rightarrow> number" where
  "to_double x =
     (if 2 ^ 1024 \<le> x then PosInf
      else
        let e = (if x < 1 / 2 ^ 1022 then - 1022 else binade x);
            q = e - 52;
            k = round_even (x / pow2 q)
        in if 2 ^ 1024 \<le> of_int k * pow2 q then PosInf else Fin (of_int k * pow2 q))"

text \<open>\<^verbatim>\<open>x * y\<close>\<close>

definition num_mul :: "number \<Rightarrow> number \<Rightarrow> number" where
  "num_mul a b =
     (if a = NaN \<or> b = NaN then NaN
      else
        let s = (is_negative a \<noteq> is_negative b) in
        if is_infinite a \<or> is_infinite b then
          (if is_zero a \<or> is_zero b then NaN else with_sign s PosInf)
        else with_sign s (to_double (magnitude a * magnitude b)))"

text \<open>\<^verbatim>\<open>x / y\<close>\<close>

definition num_div :: "number \<Rightarrow> number \<Rightarrow> number" where
  "num_div a b =
     (if a = NaN \<or> b = NaN then NaN
      else
        let s = (is_negative a \<noteq> is_negative b) in
        if is_infinite a then (if is_infinite b then NaN else with_sign s PosInf)
        else if is_infinite b then with_sign s (Fin 0)
        else if is_zero b then (if is_zero a then NaN else with_sign s PosInf)
        else with_sign s (to_double (magnitude a / magnitude b)))"

text \<open>\<^verbatim>\<open>Math.floor(x)\<close>\<close>

fun Math_floor :: "number \<Rightarrow> number" where
  "Math_floor (Fin x) = Fin (of_int \<lfloor>x\<rfloor>)"
| "Math_floor n = n"

text \<open>
  \<^verbatim>\<open>Math.round(x)\<close>: the nearest integer, a half rounded up; -0 for a negative \<open>x\<close> from
  -0.5 on.
\<close>

fun Math_round :: "number \<Rightarrow> number" where
  "Math_round (Fin x) =
     (if \<lfloor>x + 1 / 2\<rfloor> = 0 \<and> x < 0 then NegZero else Fin (of_int \<lfloor>x + 1 / 2\<rfloor>))"
| "Math_round n = n"

text \<open>\<^verbatim>\<open>x < y\<close>; the two zeros are equal.\<close>

fun finite_value :: "number \<Rightarrow> real" where
  "finite_value (Fin x) = x"
| "finite_value n = 0"

definition num_lt :: "number \<Rightarrow> number \<Rightarrow> bool" where
  "num_lt a b =
     (a \<noteq> NaN \<and> b \<noteq> NaN \<and> a \<noteq> PosInf \<and> b \<noteq> NegInf
      \<and> (a = NegInf \<or> b = PosInf \<or> finite_value a < finite_value b))"

text \<open>\<^verbatim>\<open>Number.isNaN(x)\<close>\<close>

definition Number_isNaN :: "number \<Rightarrow> bool" where
  "Number_isNaN n = (n = NaN)"

subsection \<open>\<^verbatim>\<open>parseFloat\<close>\<close>

text \<open>
  The language's \<^verbatim>\<open>parseFloat\<close>: leading white space is dropped, then the longest
  prefix that is a decimal literal (a sign, \<^verbatim>\<open>Infinity\<close>, or digits with an optional
  fraction and exponent) is read; no such prefix gives NaN. The result is the double
  nearest to the decimal value of the literal.
\<close>

definition is_digit :: "char \<Rightarrow> bool" where
  "is_digit c = (48 \<le> (of_char c :: nat) \<and> (of_char c :: nat) \<le> 57)"

definition digits_val :: "string \<Rightarrow> nat" where
  "digits_val ds = foldl (\<lambda>a c. 10 * a + (of_char c - 48)) 0 ds"

text \<open>
  White space and line terminators of the language, in UTF-8: U+0009 to U+000D, U+0020,
  U+00A0, U+1680, U+2000 to U+200A, U+2028, U+2029, U+202F, U+205F, U+3000, U+FEFF.
\<close>

fun trim_start :: "string \<Rightarrow> string" where
  "trim_start [] = []"
| "trim_start (c # s) =
     (let n = (of_char c :: nat) in
      if n = 32 \<or> (9 \<le> n \<and> n \<le> 13) then trim_start s
      else if n = 194 then
        (case s of d # t \<Rightarrow> if (of_char d :: nat) = 160 then trim_start t else c # s
         | [] \<Rightarrow> c # s)
      else if n = 225 \<or> n = 226 \<or> n = 227 \<or> n = 239 then
        (case s of d # e # t \<Rightarrow>
           (let m = (of_char d :: nat); k = (of_char e :: nat) in
            if (n = 225 \<and> m = 154 \<and> k = 128)
             \<or> (n = 226 \<and> m = 128 \<and> ((128 \<le> k \<and> k \<le> 138) \<or> k = 168 \<or> k = 169 \<or> k = 175))
             \<or> (n = 226 \<and> m = 129 \<and> k = 159)
             \<or> (n = 227 \<and> m = 128 \<and> k = 128)
             \<or> (n = 239 \<and> m = 187 \<and> k = 191)
            then trim_start t else c # s)
         | _ \<Rightarrow> c # s)
      else c # s)"

text \<open>The exponent part: \<^verbatim>\<open>e\<close> or \<^verbatim>\<open>E\<close>, an optional sign and at least one digit.\<close>

definition exponent_part :: "string \<Rightarrow> int" where
  "exponent_part r =
     (case r of
        [] \<Rightarrow> 0
      | c # t \<Rightarrow>
          if c = CHR ''e'' \<or> c = CHR ''E'' then
            (case t of
               [] \<Rightarrow> 0
             | d # u \<Rightarrow>
                 if d = CHR ''+'' then int (digits_val (takeWhile is_digit u))
                 else if d = CHR ''-'' then - int (digits_val (takeWhile is_digit u))
                 else int (digits_val (takeWhile is_digit t)))
          else 0)"

definition scale10 :: "real \<Rightarrow> int \<Rightarrow> real" where
  "scale10 m e = (if 0 \<le> e then m * 10 ^ nat e else m / 10 ^ nat (- e))"

definition unsigned_decimal :: "string \<Rightarrow> number" where
  "unsigned_decimal s =
     (if take 8 s = ''Infinity'' then PosInf
      else
        let ip = takeWhile is_digit s;
            r1 = dropWhile is_digit s;
            fp = (case r1 of [] \<Rightarrow> [] | c # t \<Rightarrow> if c = CHR ''.'' then takeWhile is_digit t else []);
            r2 = (case r1 of [] \<Rightarrow> [] | c # t \<Rightarrow> if c = CHR ''.'' then dropWhile is_digit t else r1)
        in if ip = [] \<and> fp = [] then NaN
           else to_double (scale10 (real (digits_val ip) + real (digits_val fp) / 10 ^ length fp)
                             (exponent_part r2)))"

definition parseFloat :: "string \<Rightarrow> number" where
  "parseFloat s =
     (case trim_start s of
        [] \<Rightarrow> NaN
      | c # t \<Rightarrow>
          if c = CHR ''-'' then num_neg (unsigned_decimal t)
          else if c = CHR ''+'' then unsigned_decimal t
          else unsigned_decimal (c # t))"

subsection \<open>Arrays of arguments\<close>

text \<open>\<^verbatim>\<open>args.shift()\<close>: the first element, or undefined, and the array without it.\<close>

definition shift :: "'a list \<Rightarrow> 'a option \<times> 'a list" where
  "shift xs = (case xs of [] \<Rightarrow> (None, []) | x # r \<Rightarrow> (Some x, r))"

text \<open>A string or undefined, as a value.\<close>

definition str_or_undefined :: "string option \<Rightarrow> jsval" where
  "str_or_undefined x = (case x of None \<Rightarrow> Undefined | Some s \<Rightarrow> Str s)"

text \<open>
  The loop of \<^verbatim>\<open>set-cookie\<close>, \<^verbatim>\<open>settings\<close> and \<^verbatim>\<open>market\<close> that joins what is
  left of the line: while \<^verbatim>\<open>args.length >= 1\<close>, a space and \<^verbatim>\<open>args.shift()\<close> are appended.
\<close>

fun join_rest :: "string \<Rightarrow> string list \<Rightarrow> string" where
  "join_rest acc [] = acc"
| "join_rest acc (x # xs) = join_rest (acc @ '' '' @ x) xs"

text \<open>\<^verbatim>\<open>s.split(c)\<close> for a one-character separator: never the empty array.\<close>

fun split_on :: "char \<Rightarrow> string \<Rightarrow> string list" where
  "split_on c [] = [[]]"
| "split_on c (x # xs) =
     (if x = c then [] # split_on c xs
      else (case split_on c xs of [] \<Rightarrow> [[x]] | t # ts \<Rightarrow> (x # t) # ts))"

section \<open>Output and requests\<close>

text \<open>
  A template string is kept as its parts: the literal chunks, the interpolated values and
  the chunks that \<^verbatim>\<open>chalk\<close> styles. How a number is printed is therefore not modelled.
  A console line is the list of the arguments of one \<^verbatim>\<open>console.log\<close>.
\<close>

datatype style = bold | italic | yellow | yellowBright | green | greenBright | redBright
  | bgWhite | bgGreen | bgGray | bgRedBright | bgBlue

datatype part = Lit string | Val jsval | Chalk style "part list"

type_synonym template = "part list"

type_synonym log_line = "template list"

text \<open>The \<^verbatim>\<open>File\<close> that \<^verbatim>\<open>mk_file\<close> builds.\<close>

record upload =
  file_name :: jsval
  file_type :: template
  file_bytes :: string

datatype form_value = Field jsval | File_part upload

text \<open>\<^verbatim>\<open>Json_text o\<close> is the text \<^verbatim>\<open>JSON.stringify\<close> makes of the object \<^verbatim>\<open>o\<close>.\<close>

datatype body = No_body | Json_text "(string \<times> jsval) list" | Form_data "(string \<times> form_value) list"

record request =
  url :: template
  http_method :: string
  headers :: "(string \<times> jsval) list"
  body :: body


subsection \<open>What the server answers\<close>

text \<open>
  \<^verbatim>\<open>a.json()\<close> is untyped in the source. The model types it: each constructor of
  \<open>payload\<close> is the shape one handler reads, with the fields it reads. A reply of
  another shape is outside the model (\<open>Unmodelled\<close> below). A number of a payload is
  a finite double, given by its value (so is -0 by 0: a template string prints both as
  \<^verbatim>\<open>0\<close>, and no handler divides by a number of a payload); the arithmetic on it is
  that of doubles.
\<close>

datatype coin = Coin (coin_symbol: string) (coin_name: string) (coin_currentPrice: real)
  (coin_change24h: real) (coin_marketCap: real) (coin_creatorName: string)

datatype notification = Notification (notif_isRead: bool) (notif_title: string)
  (notif_message: string)

datatype holding = Holding (holding_symbol: string) (holding_quantity: real)
  (holding_currentPrice: real) (holding_percentageChange: real) (holding_change24h: real)
  (holding_value: real)

text \<open>A row of \<^verbatim>\<open>recentTransactions\<close> (\<^verbatim>\<open>view-user\<close>).\<close>

datatype recent = Recent (recent_type: string) (recent_quantity: real)
  (recent_coinSymbol: string) (recent_coinName: string)
  (recent_totalBaseCurrencyAmount: real) (recent_recipientUsername: "string option")
  (recent_senderUsername: "string option")

text \<open>
  A row of \<^verbatim>\<open>transactions\<close> (\<^verbatim>\<open>portfolio\<close>); \<open>None\<close> is a \<^verbatim>\<open>recipientUser\<close> or
  \<^verbatim>\<open>senderUser\<close> that is null, \<open>Some u\<close> one whose \<^verbatim>\<open>username\<close> is \<open>u\<close>.
\<close>

datatype transaction = Transaction (trans_type: string) (trans_quantity: real)
  (trans_coin_symbol: string) (trans_coin_id: real)
  (trans_totalBaseCurrencyAmount: real) (trans_recipientUser: "string option")
  (trans_senderUser: "string option")

record profile =
  profile_name :: string
  profile_username :: string
  profile_isAdmin :: bool
  profile_bio :: string
  profile_baseCurrencyBalance :: real

record stats =
  totalPortfolioValue :: real
  holdingsValue :: real
  totalBuyVolume :: real
  totalSellVolume :: real
  coinsCreated :: real

datatype payload =
    Gamble_json (won: bool) (newBalance: real) (payout: real) (symbols: "string list")
  | Summary_json (baseCurrencyBalance: real) (totalCoinValue: real) (totalValue: real)
      (coinHoldings: "holding list")
  | Promo_json (promo_message: string)
  | Created_json (created_symbol: string) (feePaid: real) (created_message: string)
  | Page_data (data3: string) (data4: string) (data10: string)
  | Reward_json (totalRewardsClaimed: real) (reward_newBalance: real) (rewardAmount: real)
  | Notifications_json (unreadCount: real) (notifications: "notification list")
  | Market_json (totalPages: real) (coins: "coin list")
  | Trade_json (coinsSold: real) (trade_newBalance: real)
  | User_json (user_profile: profile) (user_stats: stats) (createdCoins: "coin list")
      (recentTransactions: "recent list")
  | Transactions_json (transactions: "transaction list")
  | Other_payload

text \<open>A response: \<^verbatim>\<open>a.ok\<close>, what \<^verbatim>\<open>a.text()\<close> gives and what \<^verbatim>\<open>a.json()\<close> gives.\<close>

record response =
  ok :: bool
  body_text :: string
  json :: payload

text \<open>\<^verbatim>\<open>fetch\<close> either rejects (the network failed) or resolves to a response.\<close>

datatype reply = Rejects | Responds response

section \<open>The state of a run\<close>

text \<open>
  \<^verbatim>\<open>Joined d n\<close> is the path \<^verbatim>\<open>path.join(d, n)\<close>; how the library normalises it is not
  modelled. \<^verbatim>\<open>Plain s\<close> is a path the user typed, or a directory.
\<close>

datatype path = Plain string | Joined string string

text \<open>The global \<^verbatim>\<open>config\<close>; \<open>None\<close> is a cookie that is undefined.\<close>

record config =
  cookie :: "string option"

text \<open>
  What \<^verbatim>\<open>JSON.parse\<close> makes of a file's text: \<^verbatim>\<open>Config_json c\<close> is a text that parses to
  an object whose \<^verbatim>\<open>cookie\<close> field is the string of \<open>c\<close> (or that has none), so it is
  also what \<^verbatim>\<open>JSON.stringify(c)\<close> writes; \<^verbatim>\<open>Other_json\<close> is any other valid JSON;
  \<^verbatim>\<open>Not_json\<close> is a text that \<^verbatim>\<open>JSON.parse\<close> rejects.
\<close>

datatype content = Config_json config | Other_json | Not_json

datatype file_state = Missing | Unreadable | Content content

record world =
  env :: "string \<Rightarrow> string option"
  files :: "path \<Rightarrow> file_state"
  dirs :: "path \<Rightarrow> bool"
  can_mkdir :: "path \<Rightarrow> bool"
  can_write :: "path \<Rightarrow> bool"
  server :: "nat \<Rightarrow> request \<Rightarrow> reply"
  config :: config
  console :: "log_line list"
  network :: "request list"

text \<open>
  A computation ends by returning, by throwing, or with a reply the model does not type.
  Each carries the state it ended in.
\<close>

datatype 'a outcome = Ret 'a world | Throw error world | Unmodelled world

type_synonym 'a io = "world \<Rightarrow> 'a outcome"

definition ret :: "'a \<Rightarrow> 'a io" where
  "ret x w = Ret x w"

definition throw :: "error \<Rightarrow> 'a io" where
  "throw e w = Throw e w"

definition unmodelled :: "'a io" where
  "unmodelled w = Unmodelled w"

definition bind :: "'a io \<Rightarrow> ('a \<Rightarrow> 'b io) \<Rightarrow> 'b io" where
  "bind m f w =
     (case m w of Ret x w' \<Rightarrow> f x w' | Throw e w' \<Rightarrow> Throw e w' | Unmodelled w' \<Rightarrow> Unmodelled w')"

definition seq :: "unit io \<Rightarrow> 'a io \<Rightarrow> 'a io" where
  "seq m n = bind m (\<lambda>_. n)"

text \<open>\<^verbatim>\<open>try { m } catch (err) { h(err) }\<close>\<close>

definition try_catch :: "'a io \<Rightarrow> (error \<Rightarrow> 'a io) \<Rightarrow> 'a io" where
  "try_catch m h w =
     (case m w of Ret x w' \<Rightarrow> Ret x w' | Throw e w' \<Rightarrow> h e w' | Unmodelled w' \<Rightarrow> Unmodelled w')"

definition console_log :: "log_line \<Rightarrow> unit io" where
  "console_log l w = Ret () (w\<lparr>console := console w @ [l]\<rparr>)"

text \<open>A \<^verbatim>\<open>for (const x of xs)\<close> loop.\<close>

fun for_each :: "('a \<Rightarrow> unit io) \<Rightarrow> 'a list \<Rightarrow> unit io" where
  "for_each f [] = ret ()"
| "for_each f (x # xs) = seq (f x) (for_each f xs)"

text \<open>
  \<^verbatim>\<open>fetch(url, init)\<close>: the request goes out (it is added to the log of the network) and
  the server's answer to it, the n-th request of the run, comes back.
\<close>

definition fetch :: "request \<Rightarrow> response io" where
  "fetch rq w =
     (let w' = w\<lparr>network := network w @ [rq]\<rparr> in
      case server w (length (network w)) rq of
        Rejects \<Rightarrow> Throw NetworkError w'
      | Responds r \<Rightarrow> Ret r w')"


text \<open>
  A number of a payload in a template string, as it is, and the two expressions the
  handlers print most amounts with: \<^verbatim>\<open>Math.round(x * 1000) / 1000\<close> and
  \<^verbatim>\<open>Math.floor(x * 1000) / 1000\<close>.
\<close>

abbreviation (input) num :: "real \<Rightarrow> part" where
  "num x \<equiv> Val (Num (Fin x))"

abbreviation (input) round_1000 :: "real \<Rightarrow> part" where
  "round_1000 x \<equiv> Val (Num (num_div (Math_round (num_mul (Fin x) (Fin 1000))) (Fin 1000)))"

abbreviation (input) floor_1000 :: "real \<Rightarrow> part" where
  "floor_1000 x \<equiv> Val (Num (num_div (Math_floor (num_mul (Fin x) (Fin 1000))) (Fin 1000)))"

section \<open>The config store\<close>

text \<open>\<^verbatim>\<open>a || b\<close> on strings that may be undefined: the empty string is falsy too.\<close>

definition js_or :: "string option \<Rightarrow> string option \<Rightarrow> string option" where
  "js_or a b = (case a of None \<Rightarrow> b | Some s \<Rightarrow> if s = [] then b else Some s)"

definition js_or_lit :: "string option \<Rightarrow> string \<Rightarrow> string" where
  "js_or_lit a b = (case a of None \<Rightarrow> b | Some s \<Rightarrow> if s = [] then b else s)"

definition path_join :: "string \<Rightarrow> string \<Rightarrow> path" where
  "path_join d n = Joined d n"

text \<open>
  The program takes the directory of a joined path only; for a plain path the model keeps
  the path itself, a case no run reaches.
\<close>

fun path_dirname :: "path \<Rightarrow> path" where
  "path_dirname (Joined d n) = Plain d"
| "path_dirname (Plain s) = Plain s"

definition getConfigPath :: "world \<Rightarrow> path" where
  "getConfigPath w =
     (let home = js_or_lit (js_or (env w ''HOME'') (env w ''USERPROFILE'')) ''.''
      in path_join home ''rugplay_api_saves.json'')"

definition Deno_readTextFileSync :: "path \<Rightarrow> content io" where
  "Deno_readTextFileSync p w =
     (case files w p of
        Missing \<Rightarrow> Throw NotFound w
      | Unreadable \<Rightarrow> Throw PermissionDenied w
      | Content c \<Rightarrow> Ret c w)"

definition JSON_parse :: "content \<Rightarrow> config io" where
  "JSON_parse c =
     (case c of
        Config_json cfg \<Rightarrow> ret cfg
      | Other_json \<Rightarrow> unmodelled
      | Not_json \<Rightarrow> throw SyntaxError)"

definition JSON_stringify :: "config \<Rightarrow> content" where
  "JSON_stringify cfg = Config_json cfg"

definition readConfig :: "config io" where
  "readConfig w = (let filePath = getConfigPath w in bind (Deno_readTextFileSync filePath) JSON_parse w)"

definition Deno_statSync :: "path \<Rightarrow> unit io" where
  "Deno_statSync p w = (if dirs w p then Ret () w else Throw NotFound w)"

definition Deno_mkdirSync :: "path \<Rightarrow> unit io" where
  "Deno_mkdirSync p w =
     (if can_mkdir w p then Ret () (w\<lparr>dirs := (dirs w)(p := True)\<rparr>)
      else Throw PermissionDenied w)"

text \<open>
  Writing a file needs its directory and the permission; it replaces the content.
\<close>

definition Deno_writeTextFileSync :: "path \<Rightarrow> content \<Rightarrow> unit io" where
  "Deno_writeTextFileSync p c w =
     (if \<not> dirs w (path_dirname p) then Throw NotFound w
      else if \<not> can_write w p then Throw PermissionDenied w
      else Ret () (w\<lparr>files := (files w)(p := Content c)\<rparr>))"

definition writeConfig :: "config \<Rightarrow> unit io" where
  "writeConfig cfg w =
     (let filePath = getConfigPath w;
          dir = path_dirname filePath
      in seq (try_catch (Deno_statSync dir)
                (\<lambda>_. try_catch (Deno_mkdirSync dir) (\<lambda>_. ret ())))
             (Deno_writeTextFileSync filePath (JSON_stringify cfg)) w)"

definition set_config :: "config \<Rightarrow> unit io" where
  "set_config cfg w = Ret () (w\<lparr>config := cfg\<rparr>)"

text \<open>
  The start of the program (lines 39 to 47): the default config, replaced by the file's
  when it can be read; otherwise the failure is reported and the default written.
\<close>

definition startup :: "unit io" where
  "startup =
     seq (set_config \<lparr>cookie = Some ''unknown''\<rparr>)
       (try_catch (bind readConfig set_config)
          (\<lambda>err.
             seq (console_log [[Lit ''Couldn't read configuration file:'']])
            (seq (console_log [[Val (Err err)]])
            (seq (console_log [[Lit ''Wrote default file.'']])
                 (\<lambda>w. writeConfig (config w) w)))))"

section \<open>The gateway\<close>

definition unauthenticated_warning :: log_line where
  "unauthenticated_warning =
     [[Chalk redBright [Lit ''You''], Lit '' '', Chalk bold [Lit ''must''], Lit '' '',
       Chalk redBright [Lit ''have a cookie set to use this.'']]]"

definition request_headers :: "world \<Rightarrow> (string \<times> jsval) list" where
  "request_headers w =
     [(''User-Agent'', Str ''Mozilla/5.0 (Windows NT 10.0; Win64; x64) AppleWebKit/537.36 (KHTML, like Gecko) Chrome/125.0.0.0 Safari/537.36''),
      (''Cookie'', str_or_undefined (cookie (config w))),
      (''Accept-Language'', Str ''en-US,en;q=0.9''),
      (''Origin'', Str ''https://rugplay.com'')]"

definition api_req :: "template \<Rightarrow> string \<Rightarrow> body \<Rightarrow> response option io" where
  "api_req api meth bdy w =
     (if cookie (config w) = Some ''unknown'' then
        seq (console_log unauthenticated_warning) (ret None) w
      else
        bind (fetch \<lparr>url = Lit ''https://rugplay.com/api/'' # api, http_method = meth,
                     headers = request_headers w, body = bdy\<rparr>)
          (\<lambda>r. ret (Some r)) w)"

text \<open>
  What every call site does with a response that is not ok: two lines, the second the
  text of the response.
\<close>

definition api_error :: "response \<Rightarrow> unit io" where
  "api_error a =
     seq (console_log [[Chalk redBright [Lit ''API ERROR''], Lit '':'']])
         (console_log [[Val (Str (body_text a))]])"

definition me :: "payload option io" where
  "me w =
     bind (fetch \<lparr>url = [Lit ''https://rugplay.com/__data.json?x-sveltekit-trailing-slash=1&x-sveltekit-invalidated=10''],
                  http_method = ''GET'', headers = request_headers w, body = No_body\<rparr>)
       (\<lambda>req.
          if \<not> ok req then seq (api_error req) (ret None)
          else (case json req of
                  Page_data _ _ _ \<Rightarrow> ret (Some (json req))
                | _ \<Rightarrow> unmodelled)) w"

text \<open>\<^verbatim>\<open>xs.pop()\<close>, for its value.\<close>

definition pop :: "'a list \<Rightarrow> 'a option" where
  "pop xs = (case rev xs of [] \<Rightarrow> None | x # _ \<Rightarrow> Some x)"

definition Deno_readFile :: "string \<Rightarrow> unit io" where
  "Deno_readFile p w =
     (case files w (Plain p) of
        Missing \<Rightarrow> Throw NotFound w
      | Unreadable \<Rightarrow> Throw PermissionDenied w
      | Content c \<Rightarrow> Ret () w)"

definition Deno_stat :: "string \<Rightarrow> unit io" where
  "Deno_stat p w =
     (case files w (Plain p) of
        Missing \<Rightarrow> Throw NotFound w
      | _ \<Rightarrow> Ret () w)"

definition mk_file :: "string \<Rightarrow> upload io" where
  "mk_file p =
     seq (Deno_readFile p)
    (seq (Deno_stat p)
         (let name = pop (split_on (CHR ''/'') p);
              t = [Lit ''image/'', Val (str_or_undefined (pop (split_on (CHR ''.'') p)))]
          in ret \<lparr>file_name = str_or_undefined name, file_type = t, file_bytes = p\<rparr>))"


section \<open>The commands\<close>

text \<open>
  Each handler is the callback of one entry of \<^verbatim>\<open>commands\<close>, statement by statement.
  Where a handler first checks the number of its arguments and then shifts that many, the
  model matches the list against the pattern.
\<close>

subsection \<open>\<^verbatim>\<open>set-cookie\<close>\<close>

definition set_cookie_callback :: "string list \<Rightarrow> unit io" where
  "set_cookie_callback args =
     (let (c, rest) = shift args;
          cookie' = (case c of None \<Rightarrow> None | Some c \<Rightarrow> Some (join_rest c rest))
      in seq (\<lambda>w. Ret () (w\<lparr>config := (config w)\<lparr>cookie := cookie'\<rparr>\<rparr>))
        (seq (console_log [[Lit ''Set cookie '', Chalk greenBright [Lit ''successfully''], Lit ''.'']])
             (\<lambda>w. writeConfig (config w) w)))"

subsection \<open>\<^verbatim>\<open>coinflip\<close> and \<^verbatim>\<open>slots\<close>\<close>

text \<open>The two lines that follow a bet, the same in both commands.\<close>

definition gamble_result :: "payload \<Rightarrow> number \<Rightarrow> unit io" where
  "gamble_result js amount =
     (if \<not> won js then
        seq (console_log [[Lit ''You '', Chalk redBright [Lit ''lost''], Lit ''.'']])
            (console_log [[Lit ''New balance: '', Chalk yellowBright [Lit ''$''],
               Chalk yellow [round_1000 (newBalance js)],
               Lit '' (-'', Chalk redBright [Val (Num amount)], Lit '')'']])
      else
        seq (console_log [[Lit ''You '', Chalk greenBright [Lit ''won''], Lit ''!'']])
            (console_log [[Lit ''New balance: '', Chalk yellowBright [Lit ''$''],
               Chalk yellow [round_1000 (newBalance js)],
               Lit '' (+'', Chalk yellowBright [num (payout js)], Lit '')'']]))"

definition coinflip_callback :: "string list \<Rightarrow> unit io" where
  "coinflip_callback args =
     (let (s, args1) = shift args;
          side = (if s = Some ''1'' then ''tails'' else ''heads'');
          (x, args2) = shift args1;
          amount = parseFloat (case x of None \<Rightarrow> ''0.01'' | Some t \<Rightarrow> t)
      in bind (api_req [Lit ''gambling/coinflip''] ''POST''
                 (Json_text [(''side'', Str side), (''amount'', Num amount)]))
           (\<lambda>a. case a of
                   None \<Rightarrow> ret ()
                 | Some a \<Rightarrow>
                     if \<not> ok a then api_error a
                     else (case json a of
                             Gamble_json _ _ _ _ \<Rightarrow> gamble_result (json a) amount
                           | _ \<Rightarrow> unmodelled)))"

text \<open>
  The own properties of the object literal \<^verbatim>\<open>slot_record\<close>; the glyphs are written as
  their UTF-8 bytes.
\<close>

definition slot_record :: "(string \<times> string) list" where
  "slot_record =
     [(''wattesigma'', [CHR 0xE2, CHR 0x97, CHR 0xBB, CHR 0xEF, CHR 0xB8, CHR 0x8F]),
      (''webx'', [CHR 0xE2, CHR 0xAC, CHR 0x9B]),
      (''twoblade'', [CHR 0xF0, CHR 0x9F, CHR 0x9F, CHR 0xA5]),
      (''lyntr'', [CHR 0xF0, CHR 0x9F, CHR 0x9F, CHR 0xAA]),
      (''bussin'', [CHR 0xF0, CHR 0x9F, CHR 0x9F, CHR 0xA7]),
      (''subterfuge'', [CHR 0xF0, CHR 0x9F, CHR 0x9F, CHR 0xA9])]"

text \<open>
  An object literal inherits from \<^verbatim>\<open>Object.prototype\<close>; these are the names of its
  properties, all of them functions (the runtime, Deno, removes \<^verbatim>\<open>__proto__\<close>).
\<close>

definition Object_prototype :: "string list" where
  "Object_prototype =
     [''constructor'', ''__defineGetter__'', ''__defineSetter__'', ''hasOwnProperty'',
      ''__lookupGetter__'', ''__lookupSetter__'', ''isPrototypeOf'', ''propertyIsEnumerable'',
      ''toString'', ''valueOf'', ''toLocaleString'']"

text \<open>\<^verbatim>\<open>slot_record[k]\<close>: an own property, else an inherited one, else undefined.\<close>

definition slot_record_get :: "string \<Rightarrow> jsval" where
  "slot_record_get k =
     (case map_of slot_record k of
        Some g \<Rightarrow> Str g
      | None \<Rightarrow> if k \<in> set Object_prototype then Builtin (''Object.prototype.'' @ k) else Undefined)"

text \<open>
  \<^verbatim>\<open>json.symbols[i]\<close> as a property key: an index past the end gives undefined, whose
  key is the string \<^verbatim>\<open>undefined\<close>.
\<close>

definition symbol_key :: "string list \<Rightarrow> nat \<Rightarrow> string" where
  "symbol_key xs i = (if i < length xs then xs ! i else ''undefined'')"

definition slots_callback :: "string list \<Rightarrow> unit io" where
  "slots_callback args =
     (let (x, args1) = shift args;
          amount = parseFloat (case x of None \<Rightarrow> ''0.01'' | Some t \<Rightarrow> t)
      in bind (api_req [Lit ''gambling/slots''] ''POST'' (Json_text [(''amount'', Num amount)]))
           (\<lambda>a. case a of
                   None \<Rightarrow> ret ()
                 | Some a \<Rightarrow>
                     if \<not> ok a then api_error a
                     else (case json a of
                             Gamble_json _ _ _ _ \<Rightarrow>
                               seq (console_log
                                      [[Val (slot_record_get (symbol_key (symbols (json a)) 0))],
                                       [Val (slot_record_get (symbol_key (symbols (json a)) 1))],
                                       [Val (slot_record_get (symbol_key (symbols (json a)) 2))]])
                                   (gamble_result (json a) amount)
                           | _ \<Rightarrow> unmodelled)))"

subsection \<open>\<^verbatim>\<open>summary\<close>, \<^verbatim>\<open>redeem\<close>, \<^verbatim>\<open>daily-reward\<close>, \<^verbatim>\<open>notifications\<close>\<close>

text \<open>What \<^verbatim>\<open>summary\<close> prints once it has the reply (lines 216 to 220).\<close>

definition summary_report :: "payload \<Rightarrow> unit io" where
  "summary_report js =
     seq (console_log [[Chalk bold [Lit ''Portfolio''], Lit '' Summary'']])
    (seq (console_log [[Lit ''Balance: '', Chalk yellowBright [Lit ''$''],
            Chalk yellow [round_1000 (baseCurrencyBalance js)]]])
    (seq (console_log [[Lit ''Total coin value: '', Chalk yellowBright [Lit ''$''],
            Chalk yellow [round_1000 (totalCoinValue js)]]])
         (console_log [[Lit ''Total value: '', Chalk yellowBright [Lit ''$''],
            Chalk yellow [round_1000 (totalValue js)]]])))"

definition summary_callback :: "string list \<Rightarrow> unit io" where
  "summary_callback args =
     bind (api_req [Lit ''portfolio/summary''] ''GET'' No_body)
       (\<lambda>a. case a of
               None \<Rightarrow> ret ()
             | Some a \<Rightarrow>
                 if \<not> ok a then api_error a
                 else (case json a of
                         Summary_json _ _ _ _ \<Rightarrow> summary_report (json a)
                       | _ \<Rightarrow> unmodelled))"

definition redeem_callback :: "string list \<Rightarrow> unit io" where
  "redeem_callback args =
     bind (api_req [Lit ''promo/verify''] ''POST''
             (Json_text [(''code'', str_or_undefined (fst (shift args)))]))
       (\<lambda>a. case a of
               None \<Rightarrow> ret ()
             | Some a \<Rightarrow>
                 if \<not> ok a then api_error a
                 else (case json a of
                         Promo_json m \<Rightarrow> console_log [[Val (Str m)]]
                       | _ \<Rightarrow> unmodelled))"

definition daily_reward_callback :: "string list \<Rightarrow> unit io" where
  "daily_reward_callback args =
     bind (api_req [Lit ''rewards/claim''] ''POST'' No_body)
       (\<lambda>a. case a of
               None \<Rightarrow> ret ()
             | Some a \<Rightarrow>
                 if \<not> ok a then api_error a
                 else (case json a of
                         Reward_json claimed balance reward \<Rightarrow>
                           console_log [[Chalk greenBright [Lit ''Redeemed''], Lit '' '', num claimed,
                             Lit ('' rewards'' @ [CHR 0x0A] @ ''New balance: ''), Chalk yellow [Lit ''$''],
                             Chalk yellowBright [num balance], Lit '' (+'',
                             Chalk yellowBright [num reward], Lit '')'']]
                       | _ \<Rightarrow> unmodelled))"

definition notification_line :: "notification \<Rightarrow> log_line" where
  "notification_line notif =
     [[Chalk bold [Val (Str (notif_title notif))], Lit [CHR 0x0A], Val (Str (notif_message notif))]]"

definition notifications_callback :: "string list \<Rightarrow> unit io" where
  "notifications_callback args =
     bind (api_req [Lit ''notifications''] ''GET'' No_body)
       (\<lambda>a. case a of
               None \<Rightarrow> ret ()
             | Some a \<Rightarrow>
                 if \<not> ok a then api_error a
                 else (case json a of
                         Notifications_json unread notifs \<Rightarrow>
                           seq (console_log [[Chalk bold [Lit ''Notifications''], Lit '' '',
                                  Chalk bgRedBright [num unread]]])
                          (seq (console_log [[Chalk italic [Lit ''Unread'']]])
                          (seq (for_each (\<lambda>notif. if \<not> notif_isRead notif
                                   then console_log (notification_line notif) else ret ()) notifs)
                          (seq (console_log [[Chalk italic [Lit ''Read'']]])
                               (for_each (\<lambda>notif. if notif_isRead notif
                                   then console_log (notification_line notif) else ret ()) notifs))))
                       | _ \<Rightarrow> unmodelled))"


subsection \<open>\<^verbatim>\<open>new-coin\<close>, \<^verbatim>\<open>settings\<close>, \<^verbatim>\<open>me\<close>\<close>

definition new_coin_callback :: "string list \<Rightarrow> unit io" where
  "new_coin_callback args =
     (case args of
        [name, symb, icon] \<Rightarrow>
          bind (try_catch (bind (mk_file icon) (\<lambda>f. ret (Some f)))
                  (\<lambda>e. seq (console_log [[Chalk redBright [Lit ''Error whilst creating logo file''], Lit '':'']])
                      (seq (console_log [[Val (Err e)]]) (ret None))))
            (\<lambda>f. case f of
                    None \<Rightarrow> ret ()
                  | Some f \<Rightarrow>
                      bind (api_req [Lit ''coin/create''] ''POST''
                              (Form_data [(''name'', Field (Str name)), (''symbol'', Field (Str symb)),
                                          (''icon'', File_part f)]))
                        (\<lambda>a. case a of
                                None \<Rightarrow> ret ()
                              | Some a \<Rightarrow>
                                  if \<not> ok a then api_error a
                                  else (case json a of
                                          Created_json csym fee msg \<Rightarrow>
                                            console_log [[Chalk greenBright [Lit ''Created''], Lit '' '',
                                              Chalk bgWhite [Val (Str csym)], Lit '' (-'',
                                              Chalk redBright [num fee], Lit ('')'' @ [CHR 0x0A]),
                                              Val (Str msg)]]
                                        | _ \<Rightarrow> unmodelled)))
      | _ \<Rightarrow> console_log [[Lit ''Invalid argument length'']])"

definition settings_callback :: "string list \<Rightarrow> unit io" where
  "settings_callback args =
     (case args of
        name # user # filePath # bio # rest \<Rightarrow>
          bind me
            (\<lambda>u. case u of
                    None \<Rightarrow> ret ()
                  | Some u \<Rightarrow>
                      (let form1 = (if name \<noteq> ''none'' then [(''name'', Field (Str name))]
                                    else [(''name'', Field (Str (data3 u)))]);
                           form2 = (if user \<noteq> ''none'' then form1 @ [(''username'', Field (Str user))]
                                    else form1)
                       in bind (if filePath \<noteq> ''none'' then
                                  try_catch (bind (mk_file filePath)
                                               (\<lambda>f. ret (Some (form2 @ [(''avatar'', File_part f)]))))
                                    (\<lambda>err. seq (console_log [[Chalk redBright [Lit ''Error whilst creating File:'']]])
                                        (seq (console_log [[Val (Err err)]]) (ret None)))
                                else ret (Some form2))
                            (\<lambda>form3. case form3 of
                                        None \<Rightarrow> ret ()
                                      | Some form3 \<Rightarrow>
                                          (let form4 = (if bio \<noteq> ''none''
                                                        then form3 @ [(''bio'', Field (Str (join_rest bio rest)))]
                                                        else form3)
                                           in bind (api_req [Lit ''settings''] ''POST'' (Form_data form4))
                                                (\<lambda>a. case a of
                                                        None \<Rightarrow> ret ()
                                                      | Some a \<Rightarrow>
                                                          if \<not> ok a then api_error a
                                                          else console_log [[Chalk greenBright [Lit ''Updated settings'']]])))))
      | _ \<Rightarrow> console_log [[Lit ''Invalid command parameters'']])"

definition me_callback :: "string list \<Rightarrow> unit io" where
  "me_callback args =
     bind me
       (\<lambda>js. case js of
                None \<Rightarrow> ret ()
              | Some js \<Rightarrow>
                  console_log [[Chalk bold [Val (Str (data3 js))], Lit '' '',
                    Chalk italic [Lit ''(@'', Val (Str (data4 js)), Lit '')''], Lit [CHR 0x0A],
                    Val (Str (data10 js))]])"

subsection \<open>\<^verbatim>\<open>invest\<close>\<close>

text \<open>
  The loop of \<^verbatim>\<open>invest\<close>: while \<^verbatim>\<open>i < limit\<close>, one BUY for \<^verbatim>\<open>json.coins[i]\<close>. Past the
  end of the array \<^verbatim>\<open>json.coins[i]\<close> is undefined and reading its \<^verbatim>\<open>symbol\<close> throws. A
  call that gives undefined or a response that is not ok returns from the command.
\<close>

function invest_loop :: "number \<Rightarrow> number \<Rightarrow> coin list \<Rightarrow> nat \<Rightarrow> unit io" where
  "invest_loop limit amount cs i w =
     (if num_lt (Fin (real i)) limit then
        (if i < length cs then
           (let symbol = coin_symbol (cs ! i) in
            case api_req [Lit ''coin/'', Val (Str symbol), Lit ''/trade''] ''POST''
                   (Json_text [(''type'', Str ''BUY''), (''amount'', Num amount)]) w of
              Ret a w1 \<Rightarrow>
                (case a of
                   None \<Rightarrow> Ret () w1
                 | Some a \<Rightarrow>
                     if \<not> ok a then api_error a w1
                     else (case console_log [[Lit '' Invested in '', Chalk bgWhite [Val (Str symbol)],
                                  Lit '' (-'', Chalk redBright [Val (Num amount)], Lit '')'']] w1 of
                             Ret _ w2 \<Rightarrow> invest_loop limit amount cs (Suc i) w2
                           | Throw e w2 \<Rightarrow> Throw e w2
                           | Unmodelled w2 \<Rightarrow> Unmodelled w2))
            | Throw e w1 \<Rightarrow> Throw e w1
            | Unmodelled w1 \<Rightarrow> Unmodelled w1)
         else Throw TypeError w)
      else Ret () w)"
  by pat_completeness auto
termination
  by (relation "measure (\<lambda>(limit, amount, cs, i, w). length cs - i)") auto

declare invest_loop.simps [simp del]

definition invest_callback :: "string list \<Rightarrow> unit io" where
  "invest_callback args =
     (case args of
        b # am # rest \<Rightarrow>
          (let budget = parseFloat b in
           if Number_isNaN budget then ret ()
           else
             let amount = parseFloat am in
             if Number_isNaN amount then ret ()
             else
               let limit = Math_floor (num_div budget amount);
                   page = (case rest of [] \<Rightarrow> ''1'' | p # _ \<Rightarrow> p)
               in bind (api_req [Lit ''market?search=&sortBy=marketCap&sortOrder=desc&priceFilter=all&changeFilter=all&page='',
                                 Val (Str page), Lit ''&limit='', Val (Num limit)] ''GET'' No_body)
                    (\<lambda>a. case a of
                            None \<Rightarrow> ret ()
                          | Some a \<Rightarrow>
                              if \<not> ok a then api_error a
                              else (case json a of
                                      Market_json _ cs \<Rightarrow>
                                        seq (console_log [[Lit ''Investing in '', Chalk greenBright [Val (Num limit)],
                                               Lit '' coins at the top of the marketplace'']])
                                            (invest_loop limit amount cs 0)
                                    | _ \<Rightarrow> unmodelled)))
      | _ \<Rightarrow> console_log [[Lit ''Invald paramteres to command'']])"


subsection \<open>\<^verbatim>\<open>view-user\<close>\<close>

definition str_or_null :: "string option \<Rightarrow> jsval" where
  "str_or_null x = (case x of None \<Rightarrow> Null | Some s \<Rightarrow> Str s)"

text \<open>The variable \<^verbatim>\<open>dayChange\<close> of the loop over \<^verbatim>\<open>json.createdCoins\<close>.\<close>

definition view_user_dayChange :: "coin \<Rightarrow> part" where
  "view_user_dayChange c =
     (if coin_change24h c > 0 then Chalk bgGreen [Lit ''^ '', num (coin_change24h c)]
      else if coin_change24h c = 0 then Chalk bgGray [Lit ''- '', num (coin_change24h c)]
      else Chalk bgRedBright [Lit ''v '', num (coin_change24h c)])"

text \<open>
  \<^verbatim>\<open>json.createdCoins > 0\<close> compares an array of objects with a number: the array becomes
  a string, the empty one or one made of \<^verbatim>\<open>[object Object]\<close>, and that string a number,
  0 or NaN. The comparison is false for every array of objects.
\<close>

definition objects_gt_zero :: "coin list \<Rightarrow> bool" where
  "objects_gt_zero cs = False"

definition view_user_coin_line :: "coin \<Rightarrow> log_line" where
  "view_user_coin_line c =
     [[Lit ''  '', Chalk bgWhite [], Lit '' ('', Val (Builtin ''chalk.name''), Lit '') | '',
       Chalk yellow [Lit ''$''],
       Chalk yellowBright [round_1000 (coin_currentPrice c)],
       Lit '' | '', view_user_dayChange c, Lit '' | '',
       floor_1000 (coin_marketCap c)]]"

definition view_user_transaction :: "recent \<Rightarrow> unit io" where
  "view_user_transaction t =
     (if recent_type t = ''BUY'' then
        console_log [[Lit ''  '', Chalk bgGreen [Lit ''Buy''], Lit '' '',
          round_1000 (recent_quantity t), Lit '' '',
          Chalk bgWhite [Val (Str (recent_coinSymbol t))], Lit '' for '', Chalk yellow [Lit ''$''],
          Chalk yellowBright [num (recent_totalBaseCurrencyAmount t)]]]
      else if recent_type t = ''TRANSFER_OUT'' then
        console_log [[Lit ''  '', Chalk bgBlue [Lit ''Transferred''], Lit '' ''] @
          (if recent_coinName t = ''LINKCOIN''
           then [Chalk yellow [Lit ''$''],
                 Chalk yellowBright [round_1000 (recent_totalBaseCurrencyAmount t)]]
           else [round_1000 (recent_quantity t), Lit '' '',
                 Chalk bgWhite [Val (Str (recent_coinSymbol t))]]) @
          [Lit '' to '', Chalk bold [Val (str_or_null (recent_recipientUsername t))], Lit '' '']]
      else if recent_type t = ''SELL'' then
        console_log [[Lit ''  '', Chalk bgRedBright [Lit ''Sell''], Lit '' '',
          round_1000 (recent_quantity t), Lit '' '',
          Chalk bgWhite [Val (Str (recent_coinSymbol t))], Lit '' for '', Chalk yellow [Lit ''$''],
          Chalk yellowBright [num (recent_totalBaseCurrencyAmount t)]]]
      else if recent_type t = ''TRANSFER_IN'' then
        console_log [[Lit ''  '', Chalk bgBlue [Lit ''Received''], Lit '' ''] @
          (if recent_coinName t = ''LINKCOIN''
           then [Chalk yellow [Lit ''$''],
                 Chalk yellowBright [round_1000 (recent_totalBaseCurrencyAmount t)]]
           else [round_1000 (recent_quantity t), Lit '' '',
                 Chalk bgWhite [Val (Str (recent_coinSymbol t))]]) @
          [Lit '' from '', Chalk bold [Val (str_or_null (recent_senderUsername t))]]]
      else ret ())"

text \<open>What \<^verbatim>\<open>view-user\<close> prints once it has the reply (lines 466 to 507).\<close>

definition view_user_report :: "payload \<Rightarrow> unit io" where
  "view_user_report js =
     seq (console_log [[Chalk bold [Val (Str (profile_name (user_profile js)))], Lit '' (@'',
            Chalk italic [Val (Str (profile_username (user_profile js)))], Lit '') '',
            (if profile_isAdmin (user_profile js) = True then Chalk bgRedBright [Lit ''ADMIN''] else Lit [])]])
    (seq (console_log [[Val (Str (profile_bio (user_profile js)))]])
    (seq (console_log [[Lit ''Total portfolio: '', Chalk yellowBright [Lit ''$''],
            Chalk yellow [round_1000 (totalPortfolioValue (user_stats js))]]])
    (seq (console_log [[Lit ''Illiquid value: '', Chalk yellowBright [Lit ''$''],
            Chalk yellow [round_1000 (holdingsValue (user_stats js))]]])
    (seq (console_log [[Lit ''Liquid value: '', Chalk yellowBright [Lit ''$''],
            Chalk yellow [floor_1000 (profile_baseCurrencyBalance (user_profile js))]]])
    (seq (console_log [[Lit ''Buy volume: '', Chalk yellowBright [Lit ''$''],
            Chalk yellow [Val (Num (Math_floor (Fin (totalBuyVolume (user_stats js)))))]]])
    (seq (console_log [[Lit ''Sell volume: '', Chalk yellowBright [Lit ''$''],
            Chalk yellow [floor_1000 (totalSellVolume (user_stats js))]]])
    (seq (console_log [[num (coinsCreated (user_stats js)), Lit '' created coins'']])
    (seq (if objects_gt_zero (createdCoins js)
          then console_log [[Lit ''  Symbol (Name) | Price | 24h Change | Market cap'']]
          else ret ())
    (seq (for_each (\<lambda>c. console_log (view_user_coin_line c)) (createdCoins js))
    (seq (console_log [[Lit ''Recent transactions'']])
         (for_each view_user_transaction (recentTransactions js))))))))))))"

definition view_user_callback :: "string list \<Rightarrow> unit io" where
  "view_user_callback args =
     (case args of
        [user] \<Rightarrow>
          bind (api_req [Lit ''user/'', Val (Str user)] ''GET'' No_body)
            (\<lambda>a. case a of
                    None \<Rightarrow> ret ()
                  | Some a \<Rightarrow>
                      if \<not> ok a then api_error a
                      else (case json a of
                              User_json _ _ _ _ \<Rightarrow> view_user_report (json a)
                            | _ \<Rightarrow> unmodelled))
      | _ \<Rightarrow> console_log [[Lit ''Invalid parameters to command'']])"

subsection \<open>\<^verbatim>\<open>market\<close>\<close>

text \<open>
  \<^verbatim>\<open>encodeURIComponent\<close> on a string of UTF-8 bytes: letters, digits and
  \<^verbatim>\<open>- _ . ! ~ * ' ( )\<close> stay, every other byte becomes a percent sign and two hex digits.
\<close>

definition unreserved :: "char \<Rightarrow> bool" where
  "unreserved c =
     (let n = (of_char c :: nat) in
      (65 \<le> n \<and> n \<le> 90) \<or> (97 \<le> n \<and> n \<le> 122) \<or> (48 \<le> n \<and> n \<le> 57)
      \<or> c \<in> set [CHR ''-'', CHR ''_'', CHR ''.'', CHR ''!'', CHR ''~'', CHR ''*'', CHR 0x27,
                   CHR ''('', CHR '')''])"

definition hex_digit :: "nat \<Rightarrow> char" where
  "hex_digit n = ''0123456789ABCDEF'' ! (n mod 16)"

fun encodeURIComponent :: "string \<Rightarrow> string" where
  "encodeURIComponent [] = []"
| "encodeURIComponent (c # s) =
     (if unreserved c then c # encodeURIComponent s
      else CHR ''%'' # hex_digit (of_char c div 16) # hex_digit (of_char c mod 16)
             # encodeURIComponent s)"

text \<open>The variable \<^verbatim>\<open>dayChange\<close> of the loop over \<^verbatim>\<open>json.coins\<close>.\<close>

definition market_dayChange :: "coin \<Rightarrow> part" where
  "market_dayChange c =
     (if coin_change24h c > 0 then Chalk bgGreen [Lit ''^ '', num (coin_change24h c)]
      else if coin_change24h c = 0 then Chalk bgGray [Lit ''- '', num (coin_change24h c)]
      else Chalk bgRedBright [Lit ''v '', num (coin_change24h c)])"

definition market_line :: "coin \<Rightarrow> log_line" where
  "market_line c =
     [[Lit ''  '', Chalk bgWhite [Val (Str (coin_symbol c))], Lit '' ('', Val (Str (coin_name c)),
       Lit '') | '', Chalk yellowBright [Lit ''$''],
       Chalk yellow [round_1000 (coin_currentPrice c)],
       Lit '' | '', market_dayChange c, Lit '' | '', num (coin_marketCap c), Lit '' | @'',
       Chalk bold [Val (Str (coin_creatorName c))]]]"

definition market_callback :: "string list \<Rightarrow> unit io" where
  "market_callback args =
     (let (p, args1) = shift args;
          page = (case p of None \<Rightarrow> ''1'' | Some t \<Rightarrow> t);
          (x, args2) = shift args1;
          item = join_rest (case x of None \<Rightarrow> [] | Some t \<Rightarrow> t) args2;
          item = encodeURIComponent item
      in bind (api_req [Lit ''market?search='', Val (Str item),
                        Lit ''&sortBy=marketCap&sortOrder=desc&priceFilter=all&changeFilter=all&page='',
                        Val (Str page), Lit ''&limit=6''] ''GET'' No_body)
           (\<lambda>a. case a of
                   None \<Rightarrow> ret ()
                 | Some a \<Rightarrow>
                     if \<not> ok a then api_error a
                     else (case json a of
                             Market_json pages cs \<Rightarrow>
                               seq (console_log [[Chalk bold [Lit ''Market''], Lit '' (page '',
                                      Val (Str page), Lit '' of '', num pages, Lit '')'']])
                              (seq (console_log [[Lit ''  Symbol (Name) | Current price | Change 24h | Market cap | Creator name'']])
                                   (for_each (\<lambda>c. console_log (market_line c)) cs))
                           | _ \<Rightarrow> unmodelled)))"

subsection \<open>\<^verbatim>\<open>buy-coin\<close> and \<^verbatim>\<open>sell-coin\<close>\<close>

definition buy_coin_callback :: "string list \<Rightarrow> unit io" where
  "buy_coin_callback args =
     (case args of
        [coin, amount] \<Rightarrow>
          bind (api_req [Lit ''coin/'', Val (Str coin), Lit ''/trade''] ''POST''
                  (Json_text [(''type'', Str ''BUY''), (''amount'', Num (parseFloat amount))]))
            (\<lambda>a. case a of
                    None \<Rightarrow> ret ()
                  | Some a \<Rightarrow>
                      if \<not> ok a then api_error a
                      else (case json a of
                              Trade_json sold balance \<Rightarrow>
                                seq (console_log [[Lit ''Bought '', num sold, Lit '' '',
                                       Chalk bgWhite [Val (Str coin)], Lit '' '',
                                       Chalk greenBright [Lit ''successfully''], Lit ''.'']])
                                    (console_log [[Lit ''New balance: '', Chalk yellow [Lit ''$''],
                                       Chalk yellowBright [num balance], Lit '' (-'',
                                       Chalk redBright [Val (Str amount)], Lit '')'']])
                            | _ \<Rightarrow> unmodelled))
      | _ \<Rightarrow> console_log [[Lit ''Invalid command parameters'']])"

definition sell_coin_callback :: "string list \<Rightarrow> unit io" where
  "sell_coin_callback args =
     (case args of
        [coin, amount] \<Rightarrow>
          bind (api_req [Lit ''coin/'', Val (Str coin), Lit ''/trade''] ''POST''
                  (Json_text [(''type'', Str ''SELL''), (''amount'', Num (parseFloat amount))]))
            (\<lambda>a. case a of
                    None \<Rightarrow> ret ()
                  | Some a \<Rightarrow>
                      if \<not> ok a then api_error a
                      else (case json a of
                              Trade_json sold balance \<Rightarrow>
                                seq (console_log [[Lit ''Sold '', num sold, Lit '' '',
                                       Chalk bgWhite [Val (Str coin)], Lit '' '',
                                       Chalk greenBright [Lit ''successfully''], Lit ''.'']])
                                    (console_log [[Lit ''New balance: '', Chalk yellow [Lit ''$''],
                                       Chalk yellowBright [num balance], Lit '' (+'',
                                       Chalk greenBright [Val (Str amount)], Lit '')'']])
                            | _ \<Rightarrow> unmodelled))
      | _ \<Rightarrow> console_log [[Lit ''Invalid command parameters'']])"


subsection \<open>\<^verbatim>\<open>portfolio\<close>\<close>

text \<open>The variables \<^verbatim>\<open>percentageChange\<close> and \<^verbatim>\<open>dayChange\<close> of the loop over the holdings.\<close>

definition portfolio_percentageChange :: "holding \<Rightarrow> part" where
  "portfolio_percentageChange h =
     (if holding_percentageChange h > 0 then Chalk bgGreen [Lit ''^ '', num (holding_percentageChange h)]
      else if holding_percentageChange h = 0 then Chalk bgGray [Lit ''- '', num (holding_percentageChange h)]
      else Chalk bgRedBright [Lit ''v '', num (holding_percentageChange h)])"

definition portfolio_dayChange :: "holding \<Rightarrow> part" where
  "portfolio_dayChange h =
     (if holding_change24h h > 0 then Chalk bgGreen [Lit ''^ '', num (holding_change24h h)]
      else if holding_change24h h = 0 then Chalk bgGray [Lit ''- '', num (holding_change24h h)]
      else Chalk bgRedBright [Lit ''v '', num (holding_change24h h)])"

definition portfolio_holding_line :: "holding \<Rightarrow> log_line" where
  "portfolio_holding_line h =
     [[Lit ''  '', Chalk bgWhite [Val (Str (holding_symbol h))], Lit '' | '',
       round_1000 (holding_quantity h), Lit '' | '',
       Chalk yellow [Lit ''$''], Chalk yellowBright [num (holding_currentPrice h)], Lit '' | '',
       portfolio_percentageChange h, Lit '' | '', portfolio_dayChange h, Lit '' | '',
       Chalk yellow [Lit ''$''],
       Chalk yellowBright [round_1000 (holding_value h)]]]"

text \<open>
  A row of the transaction log. \<^verbatim>\<open>t.recipientUser.username\<close> throws when the user is
  null.
\<close>

definition portfolio_transaction :: "transaction \<Rightarrow> unit io" where
  "portfolio_transaction t =
     (if trans_type t = ''BUY'' then
        console_log [[Lit ''  '', Chalk bgGreen [Lit ''Buy''], Lit '' '',
          round_1000 (trans_quantity t), Lit '' '',
          Chalk bgWhite [Val (Str (trans_coin_symbol t))], Lit '' for '', Chalk yellow [Lit ''$''],
          Chalk yellowBright [num (trans_totalBaseCurrencyAmount t)]]]
      else if trans_type t = ''TRANSFER_OUT'' then
        (case trans_recipientUser t of
           None \<Rightarrow> throw TypeError
         | Some username \<Rightarrow>
             console_log [[Lit ''  '', Chalk bgBlue [Lit ''Transferred''], Lit '' ''] @
               (if trans_coin_id t = 1
                then [Chalk yellow [Lit ''$''],
                      Chalk yellowBright [round_1000 (trans_totalBaseCurrencyAmount t)]]
                else [round_1000 (trans_quantity t), Lit '' '',
                      Chalk bgWhite [Val (Str (trans_coin_symbol t))]]) @
               [Lit '' to '', Chalk bold [Val (Str username)], Lit '' '']])
      else if trans_type t = ''SELL'' then
        console_log [[Lit ''  '', Chalk bgRedBright [Lit ''Sell''], Lit '' '',
          round_1000 (trans_quantity t), Lit '' '',
          Chalk bgWhite [Val (Str (trans_coin_symbol t))], Lit '' for '', Chalk yellow [Lit ''$''],
          Chalk yellowBright [num (trans_totalBaseCurrencyAmount t)]]]
      else if trans_type t = ''TRANSFER_IN'' then
        (case trans_senderUser t of
           None \<Rightarrow> throw TypeError
         | Some username \<Rightarrow>
             console_log [[Lit ''  '', Chalk bgBlue [Lit ''Received''], Lit '' ''] @
               (if trans_coin_id t = 1
                then [Chalk yellow [Lit ''$''],
                      Chalk yellowBright [round_1000 (trans_totalBaseCurrencyAmount t)]]
                else [round_1000 (trans_quantity t), Lit '' '',
                      Chalk bgWhite [Val (Str (trans_coin_symbol t))]]) @
               [Lit '' from '', Chalk bold [Val (Str username)]]])
      else ret ())"

text \<open>What \<^verbatim>\<open>portfolio\<close> prints once both replies are ok (lines 625 to 671).\<close>

definition portfolio_report :: "response \<Rightarrow> response \<Rightarrow> unit io" where
  "portfolio_report a b =
     (case json a of
        Summary_json _ _ _ _ \<Rightarrow>
          seq (console_log [[Chalk bold [Lit ''Portfolio'']]])
         (seq (console_log [[Lit ''Balance: '', Chalk yellowBright [Lit ''$''],
                 Chalk yellow [round_1000 (baseCurrencyBalance (json a))]]])
         (seq (console_log [[Lit ''Total coin value: '', Chalk yellowBright [Lit ''$''],
                 Chalk yellow [round_1000 (totalCoinValue (json a))]]])
         (seq (console_log [[Lit ''Total value: '', Chalk yellowBright [Lit ''$''],
                 Chalk yellow [round_1000 (totalValue (json a))]]])
         (seq (console_log [[Lit ''Coin holdings'']])
         (seq (console_log [[Lit ''  Symbol | Quantity Owned | Price | P&L% | 24h Change | Value'']])
         (seq (for_each (\<lambda>h. console_log (portfolio_holding_line h)) (coinHoldings (json a)))
         (seq (console_log [[Lit ''Transactions'']])
              (case json b of
                 Transactions_json ts \<Rightarrow> for_each portfolio_transaction ts
               | _ \<Rightarrow> unmodelled))))))))
      | _ \<Rightarrow> unmodelled)"

definition portfolio_callback :: "string list \<Rightarrow> unit io" where
  "portfolio_callback args =
     bind (api_req [Lit ''portfolio/total''] ''GET'' No_body)
       (\<lambda>a. bind (api_req [Lit ''transactions''] ''GET'' No_body)
          (\<lambda>b. case a of
                  None \<Rightarrow> ret ()
                | Some a \<Rightarrow>
                    (case b of
                       None \<Rightarrow> ret ()
                     | Some b \<Rightarrow>
                         if \<not> ok a then api_error a
                         else if \<not> ok b then api_error b
                         else portfolio_report a b)))"

subsection \<open>The table of commands\<close>

record command =
  desc :: string
  arg_names :: "string list"
  callback :: "string list \<Rightarrow> unit io"

text \<open>
  The names, descriptions and parameter names of \<^verbatim>\<open>commands\<close>, in the order of insertion:
  what the callback of \<^verbatim>\<open>commands\<close> reads of the map it belongs to.
\<close>

definition command_info :: "(string \<times> string \<times> string list) list" where
  "command_info =
     [(''commands'', ''lists commands'', []),
      (''set-cookie'', ''sets your cookie for API requests, you can find this in the request headers on rugplay.com in network'', [''new-cookie'']),
      (''coinflip'', ''attempts a coinflip on your account with the given side (0=heads, 1=tails) and amount'', [''attempted-side'', ''amount'']),
      (''slots'', ''attempts a slot machine roll on your account with the given amount'', [''amount'']),
      (''summary'', ''returns a summary of your portfolio'', []),
      (''redeem'', ''redeems promotion code'', [''code'']),
      (''new-coin'', ''attempts to create a new coin'', [''name'', ''symbol'', ''icon-path'']),
      (''settings'', ''updates your user settings (set fields to 'none' if you don't want to update them) note: updating the profile picture is slow and takes 10-20 minutes for Rugplay to update it, also it takes a path on your computer'', [''name'', ''username'', ''avatar'', ''bio'']),
      (''me'', ''returns things like your username, id, etc.'', []),
      (''daily-reward'', ''attempts to claim daily reward'', []),
      (''notifications'', ''lists notifications'', []),
      (''invest'', ''invests in the most possible coins with a given budget and amount to spend on each coin'', [''budget'', ''amt'', ''page'']),
      (''view-user'', ''views a user's stats by username (not display name)'', [''user'']),
      (''market'', ''searches the market for the given search term or lists the top coins'', [''page'', ''search-item'']),
      (''buy-coin'', ''buys the given coin (by symbol) with the given amount'', [''symbol'', ''amount'']),
      (''sell-coin'', ''buys the given coin (by symbol) with the given amount'', [''symbol'', ''amount'']),
      (''portfolio'', ''returns all your portfolio information'', [])]"

text \<open>The loop that builds \<^verbatim>\<open>args_buf\<close>: the names, a comma and a space between two.\<close>

fun args_buf :: "string list \<Rightarrow> string" where
  "args_buf [] = []"
| "args_buf [x] = x"
| "args_buf (x # y # r) = x @ '', '' @ args_buf (y # r)"

definition commands_callback :: "string list \<Rightarrow> unit io" where
  "commands_callback args =
     seq (console_log [[Lit ''Available commands:'']])
         (for_each (\<lambda>(k, d, ns). console_log [[Chalk bold [Val (Str k)], Lit ''('',
                       Val (Str (args_buf ns)), Lit ''):''], [Val (Str d)]])
            command_info)"

definition handlers :: "(string \<times> (string list \<Rightarrow> unit io)) list" where
  "handlers =
     [(''commands'', commands_callback),
      (''set-cookie'', set_cookie_callback),
      (''coinflip'', coinflip_callback),
      (''slots'', slots_callback),
      (''summary'', summary_callback),
      (''redeem'', redeem_callback),
      (''new-coin'', new_coin_callback),
      (''settings'', settings_callback),
      (''me'', me_callback),
      (''daily-reward'', daily_reward_callback),
      (''notifications'', notifications_callback),
      (''invest'', invest_callback),
      (''view-user'', view_user_callback),
      (''market'', market_callback),
      (''buy-coin'', buy_coin_callback),
      (''sell-coin'', sell_coin_callback),
      (''portfolio'', portfolio_callback)]"

text \<open>The map \<^verbatim>\<open>commands\<close>: each name with its description, parameter names and callback.\<close>

definition commands :: "(string \<times> command) list" where
  "commands =
     map (\<lambda>((k, d, ns), (_, f)). (k, \<lparr>desc = d, arg_names = ns, callback = f\<rparr>))
       (zip command_info handlers)"

section \<open>The read-eval-print loop\<close>

text \<open>
  One turn of the loop for a line that \<^verbatim>\<open>prompt\<close> returned: the line is split at the
  spaces; a first token that is no command is reported; otherwise the command runs on
  the rest of the tokens.
\<close>

definition repl_step :: "string \<Rightarrow> unit io" where
  "repl_step input_raw =
     (case split_on (CHR '' '') input_raw of
        [] \<Rightarrow> ret ()
      | tok # rest \<Rightarrow>
          (case map_of commands tok of
             None \<Rightarrow>
               console_log [[Chalk redBright [Lit ''Command''], Lit '' '',
                 Chalk green [Val (Str (CHR 0x22 # tok @ [CHR 0x22]))], Lit '' '',
                 Chalk redBright [Lit ''does not exist''],
                 Lit ''. Type 'commands' to list commands.'']]
           | Some c \<Rightarrow> callback c rest))"

text \<open>
  The loop: the lines that \<^verbatim>\<open>prompt\<close> returns one after the other, until it returns
  null at the end of the input. An exception that a command throws is caught nowhere and
  ends the run.
\<close>

definition repl :: "string list \<Rightarrow> unit io" where
  "repl input = for_each repl_step input"

definition main :: "string list \<Rightarrow> unit io" where
  "main input =
     seq startup
    (seq (console_log [[Chalk bold [Chalk yellow [Lit ''Rugplay''], Lit '' API'']]])
    (seq (case map_of commands ''commands'' of None \<Rightarrow> ret () | Some c \<Rightarrow> callback c [])
         (repl input)))"


section \<open>What a run leaves behind\<close>

text \<open>The state a computation ended in, however it ended.\<close>

fun final :: "'a outcome \<Rightarrow> world" where
  "final (Ret x w) = w"
| "final (Throw e w) = w"
| "final (Unmodelled w) = w"

text \<open>The requests and the console lines a computation added to those of \<open>w\<close>.\<close>

definition sent :: "'a io \<Rightarrow> world \<Rightarrow> request list" where
  "sent m w = drop (length (network w)) (network (final (m w)))"

definition printed :: "'a io \<Rightarrow> world \<Rightarrow> log_line list" where
  "printed m w = drop (length (console w)) (console (final (m w)))"

text \<open>
  A computation that changes nothing except the console, to which it adds lines; it may
  return, throw or leave the model.
\<close>

definition console_only :: "'a io \<Rightarrow> bool" where
  "console_only m = (\<forall>w. \<exists>ls. final (m w) = w\<lparr>console := console w @ ls\<rparr>)"


text \<open>
  A state to start a run from: the home directory exists and can be written, no file is
  there yet, nothing was printed or sent; the server and the cookie are given.
\<close>

definition fresh_world :: "(nat \<Rightarrow> request \<Rightarrow> reply) \<Rightarrow> string option \<Rightarrow> world" where
  "fresh_world srv c =
     \<lparr>env = (\<lambda>_. None)(''HOME'' := Some ''/home/user''), files = (\<lambda>_. Missing),
      dirs = (\<lambda>_. True), can_mkdir = (\<lambda>_. True), can_write = (\<lambda>_. True), server = srv,
      config = \<lparr>cookie = c\<rparr>, console = [], network = []\<rparr>"


text \<open>
  What a new process finds after the old one ended: the files, the directories, the
  environment and the server are as they were left; nothing is printed or sent yet. The
  variable \<^verbatim>\<open>config\<close> does not exist before \<open>startup\<close> sets it; the field holds a
  placeholder until then.
\<close>

definition new_process :: "world \<Rightarrow> world" where
  "new_process w = w\<lparr>config := \<lparr>cookie = None\<rparr>, console := [], network := []\<rparr>"

text \<open>Whether a computation ended by returning.\<close>

fun returned :: "'a outcome \<Rightarrow> bool" where
  "returned (Ret x w) = True"
| "returned (Throw e w) = False"
| "returned (Unmodelled w) = False"

text \<open>
  The spec's words for a currency value, not the source's: \<^verbatim>\<open>round(x*1000)/1000\<close>, in
  the arithmetic of the program.
\<close>

definition spec_currency :: "real \<Rightarrow> number" where
  "spec_currency x = num_div (Math_round (num_mul (Fin x) (Fin 1000))) (Fin 1000)"

text \<open>The error a computation threw, if it threw.\<close>

fun thrown :: "'a outcome \<Rightarrow> error option" where
  "thrown (Throw e w) = Some e"
| "thrown (Ret x w) = None"
| "thrown (Unmodelled w) = None"

text \<open>
  The count of \<^verbatim>\<open>invest\<close> as line 411 computes it from the two arguments, and the
  requests of \<^verbatim>\<open>invest\<close>, as the gateway sends them: the one for the page of the
  market, and a BUY of a coin. \<open>after_buys\<close> is the state after the BUYs of the coins
  \<open>i\<close> to \<open>j - 1\<close> of the page went well: the requests sent, a line printed for each.
\<close>

definition invest_limit :: "string \<Rightarrow> string \<Rightarrow> number" where
  "invest_limit b am = Math_floor (num_div (parseFloat b) (parseFloat am))"

definition invest_market_request :: "world \<Rightarrow> string \<Rightarrow> number \<Rightarrow> request" where
  "invest_market_request w page limit =
     \<lparr>url = [Lit ''https://rugplay.com/api/'',
             Lit ''market?search=&sortBy=marketCap&sortOrder=desc&priceFilter=all&changeFilter=all&page='',
             Val (Str page), Lit ''&limit='', Val (Num limit)],
      http_method = ''GET'', headers = request_headers w, body = No_body\<rparr>"

definition buy_request :: "world \<Rightarrow> string \<Rightarrow> number \<Rightarrow> request" where
  "buy_request w symbol amount =
     \<lparr>url = [Lit ''https://rugplay.com/api/'', Lit ''coin/'', Val (Str symbol), Lit ''/trade''],
      http_method = ''POST'', headers = request_headers w,
      body = Json_text [(''type'', Str ''BUY''), (''amount'', Num amount)]\<rparr>"

definition invested_line :: "string \<Rightarrow> number \<Rightarrow> log_line" where
  "invested_line symbol amount =
     [[Lit '' Invested in '', Chalk bgWhite [Val (Str symbol)], Lit '' (-'',
       Chalk redBright [Val (Num amount)], Lit '')'']]"

definition after_buys :: "world \<Rightarrow> coin list \<Rightarrow> number \<Rightarrow> nat \<Rightarrow> nat \<Rightarrow> world" where
  "after_buys w cs amount i j =
     w\<lparr>console := console w @ map (\<lambda>k. invested_line (coin_symbol (cs ! k)) amount) [i..<j],
       network := network w @ map (\<lambda>k. buy_request w (coin_symbol (cs ! k)) amount) [i..<j]\<rparr>"

text \<open>
  A server to run \<^verbatim>\<open>invest\<close> against: it answers the first request of a run with a
  market page that lists the coins \<open>cs\<close>, rejects the request whose number is \<open>fail\<close>,
  and answers every other request with an ok response.
\<close>

definition five_coins :: "coin list" where
  "five_coins =
     [Coin ''AAA'' ''Alpha'' 5 1 500 ''ann'', Coin ''BBB'' ''Beta'' 4 0 400 ''bob'',
      Coin ''CCC'' ''Gamma'' 3 (- 1) 300 ''cy'', Coin ''DDD'' ''Delta'' 2 0 200 ''dee'',
      Coin ''EEE'' ''Epsilon'' 1 0 100 ''eve'']"

definition market_server :: "coin list \<Rightarrow> nat option \<Rightarrow> nat \<Rightarrow> request \<Rightarrow> reply" where
  "market_server cs fail n rq =
     (if n = 0 then Responds \<lparr>ok = True, body_text = [], json = Market_json 1 cs\<rparr>
      else if fail = Some n then Rejects
      else Responds \<lparr>ok = True, body_text = [], json = Trade_json 1 1\<rparr>)"

text \<open>
  The handlers that call the gateway before anything else, and those that first check
  their arguments. \<open>reaches_gateway\<close> says that the checks of a handler let the arguments
  through: \<^verbatim>\<open>new-coin\<close> wants three arguments and an icon it can read, \<^verbatim>\<open>invest\<close> two
  arguments that parse as numbers, \<^verbatim>\<open>view-user\<close> one argument, \<^verbatim>\<open>buy-coin\<close> and
  \<^verbatim>\<open>sell-coin\<close> two.
\<close>

definition readable :: "world \<Rightarrow> string \<Rightarrow> bool" where
  "readable w p = (case files w (Plain p) of Content c \<Rightarrow> True | _ \<Rightarrow> False)"

definition guarded_gateway_commands :: "string list" where
  "guarded_gateway_commands =
     [''coinflip'', ''slots'', ''summary'', ''redeem'', ''new-coin'', ''daily-reward'',
      ''notifications'', ''invest'', ''view-user'', ''market'', ''buy-coin'', ''sell-coin'']"

definition reaches_gateway :: "string \<Rightarrow> string list \<Rightarrow> world \<Rightarrow> bool" where
  "reaches_gateway name args w =
     (if name = ''new-coin'' then length args = 3 \<and> readable w (args ! 2)
      else if name = ''invest'' then
        2 \<le> length args \<and> \<not> Number_isNaN (parseFloat (args ! 0)) \<and> \<not> Number_isNaN (parseFloat (args ! 1))
      else if name = ''view-user'' then length args = 1
      else if name = ''buy-coin'' \<or> name = ''sell-coin'' then length args = 2
      else True)"

text \<open>The request of \<^verbatim>\<open>me()\<close>.\<close>

definition me_request :: "world \<Rightarrow> request" where
  "me_request w =
     \<lparr>url = [Lit ''https://rugplay.com/__data.json?x-sveltekit-trailing-slash=1&x-sveltekit-invalidated=10''],
      http_method = ''GET'', headers = request_headers w, body = No_body\<rparr>"

section \<open>Laws of the computations\<close>

lemma bind_Ret [simp]: "m w = Ret x w' \<Longrightarrow> bind m f w = f x w'"
  by (simp add: bind_def)

lemma bind_Throw [simp]: "m w = Throw e w' \<Longrightarrow> bind m f w = Throw e w'"
  by (simp add: bind_def)

lemma bind_Unmodelled [simp]: "m w = Unmodelled w' \<Longrightarrow> bind m f w = Unmodelled w'"
  by (simp add: bind_def)

lemma bind_ret [simp]: "bind (ret x) f = f x"
  by (rule ext) (simp add: bind_def ret_def)

lemma ret_apply [simp]: "ret x w = Ret x w"
  by (simp add: ret_def)

lemma throw_apply [simp]: "throw e w = Throw e w"
  by (simp add: throw_def)

lemma unmodelled_apply [simp]: "unmodelled w = Unmodelled w"
  by (simp add: unmodelled_def)

lemma seq_ret [simp]: "seq (ret ()) n = n"
  by (simp add: seq_def)

lemma seq_console_log [simp]: "seq (console_log l) n w = n (w\<lparr>console := console w @ [l]\<rparr>)"
  by (simp add: seq_def bind_def console_log_def)

subsection \<open>Computations that change the console only\<close>

lemma console_only_ret [simp]: "console_only (ret x)"
  unfolding console_only_def ret_def
  by (intro allI exI [where x = "[]"]) simp

lemma console_only_throw [simp]: "console_only (throw e)"
  unfolding console_only_def throw_def
  by (intro allI exI [where x = "[]"]) simp

lemma console_only_unmodelled [simp]: "console_only unmodelled"
  unfolding console_only_def unmodelled_def
  by (intro allI exI [where x = "[]"]) simp

lemma console_only_log [simp]: "console_only (console_log l)"
  unfolding console_only_def console_log_def
  by (intro allI exI [where x = "[l]"]) simp

lemma console_only_bind [intro!]:
  assumes "console_only m" and "\<And>x. console_only (f x)"
  shows "console_only (bind m f)"
  unfolding console_only_def
proof
  fix w
  from assms(1) obtain ls where m: "final (m w) = w\<lparr>console := console w @ ls\<rparr>"
    unfolding console_only_def by blast
  show "\<exists>ls. final (bind m f w) = w\<lparr>console := console w @ ls\<rparr>"
  proof (cases "m w")
    case (Ret x w')
    with m have w': "w' = w\<lparr>console := console w @ ls\<rparr>" by simp
    from assms(2) [of x] obtain ks where "final (f x w') = w'\<lparr>console := console w' @ ks\<rparr>"
      unfolding console_only_def by blast
    with Ret w' show ?thesis
      by (intro exI [where x = "ls @ ks"]) (simp add: bind_def)
  next
    case (Throw e w')
    with m show ?thesis by (intro exI [where x = ls]) (simp add: bind_def)
  next
    case (Unmodelled w')
    with m show ?thesis by (intro exI [where x = ls]) (simp add: bind_def)
  qed
qed

lemma console_only_seq [intro!]: "console_only m \<Longrightarrow> console_only n \<Longrightarrow> console_only (seq m n)"
  unfolding seq_def by (rule console_only_bind)

lemma console_only_for_each [intro!]: "(\<And>x. console_only (f x)) \<Longrightarrow> console_only (for_each f xs)"
  by (induction xs) auto

lemma console_only_if [intro!]:
  "console_only a \<Longrightarrow> console_only b \<Longrightarrow> console_only (if c then a else b)"
  by simp

lemma console_only_case_option [intro!]:
  "console_only a \<Longrightarrow> (\<And>x. console_only (f x)) \<Longrightarrow> console_only (case_option a f v)"
  by (cases v) simp_all

lemma console_only_api_error [simp]: "console_only (api_error a)"
  unfolding api_error_def by (intro console_only_seq console_only_log)

lemma console_only_gamble_result [simp]: "console_only (gamble_result js amount)"
  unfolding gamble_result_def by (intro console_only_if console_only_seq console_only_log)

lemma console_onlyD:
  assumes "console_only m"
  shows "network (final (m w)) = network w" and "config (final (m w)) = config w"
    and "files (final (m w)) = files w"
proof -
  from assms obtain ls where "final (m w) = w\<lparr>console := console w @ ls\<rparr>"
    unfolding console_only_def by blast
  then show "network (final (m w)) = network w" and "config (final (m w)) = config w"
    and "files (final (m w)) = files w"
    by simp_all
qed

subsection \<open>The gateway, with and without a cookie\<close>

lemma api_req_unknown:
  "cookie (config w) = Some ''unknown'' \<Longrightarrow>
   api_req api meth bdy w = Ret None (w\<lparr>console := console w @ [unauthenticated_warning]\<rparr>)"
  by (simp add: api_req_def ret_def)

lemma api_req_known:
  "cookie (config w) \<noteq> Some ''unknown'' \<Longrightarrow>
   api_req api meth bdy w =
     (let rq = \<lparr>url = Lit ''https://rugplay.com/api/'' # api, http_method = meth,
                headers = request_headers w, body = bdy\<rparr>;
          w' = w\<lparr>network := network w @ [rq]\<rparr>
      in case server w (length (network w)) rq of
           Rejects \<Rightarrow> Throw NetworkError w'
         | Responds r \<Rightarrow> Ret (Some r) w')"
  by (simp add: api_req_def fetch_def bind_def ret_def Let_def split: reply.split)

text \<open>
  A command that calls the gateway once and then only prints sends exactly that request.
\<close>

lemma sent_api_req_bind:
  assumes "cookie (config w) \<noteq> Some ''unknown''" and "\<And>a. console_only (k a)"
  shows "sent (bind (api_req api meth bdy) k) w =
           [\<lparr>url = Lit ''https://rugplay.com/api/'' # api, http_method = meth,
             headers = request_headers w, body = bdy\<rparr>]"
proof -
  let ?rq = "\<lparr>url = Lit ''https://rugplay.com/api/'' # api, http_method = meth,
             headers = request_headers w, body = bdy\<rparr>"
  let ?w = "w\<lparr>network := network w @ [?rq]\<rparr>"
  have "network (final (bind (api_req api meth bdy) k w)) = network w @ [?rq]"
  proof (cases "server w (length (network w)) ?rq")
    case Rejects
    then show ?thesis using assms(1) by (simp add: api_req_known bind_def)
  next
    case (Responds r)
    then have "bind (api_req api meth bdy) k w = k (Some r) ?w"
      using assms(1) by (simp add: api_req_known bind_def)
    then show ?thesis using console_onlyD(1) [OF assms(2), of "Some r" ?w] by simp
  qed
  then show ?thesis by (simp add: sent_def)
qed

subsection \<open>Evaluating the arithmetic\<close>

lemmas double_eval = to_double_def binade_def scale_up_def scale_down_def pow2_def
  round_even_def Let_def num_mul_def num_div_def with_sign_def is_infinite_def is_zero_def

lemmas parseFloat_eval = parseFloat_def unsigned_decimal_def is_digit_def digits_val_def
  exponent_part_def scale10_def

lemma parseFloat_default: "parseFloat ''0.01'' = to_double (1 / 100)"
  by (simp add: parseFloat_eval)

lemma to_double_hundredth: "to_double (1 / 100) = Fin (5764607523034235 / 2 ^ 59)"
  by (simp add: double_eval)

section \<open>The claims\<close>

subsection \<open>The bet of \<^verbatim>\<open>coinflip\<close>\<close>

text \<open>
  Claim C10. In the \<^verbatim>\<open>coinflip\<close> command, with a cookie set, the side sent is \<^verbatim>\<open>tails\<close> for
  the first token \<^verbatim>\<open>1\<close> and \<^verbatim>\<open>heads\<close> for every other first token and for none; when the
  amount is missing, whatever the side, the command does not stop: it sends the request
  with the amount 0.01 (the double nearest to it). The request is the only one the command
  sends.
\<close>

theorem coinflip_side_and_amount:
  assumes "cookie (config w) \<noteq> Some ''unknown''"
  shows "sent (coinflip_callback args) w =
           [\<lparr>url = [Lit ''https://rugplay.com/api/'', Lit ''gambling/coinflip''], http_method = ''POST'',
             headers = request_headers w,
             body = Json_text
                      [(''side'', Str (if fst (shift args) = Some ''1'' then ''tails'' else ''heads'')),
                       (''amount'', Num (if length args < 2 then to_double (1 / 100)
                                        else parseFloat (args ! 1)))]\<rparr>]"
proof -
  have k: "\<And>amount a. console_only (case a of None \<Rightarrow> ret () | Some a \<Rightarrow>
        if \<not> ok a then api_error a
        else (case json a of Gamble_json _ _ _ _ \<Rightarrow> gamble_result (json a) amount | _ \<Rightarrow> unmodelled))"
    by (simp split: option.split payload.split)
  show ?thesis
  proof (cases args)
    case Nil
    then show ?thesis
      using assms
      by (simp add: coinflip_callback_def shift_def Let_def parseFloat_default sent_api_req_bind k)
  next
    case (Cons s rest)
    show ?thesis
    proof (cases rest)
      case Nil
      with Cons show ?thesis
        using assms
        by (simp add: coinflip_callback_def shift_def Let_def parseFloat_default sent_api_req_bind k)
    next
      case (Cons t rest')
      with \<open>args = s # rest\<close> show ?thesis
        using assms by (simp add: coinflip_callback_def shift_def Let_def sent_api_req_bind k)
    qed
  qed
qed

theorem coinflip_side_and_amount_witness:
  "cookie (config (fresh_world (\<lambda>_ _. Rejects) (Some ''abc''))) \<noteq> Some ''unknown''
   \<and> sent (coinflip_callback [''1'']) (fresh_world (\<lambda>_ _. Rejects) (Some ''abc'')) =
       [\<lparr>url = [Lit ''https://rugplay.com/api/'', Lit ''gambling/coinflip''], http_method = ''POST'',
         headers = request_headers (fresh_world (\<lambda>_ _. Rejects) (Some ''abc'')),
         body = Json_text [(''side'', Str ''tails''),
                           (''amount'', Num (Fin (5764607523034235 / 2 ^ 59)))]\<rparr>]
   \<and> sent (coinflip_callback [''heads'', ''2.5'']) (fresh_world (\<lambda>_ _. Rejects) (Some ''abc'')) =
       [\<lparr>url = [Lit ''https://rugplay.com/api/'', Lit ''gambling/coinflip''], http_method = ''POST'',
         headers = request_headers (fresh_world (\<lambda>_ _. Rejects) (Some ''abc'')),
         body = Json_text [(''side'', Str ''heads''), (''amount'', Num (Fin (5 / 2)))]\<rparr>]"
proof -
  have c: "cookie (config (fresh_world (\<lambda>_ _. Rejects) (Some ''abc''))) \<noteq> Some ''unknown''"
    by (simp add: fresh_world_def)
  have p: "parseFloat ''2.5'' = Fin (5 / 2)"
    by (simp add: parseFloat_eval double_eval)
  show ?thesis
    using coinflip_side_and_amount [OF c, of "[''1'']"]
      coinflip_side_and_amount [OF c, of "[''heads'', ''2.5'']"] c
    by (simp add: shift_def to_double_hundredth p)
qed

subsection \<open>The request of \<^verbatim>\<open>market\<close>\<close>

text \<open>
  Claim C8. Invoked with no arguments, \<^verbatim>\<open>market\<close> issues one request, for page \<^verbatim>\<open>1\<close>, with
  an empty search term and the limit 6 (and none at all while the cookie is the default one).
\<close>

theorem market_defaults:
  "sent (market_callback []) w =
     (if cookie (config w) = Some ''unknown'' then []
      else [\<lparr>url = [Lit ''https://rugplay.com/api/'', Lit ''market?search='', Val (Str ''''),
                    Lit ''&sortBy=marketCap&sortOrder=desc&priceFilter=all&changeFilter=all&page='',
                    Val (Str ''1''), Lit ''&limit=6''],
             http_method = ''GET'', headers = request_headers w, body = No_body\<rparr>])"
proof (cases "cookie (config w) = Some ''unknown''")
  case True
  then show ?thesis
    by (simp add: market_callback_def shift_def Let_def api_req_unknown sent_def)
next
  case False
  have k: "\<And>page a. console_only (case a of None \<Rightarrow> ret () | Some a \<Rightarrow>
        if \<not> ok a then api_error a
        else (case json a of
                Market_json pages cs \<Rightarrow>
                  seq (console_log [[Chalk bold [Lit ''Market''], Lit '' (page '',
                         Val (Str page), Lit '' of '', num pages, Lit '')'']])
                 (seq (console_log [[Lit ''  Symbol (Name) | Current price | Change 24h | Market cap | Creator name'']])
                      (for_each (\<lambda>c. console_log (market_line c)) cs))
              | _ \<Rightarrow> unmodelled))"
    by (auto split: option.split payload.split)
  from False show ?thesis
    by (simp add: market_callback_def shift_def Let_def sent_api_req_bind k)
qed

theorem market_defaults_witness:
  "sent (market_callback []) (fresh_world (\<lambda>_ _. Rejects) (Some ''abc'')) =
     [\<lparr>url = [Lit ''https://rugplay.com/api/'', Lit ''market?search='', Val (Str ''''),
             Lit ''&sortBy=marketCap&sortOrder=desc&priceFilter=all&changeFilter=all&page='',
             Val (Str ''1''), Lit ''&limit=6''],
       http_method = ''GET'',
       headers = request_headers (fresh_world (\<lambda>_ _. Rejects) (Some ''abc'')), body = No_body\<rparr>]"
proof -
  have c: "cookie (config (fresh_world (\<lambda>_ _. Rejects) (Some ''abc''))) \<noteq> Some ''unknown''"
    by (simp add: fresh_world_def)
  show ?thesis
    using market_defaults [of "fresh_world (\<lambda>_ _. Rejects) (Some ''abc'')"] c by simp
qed

subsection \<open>A line that names no command\<close>

lemma split_on_nonempty: "split_on c s \<noteq> []"
  by (induction s) (auto split: list.split)

lemma command_names:
  "map fst commands =
     [''commands'', ''set-cookie'', ''coinflip'', ''slots'', ''summary'', ''redeem'', ''new-coin'',
      ''settings'', ''me'', ''daily-reward'', ''notifications'', ''invest'', ''view-user'',
      ''market'', ''buy-coin'', ''sell-coin'', ''portfolio'']"
  by (simp add: commands_def command_info_def handlers_def)

text \<open>
  Claim C9. For a line whose first token is not the name of a command, the loop prints one
  line that names the token, in quotes; the config and the files are as before, no request
  is sent, and the loop goes on with the next line.
\<close>

theorem unknown_command:
  assumes "hd (split_on (CHR '' '') input_raw) \<notin> set (map fst commands)"
  shows "repl_step input_raw w =
           Ret () (w\<lparr>console := console w @
             [[[Chalk redBright [Lit ''Command''], Lit '' '',
                Chalk green [Val (Str (CHR 0x22 # hd (split_on (CHR '' '') input_raw) @ [CHR 0x22]))],
                Lit '' '', Chalk redBright [Lit ''does not exist''],
                Lit ''. Type 'commands' to list commands.'']]]\<rparr>)
       \<and> config (final (repl_step input_raw w)) = config w
       \<and> files (final (repl_step input_raw w)) = files w
       \<and> sent (repl_step input_raw) w = []
       \<and> repl (input_raw # later) w = repl later (final (repl_step input_raw w))"
proof -
  obtain tok rest where t: "split_on (CHR '' '') input_raw = tok # rest"
    using split_on_nonempty [of "CHR '' ''" input_raw] by (cases "split_on (CHR '' '') input_raw") auto
  with assms have "map_of commands tok = None"
    by (simp add: map_of_eq_None_iff)
  with t have "repl_step input_raw w =
           Ret () (w\<lparr>console := console w @
             [[[Chalk redBright [Lit ''Command''], Lit '' '',
                Chalk green [Val (Str (CHR 0x22 # hd (split_on (CHR '' '') input_raw) @ [CHR 0x22]))],
                Lit '' '', Chalk redBright [Lit ''does not exist''],
                Lit ''. Type 'commands' to list commands.'']]]\<rparr>)"
    by (simp add: repl_step_def console_log_def)
  then show ?thesis
    by (simp add: sent_def repl_def seq_def)
qed

theorem unknown_command_witness:
  "hd (split_on (CHR '' '') ''foobar 1 2'') \<notin> set (map fst commands)
   \<and> repl_step ''foobar 1 2'' (fresh_world (\<lambda>_ _. Rejects) (Some ''abc'')) =
       Ret () ((fresh_world (\<lambda>_ _. Rejects) (Some ''abc''))\<lparr>console :=
         [[[Chalk redBright [Lit ''Command''], Lit '' '',
            Chalk green [Val (Str (CHR 0x22 # ''foobar'' @ [CHR 0x22]))],
            Lit '' '', Chalk redBright [Lit ''does not exist''],
            Lit ''. Type 'commands' to list commands.'']]]\<rparr>)"
proof -
  have s: "split_on (CHR '' '') ''foobar 1 2'' = [''foobar'', ''1'', ''2'']"
    by simp
  have h: "hd (split_on (CHR '' '') ''foobar 1 2'') \<notin> set (map fst commands)"
    unfolding s command_names by simp
  have c: "console (fresh_world (\<lambda>_ _. Rejects) (Some ''abc'')) = []"
    by (simp add: fresh_world_def)
  show ?thesis
    using unknown_command [OF h, of "fresh_world (\<lambda>_ _. Rejects) (Some ''abc'')" "[]"] h
    unfolding s c by simp
qed

subsection \<open>The direction of a change\<close>

text \<open>
  Claim C6. Wherever a change is rendered (the 24h change of \<^verbatim>\<open>market\<close>, of \<^verbatim>\<open>view-user\<close>
  and of \<^verbatim>\<open>portfolio\<close>, and the P&L% of \<^verbatim>\<open>portfolio\<close>), a real value \<open>v\<close> is shown as
  positive (the prefix \<^verbatim>\<open>^\<close>, on green) exactly when \<open>v > 0\<close>, as zero (the prefix \<^verbatim>\<open>-\<close>, on
  gray) exactly when \<open>v = 0\<close>, and as negative (the prefix \<^verbatim>\<open>v\<close>, on red) exactly when
  \<open>v < 0\<close>.
\<close>

theorem change_classification:
  "((market_dayChange (Coin s n p v m cr) = Chalk bgGreen [Lit ''^ '', num v]) = (v > 0))
   \<and> ((market_dayChange (Coin s n p v m cr) = Chalk bgGray [Lit ''- '', num v]) = (v = 0))
   \<and> ((market_dayChange (Coin s n p v m cr) = Chalk bgRedBright [Lit ''v '', num v]) = (v < 0))
   \<and> ((view_user_dayChange (Coin s n p v m cr) = Chalk bgGreen [Lit ''^ '', num v]) = (v > 0))
   \<and> ((view_user_dayChange (Coin s n p v m cr) = Chalk bgGray [Lit ''- '', num v]) = (v = 0))
   \<and> ((view_user_dayChange (Coin s n p v m cr) = Chalk bgRedBright [Lit ''v '', num v]) = (v < 0))
   \<and> ((portfolio_percentageChange (Holding s q p v d x) = Chalk bgGreen [Lit ''^ '', num v]) = (v > 0))
   \<and> ((portfolio_percentageChange (Holding s q p v d x) = Chalk bgGray [Lit ''- '', num v]) = (v = 0))
   \<and> ((portfolio_percentageChange (Holding s q p v d x) = Chalk bgRedBright [Lit ''v '', num v]) = (v < 0))
   \<and> ((portfolio_dayChange (Holding s q p c v x) = Chalk bgGreen [Lit ''^ '', num v]) = (v > 0))
   \<and> ((portfolio_dayChange (Holding s q p c v x) = Chalk bgGray [Lit ''- '', num v]) = (v = 0))
   \<and> ((portfolio_dayChange (Holding s q p c v x) = Chalk bgRedBright [Lit ''v '', num v]) = (v < 0))"
  by (simp add: market_dayChange_def view_user_dayChange_def portfolio_percentageChange_def
      portfolio_dayChange_def)

theorem change_classification_witness:
  "market_dayChange (Coin ''ABC'' ''Abc'' 1 (3 / 2) 10 ''ann'') = Chalk bgGreen [Lit ''^ '', num (3 / 2)]
   \<and> view_user_dayChange (Coin ''ABC'' ''Abc'' 1 0 10 ''ann'') = Chalk bgGray [Lit ''- '', num 0]
   \<and> portfolio_percentageChange (Holding ''ABC'' 1 1 (- 2) 0 1) = Chalk bgRedBright [Lit ''v '', num (- 2)]
   \<and> portfolio_dayChange (Holding ''ABC'' 1 1 (- 2) 0 1) = Chalk bgGray [Lit ''- '', num 0]"
  using change_classification [where s = "''ABC''" and n = "''Abc''" and p = 1 and v = "3 / 2"
      and m = 10 and cr = "''ann''" and q = 1 and d = 0 and x = 1 and c = 0]
    change_classification [where s = "''ABC''" and n = "''Abc''" and p = 1 and v = 0
      and m = 10 and cr = "''ann''" and q = 1 and d = 0 and x = 1 and c = "- 2"]
    change_classification [where s = "''ABC''" and n = "''Abc''" and p = 1 and v = "- 2"
      and m = 10 and cr = "''ann''" and q = 1 and d = 0 and x = 1 and c = 0]
  by simp
subsection \<open>The symbols of \<^verbatim>\<open>slots\<close>\<close>

lemma gamble_result_prints:
  "gamble_result js amount w =
     Ret () (w\<lparr>console := console w @
       (if \<not> won js then
          [[[Lit ''You '', Chalk redBright [Lit ''lost''], Lit ''.'']],
           [[Lit ''New balance: '', Chalk yellowBright [Lit ''$''],
             Chalk yellow [round_1000 (newBalance js)],
             Lit '' (-'', Chalk redBright [Val (Num amount)], Lit '')'']]]
        else
          [[[Lit ''You '', Chalk greenBright [Lit ''won''], Lit ''!'']],
           [[Lit ''New balance: '', Chalk yellowBright [Lit ''$''],
             Chalk yellow [round_1000 (newBalance js)],
             Lit '' (+'', Chalk yellowBright [num (payout js)], Lit '')'']]])\<rparr>)"
  by (simp add: gamble_result_def console_log_def)

lemma slot_names:
  "map fst slot_record = [''wattesigma'', ''webx'', ''twoblade'', ''lyntr'', ''bussin'', ''subterfuge'']"
  by (simp add: slot_record_def)

text \<open>
  Claim C7 says that every identifier other than the six of \<^verbatim>\<open>slot_record\<close> looks up to
  undefined. It does not: \<^verbatim>\<open>slot_record\<close> is an object literal, and a name such as
  \<^verbatim>\<open>toString\<close> finds the method it inherits.
\<close>

theorem slot_lookup_counterexample:
  "''toString'' \<notin> set [''wattesigma'', ''webx'', ''twoblade'', ''lyntr'', ''bussin'', ''subterfuge'']
   \<and> slot_record_get ''toString'' = Builtin ''Object.prototype.toString''
   \<and> slot_record_get ''toString'' \<noteq> Undefined"
  by (simp add: slot_record_get_def slot_record_def Object_prototype_def)

text \<open>
  Claim C7, amended. \<^verbatim>\<open>slot_record\<close> gives a fixed glyph to each of exactly six identifiers;
  an identifier that is none of them, and not the name of a property of
  \<^verbatim>\<open>Object.prototype\<close>, looks up to undefined. \<^verbatim>\<open>slots\<close> prints the three values it looked
  up as they are, in one line, then the two lines of the result, and returns: an unknown
  symbol adds no line and throws nothing.
\<close>

theorem slot_symbols:
  assumes "cookie (config w) \<noteq> Some ''unknown''"
    and "\<And>rq. server w (length (network w)) rq = Responds r"
    and "ok r" and "json r = Gamble_json wn nb po syms"
  shows "map fst slot_record = [''wattesigma'', ''webx'', ''twoblade'', ''lyntr'', ''bussin'', ''subterfuge'']
    \<and> slot_record_get ''wattesigma'' = Str [CHR 0xE2, CHR 0x97, CHR 0xBB, CHR 0xEF, CHR 0xB8, CHR 0x8F]
    \<and> slot_record_get ''webx'' = Str [CHR 0xE2, CHR 0xAC, CHR 0x9B]
    \<and> slot_record_get ''twoblade'' = Str [CHR 0xF0, CHR 0x9F, CHR 0x9F, CHR 0xA5]
    \<and> slot_record_get ''lyntr'' = Str [CHR 0xF0, CHR 0x9F, CHR 0x9F, CHR 0xAA]
    \<and> slot_record_get ''bussin'' = Str [CHR 0xF0, CHR 0x9F, CHR 0x9F, CHR 0xA7]
    \<and> slot_record_get ''subterfuge'' = Str [CHR 0xF0, CHR 0x9F, CHR 0x9F, CHR 0xA9]
    \<and> (\<forall>k. k \<notin> set (map fst slot_record) \<and> k \<notin> set Object_prototype \<longrightarrow> slot_record_get k = Undefined)
    \<and> (\<exists>l1 l2 w'. slots_callback args w = Ret () w'
          \<and> printed (slots_callback args) w =
              [[[Val (slot_record_get (symbol_key syms 0))], [Val (slot_record_get (symbol_key syms 1))],
                [Val (slot_record_get (symbol_key syms 2))]], l1, l2])"
proof -
  have undef: "\<forall>k. k \<notin> set (map fst slot_record) \<and> k \<notin> set Object_prototype \<longrightarrow> slot_record_get k = Undefined"
  proof (intro allI impI)
    fix k assume k: "k \<notin> set (map fst slot_record) \<and> k \<notin> set Object_prototype"
    then have "map_of slot_record k = None" by (simp add: map_of_eq_None_iff)
    with k show "slot_record_get k = Undefined" by (simp add: slot_record_get_def)
  qed
  have run: "\<exists>l1 l2 w'. slots_callback args w = Ret () w'
          \<and> printed (slots_callback args) w =
              [[[Val (slot_record_get (symbol_key syms 0))], [Val (slot_record_get (symbol_key syms 1))],
                [Val (slot_record_get (symbol_key syms 2))]], l1, l2]"
    using assms
    by (cases "won (json r)")
      (simp_all add: slots_callback_def Let_def split_beta api_req_known bind_def
        gamble_result_prints printed_def)
  show ?thesis
    using undef run by (simp add: slot_record_get_def slot_record_def)
qed

theorem slot_symbols_witness:
  "cookie (config (fresh_world (\<lambda>_ _. Responds \<lparr>ok = True, body_text = [],
        json = Gamble_json False (19 / 2) 0 [''webx'', ''mystery'', ''lyntr'']\<rparr>) (Some ''abc'')))
     \<noteq> Some ''unknown''
   \<and> ''mystery'' \<notin> set (map fst slot_record) \<and> ''mystery'' \<notin> set Object_prototype
   \<and> slot_record_get ''mystery'' = Undefined
   \<and> (\<exists>l1 l2 w'.
         slots_callback [''5''] (fresh_world (\<lambda>_ _. Responds \<lparr>ok = True, body_text = [],
           json = Gamble_json False (19 / 2) 0 [''webx'', ''mystery'', ''lyntr'']\<rparr>) (Some ''abc'')) = Ret () w'
       \<and> printed (slots_callback [''5'']) (fresh_world (\<lambda>_ _. Responds \<lparr>ok = True, body_text = [],
           json = Gamble_json False (19 / 2) 0 [''webx'', ''mystery'', ''lyntr'']\<rparr>) (Some ''abc'')) =
           [[[Val (Str [CHR 0xE2, CHR 0xAC, CHR 0x9B])], [Val Undefined],
             [Val (Str [CHR 0xF0, CHR 0x9F, CHR 0x9F, CHR 0xAA])]], l1, l2])"
proof -
  let ?r = "\<lparr>ok = True, body_text = [],
        json = Gamble_json False (19 / 2) 0 [''webx'', ''mystery'', ''lyntr'']\<rparr>"
  let ?w = "fresh_world (\<lambda>_ _. Responds ?r) (Some ''abc'')"
  have c: "cookie (config ?w) \<noteq> Some ''unknown''"
    by (simp add: fresh_world_def)
  have s: "\<And>rq. server ?w (length (network ?w)) rq = Responds ?r"
    by (simp add: fresh_world_def)
  have m: "''mystery'' \<notin> set (map fst slot_record) \<and> ''mystery'' \<notin> set Object_prototype"
    by (simp add: slot_record_def Object_prototype_def)
  have k: "symbol_key [''webx'', ''mystery'', ''lyntr''] 0 = ''webx''"
    "symbol_key [''webx'', ''mystery'', ''lyntr''] 1 = ''mystery''"
    "symbol_key [''webx'', ''mystery'', ''lyntr''] 2 = ''lyntr''"
    by (simp_all add: symbol_key_def)
  have o: "ok ?r" by simp
  have j: "json ?r = Gamble_json False (19 / 2) 0 [''webx'', ''mystery'', ''lyntr'']" by simp
  note t = slot_symbols [OF c s o j, of "[''5'']"]
  from t have g1: "slot_record_get ''webx'' = Str [CHR 0xE2, CHR 0xAC, CHR 0x9B]"
    and g2: "slot_record_get ''lyntr'' = Str [CHR 0xF0, CHR 0x9F, CHR 0x9F, CHR 0xAA]"
    and u: "\<forall>k. k \<notin> set (map fst slot_record) \<and> k \<notin> set Object_prototype \<longrightarrow> slot_record_get k = Undefined"
    by blast+
  from u m have g3: "slot_record_get ''mystery'' = Undefined" by blast
  from t have "\<exists>l1 l2 w'. slots_callback [''5''] ?w = Ret () w'
       \<and> printed (slots_callback [''5'']) ?w =
           [[[Val (slot_record_get (symbol_key [''webx'', ''mystery'', ''lyntr''] 0))],
             [Val (slot_record_get (symbol_key [''webx'', ''mystery'', ''lyntr''] 1))],
             [Val (slot_record_get (symbol_key [''webx'', ''mystery'', ''lyntr''] 2))]], l1, l2]"
    by blast
  then have "\<exists>l1 l2 w'. slots_callback [''5''] ?w = Ret () w'
       \<and> printed (slots_callback [''5'']) ?w =
           [[[Val (Str [CHR 0xE2, CHR 0xAC, CHR 0x9B])], [Val Undefined],
             [Val (Str [CHR 0xF0, CHR 0x9F, CHR 0x9F, CHR 0xAA])]], l1, l2]"
    unfolding k g1 g2 g3 .
  with c m g3 show ?thesis by blast
qed

subsection \<open>The config store\<close>

lemma getConfigPath_cong [simp]:
  "getConfigPath (w\<lparr>files := f\<rparr>) = getConfigPath w"
  "getConfigPath (w\<lparr>dirs := d\<rparr>) = getConfigPath w"
  "getConfigPath (w\<lparr>config := c\<rparr>) = getConfigPath w"
  "getConfigPath (w\<lparr>console := l\<rparr>) = getConfigPath w"
  "getConfigPath (w\<lparr>network := n\<rparr>) = getConfigPath w"
  by (simp_all add: getConfigPath_def)

lemma path_dirname_config [simp]: "path_dirname (getConfigPath w) \<noteq> getConfigPath w"
  by (simp add: getConfigPath_def path_join_def)

lemma writeConfig_eq:
  "writeConfig cfg w =
     (let p = getConfigPath w; d = path_dirname p;
          w1 = (if \<not> dirs w d \<and> can_mkdir w d then w\<lparr>dirs := (dirs w)(d := True)\<rparr> else w)
      in if \<not> dirs w1 d then Throw NotFound w1
         else if \<not> can_write w1 p then Throw PermissionDenied w1
         else Ret () (w1\<lparr>files := (files w1)(p := Content (Config_json cfg))\<rparr>))"
  by (simp add: writeConfig_def Let_def seq_def bind_def try_catch_def Deno_statSync_def
      Deno_mkdirSync_def Deno_writeTextFileSync_def JSON_stringify_def)

lemma readConfig_eq:
  "readConfig w =
     (case files w (getConfigPath w) of
        Missing \<Rightarrow> Throw NotFound w
      | Unreadable \<Rightarrow> Throw PermissionDenied w
      | Content c \<Rightarrow> (case c of Config_json cfg \<Rightarrow> Ret cfg w | Other_json \<Rightarrow> Unmodelled w
                       | Not_json \<Rightarrow> Throw SyntaxError w))"
  by (simp add: readConfig_def Let_def bind_def Deno_readTextFileSync_def JSON_parse_def
      split: file_state.split content.split)

lemma writeConfig_then_read:
  assumes "writeConfig cfg w = Ret () w'"
  shows "files w' (getConfigPath w') = Content (Config_json cfg)"
    and "getConfigPath w' = getConfigPath w"
  using assms by (auto simp: writeConfig_eq Let_def split: if_splits)

lemma startup_reads:
  assumes "files w (getConfigPath w) = Content (Config_json c)"
  shows "startup w = Ret () (w\<lparr>config := c\<rparr>)"
  using assms
  by (simp add: startup_def seq_def bind_def try_catch_def set_config_def readConfig_eq)

text \<open>
  Claim C4. When \<^verbatim>\<open>writeConfig\<close> has returned, \<^verbatim>\<open>readConfig\<close> gives back the config that was
  written, cookie and all, and so does the start of a new process. In particular, when
  \<^verbatim>\<open>set-cookie\<close> has returned, a new process starts with the cookie that was set (the
  tokens joined by single spaces); after the line \<^verbatim>\<open>set-cookie abc123\<close> that is \<^verbatim>\<open>abc123\<close>.
\<close>

theorem save_load_roundtrip:
  "(writeConfig cfg w = Ret () w' \<longrightarrow> readConfig w' = Ret cfg w')
   \<and> (writeConfig cfg w = Ret () w' \<longrightarrow>
        startup (new_process w') = Ret () ((new_process w')\<lparr>config := cfg\<rparr>))
   \<and> (set_cookie_callback (c # rest) w = Ret () w' \<longrightarrow>
        startup (new_process w') = Ret () ((new_process w')\<lparr>config := \<lparr>cookie = Some (join_rest c rest)\<rparr>\<rparr>))
   \<and> (repl_step ''set-cookie abc123'' w = Ret () w' \<longrightarrow>
        startup (new_process w') = Ret () ((new_process w')\<lparr>config := \<lparr>cookie = Some ''abc123''\<rparr>\<rparr>))"
proof -
  have np: "\<And>v. getConfigPath (new_process v) = getConfigPath v"
    "\<And>v. files (new_process v) = files v"
    by (simp_all add: new_process_def)
  have a: "readConfig w' = Ret cfg w'" if "writeConfig cfg w = Ret () w'" for cfg w w'
    using writeConfig_then_read(1) [OF that] by (simp add: readConfig_eq)
  have b: "startup (new_process w') = Ret () ((new_process w')\<lparr>config := cfg\<rparr>)"
    if "writeConfig cfg w = Ret () w'" for cfg w w'
    using writeConfig_then_read(1) [OF that] by (intro startup_reads) (simp add: np)
  have c: "startup (new_process w') = Ret () ((new_process w')\<lparr>config := \<lparr>cookie = Some (join_rest c rest)\<rparr>\<rparr>)"
    if "set_cookie_callback (c # rest) w = Ret () w'" for c rest w w'
  proof -
    let ?w = "w\<lparr>config := config w\<lparr>cookie := Some (join_rest c rest)\<rparr>,
                console := console w @ [[[Lit ''Set cookie '', Chalk greenBright [Lit ''successfully''], Lit ''.'']]]\<rparr>"
    from that have "writeConfig (config ?w) ?w = Ret () w'"
      by (simp add: set_cookie_callback_def shift_def seq_def bind_def console_log_def)
    from b [OF this] show ?thesis by simp
  qed
  have s: "split_on (CHR '' '') ''set-cookie abc123'' = [''set-cookie'', ''abc123'']"
    by simp
  have m: "map_of commands ''set-cookie'' =
      Some \<lparr>desc = ''sets your cookie for API requests, you can find this in the request headers on rugplay.com in network'',
            arg_names = [''new-cookie''], callback = set_cookie_callback\<rparr>"
    by (simp add: commands_def command_info_def handlers_def)
  have d: "repl_step ''set-cookie abc123'' w = set_cookie_callback [''abc123''] w"
    by (simp add: repl_step_def s m)
  show ?thesis
    using a b c [of c rest w w'] c [of "''abc123''" "[]" w w'] unfolding d by simp
qed

theorem save_load_roundtrip_witness:
  "returned (repl_step ''set-cookie abc123'' (fresh_world (\<lambda>_ _. Rejects) (Some ''unknown'')))
   \<and> config (final (startup (new_process (final
         (repl_step ''set-cookie abc123'' (fresh_world (\<lambda>_ _. Rejects) (Some ''unknown'')))))))
       = \<lparr>cookie = Some ''abc123''\<rparr>"
proof -
  let ?w = "fresh_world (\<lambda>_ _. Rejects) (Some ''unknown'')"
  have s: "split_on (CHR '' '') ''set-cookie abc123'' = [''set-cookie'', ''abc123'']"
    by simp
  have m: "map_of commands ''set-cookie'' =
      Some \<lparr>desc = ''sets your cookie for API requests, you can find this in the request headers on rugplay.com in network'',
            arg_names = [''new-cookie''], callback = set_cookie_callback\<rparr>"
    by (simp add: commands_def command_info_def handlers_def)
  have "\<exists>w'. repl_step ''set-cookie abc123'' ?w = Ret () w'"
    by (simp add: repl_step_def s m set_cookie_callback_def shift_def seq_def bind_def
        console_log_def writeConfig_eq Let_def fresh_world_def)
  then obtain w' where r: "repl_step ''set-cookie abc123'' ?w = Ret () w'" ..
  from save_load_roundtrip [of _ ?w w'] r
  have "startup (new_process w') = Ret () ((new_process w')\<lparr>config := \<lparr>cookie = Some ''abc123''\<rparr>\<rparr>)"
    by blast
  with r show ?thesis by simp
qed

lemma startup_defaults:
  assumes "files w (getConfigPath w) = Missing \<or> files w (getConfigPath w) = Unreadable
           \<or> files w (getConfigPath w) = Content Not_json"
    and "dirs w (path_dirname (getConfigPath w)) \<or> can_mkdir w (path_dirname (getConfigPath w))"
    and "can_write w (getConfigPath w)"
  shows "startup w =
     Ret () (w\<lparr>dirs := (dirs w)(path_dirname (getConfigPath w) := True),
             files := (files w)(getConfigPath w := Content (Config_json \<lparr>cookie = Some ''unknown''\<rparr>)),
             config := \<lparr>cookie = Some ''unknown''\<rparr>,
             console := console w @
               [[[Lit ''Couldn't read configuration file:'']],
                [[Val (Err (case files w (getConfigPath w) of Missing \<Rightarrow> NotFound
                              | Unreadable \<Rightarrow> PermissionDenied | Content _ \<Rightarrow> SyntaxError))]],
                [[Lit ''Wrote default file.'']]]\<rparr>)"
proof -
  have d: "(dirs w)(path_dirname (getConfigPath w) := True) = dirs w"
    if "dirs w (path_dirname (getConfigPath w))"
    using that by (intro ext) simp
  from assms show ?thesis
    by (auto simp: startup_def seq_def bind_def try_catch_def set_config_def readConfig_eq
        console_log_def writeConfig_eq Let_def d)
qed

text \<open>
  Claim C3 says that for every missing or unparseable config file the default is written
  back and the start goes on. Nothing catches a failure of that write: where the file
  cannot be written, the exception of \<^verbatim>\<open>writeConfig\<close> ends the run before the loop starts,
  and no file is there afterwards.
\<close>

theorem startup_config_counterexample:
  "files ((fresh_world (\<lambda>_ _. Rejects) None)\<lparr>can_write := \<lambda>_. False\<rparr>)
     (getConfigPath ((fresh_world (\<lambda>_ _. Rejects) None)\<lparr>can_write := \<lambda>_. False\<rparr>)) = Missing
   \<and> startup ((fresh_world (\<lambda>_ _. Rejects) None)\<lparr>can_write := \<lambda>_. False\<rparr>) =
       Throw PermissionDenied ((fresh_world (\<lambda>_ _. Rejects) None)\<lparr>can_write := \<lambda>_. False,
         config := \<lparr>cookie = Some ''unknown''\<rparr>,
         console := [[[Lit ''Couldn't read configuration file:'']], [[Val (Err NotFound)]],
                     [[Lit ''Wrote default file.'']]]\<rparr>)
   \<and> \<not> returned (main [] ((fresh_world (\<lambda>_ _. Rejects) None)\<lparr>can_write := \<lambda>_. False\<rparr>))
   \<and> files (final (main [] ((fresh_world (\<lambda>_ _. Rejects) None)\<lparr>can_write := \<lambda>_. False\<rparr>)))
       (getConfigPath ((fresh_world (\<lambda>_ _. Rejects) None)\<lparr>can_write := \<lambda>_. False\<rparr>)) = Missing"
proof -
  let ?w = "(fresh_world (\<lambda>_ _. Rejects) None)\<lparr>can_write := \<lambda>_. False\<rparr>"
  have s: "startup ?w =
       Throw PermissionDenied ((fresh_world (\<lambda>_ _. Rejects) None)\<lparr>can_write := \<lambda>_. False,
         config := \<lparr>cookie = Some ''unknown''\<rparr>,
         console := [[[Lit ''Couldn't read configuration file:'']], [[Val (Err NotFound)]],
                     [[Lit ''Wrote default file.'']]]\<rparr>)"
    by (simp add: startup_def seq_def bind_def try_catch_def set_config_def readConfig_eq
        console_log_def writeConfig_eq Let_def fresh_world_def)
  have m: "main [] ?w = Throw PermissionDenied ((fresh_world (\<lambda>_ _. Rejects) None)\<lparr>can_write := \<lambda>_. False,
         config := \<lparr>cookie = Some ''unknown''\<rparr>,
         console := [[[Lit ''Couldn't read configuration file:'']], [[Val (Err NotFound)]],
                     [[Lit ''Wrote default file.'']]]\<rparr>)"
    unfolding main_def seq_def by (rule bind_Throw) (rule s [unfolded seq_def])
  show ?thesis
    unfolding s m by (simp add: fresh_world_def)
qed

text \<open>
  Whatever becomes of the write, a file that cannot be read leaves the default as the
  config and the three lines of the report on the console.
\<close>

lemma startup_reports:
  assumes "files w (getConfigPath w) = Missing \<or> files w (getConfigPath w) = Unreadable
           \<or> files w (getConfigPath w) = Content Not_json"
  shows "config (final (startup w)) = \<lparr>cookie = Some ''unknown''\<rparr>
    \<and> printed startup w =
        [[[Lit ''Couldn't read configuration file:'']],
         [[Val (Err (case files w (getConfigPath w) of Missing \<Rightarrow> NotFound
                       | Unreadable \<Rightarrow> PermissionDenied | Content _ \<Rightarrow> SyntaxError))]],
         [[Lit ''Wrote default file.'']]]
    \<and> returned (startup w) =
        ((dirs w (path_dirname (getConfigPath w)) \<or> can_mkdir w (path_dirname (getConfigPath w)))
         \<and> can_write w (getConfigPath w))"
  using assms
  by (auto simp: startup_def seq_def bind_def try_catch_def set_config_def readConfig_eq
      console_log_def writeConfig_eq Let_def printed_def split: if_splits)

text \<open>
  Claim C3, amended. A config file that parses to an object with a \<^verbatim>\<open>cookie\<close> string is
  loaded as it is. For every file that is missing, unreadable or unparseable, the start
  keeps the default \<^verbatim>\<open>{cookie: "unknown"}\<close> as the config and reports the failure in three
  lines; it returns exactly when the directory is there or can be made and the file can
  be written, and then the default has been written to the file.
\<close>

theorem startup_config:
  "(files w (getConfigPath w) = Content (Config_json c) \<longrightarrow> startup w = Ret () (w\<lparr>config := c\<rparr>))
   \<and> (files w (getConfigPath w) = Missing \<or> files w (getConfigPath w) = Unreadable
         \<or> files w (getConfigPath w) = Content Not_json
      \<longrightarrow> config (final (startup w)) = \<lparr>cookie = Some ''unknown''\<rparr>
        \<and> printed startup w =
            [[[Lit ''Couldn't read configuration file:'']],
             [[Val (Err (case files w (getConfigPath w) of Missing \<Rightarrow> NotFound
                           | Unreadable \<Rightarrow> PermissionDenied | Content _ \<Rightarrow> SyntaxError))]],
             [[Lit ''Wrote default file.'']]]
        \<and> returned (startup w) =
            ((dirs w (path_dirname (getConfigPath w)) \<or> can_mkdir w (path_dirname (getConfigPath w)))
             \<and> can_write w (getConfigPath w)))
   \<and> ((files w (getConfigPath w) = Missing \<or> files w (getConfigPath w) = Unreadable
         \<or> files w (getConfigPath w) = Content Not_json)
       \<and> (dirs w (path_dirname (getConfigPath w)) \<or> can_mkdir w (path_dirname (getConfigPath w)))
       \<and> can_write w (getConfigPath w)
      \<longrightarrow> startup w =
           Ret () (w\<lparr>dirs := (dirs w)(path_dirname (getConfigPath w) := True),
             files := (files w)(getConfigPath w := Content (Config_json \<lparr>cookie = Some ''unknown''\<rparr>)),
             config := \<lparr>cookie = Some ''unknown''\<rparr>,
             console := console w @
               [[[Lit ''Couldn't read configuration file:'']],
                [[Val (Err (case files w (getConfigPath w) of Missing \<Rightarrow> NotFound
                              | Unreadable \<Rightarrow> PermissionDenied | Content _ \<Rightarrow> SyntaxError))]],
                [[Lit ''Wrote default file.'']]]\<rparr>))"
  using startup_reads [of w c] startup_defaults [of w] startup_reports [of w] by blast

theorem startup_config_witness:
  "files ((fresh_world (\<lambda>_ _. Rejects) None)\<lparr>files := (\<lambda>_. Missing)
       (getConfigPath (fresh_world (\<lambda>_ _. Rejects) None) := Content (Config_json \<lparr>cookie = Some ''abc123''\<rparr>))\<rparr>)
     (getConfigPath (fresh_world (\<lambda>_ _. Rejects) None)) = Content (Config_json \<lparr>cookie = Some ''abc123''\<rparr>)
   \<and> config (final (startup ((fresh_world (\<lambda>_ _. Rejects) None)\<lparr>files := (\<lambda>_. Missing)
       (getConfigPath (fresh_world (\<lambda>_ _. Rejects) None) := Content (Config_json \<lparr>cookie = Some ''abc123''\<rparr>))\<rparr>)))
     = \<lparr>cookie = Some ''abc123''\<rparr>
   \<and> files (fresh_world (\<lambda>_ _. Rejects) None) (getConfigPath (fresh_world (\<lambda>_ _. Rejects) None)) = Missing
   \<and> can_write (fresh_world (\<lambda>_ _. Rejects) None) (getConfigPath (fresh_world (\<lambda>_ _. Rejects) None))
   \<and> returned (startup (fresh_world (\<lambda>_ _. Rejects) None))
   \<and> config (final (startup (fresh_world (\<lambda>_ _. Rejects) None))) = \<lparr>cookie = Some ''unknown''\<rparr>
   \<and> files (final (startup (fresh_world (\<lambda>_ _. Rejects) None)))
       (getConfigPath (fresh_world (\<lambda>_ _. Rejects) None)) = Content (Config_json \<lparr>cookie = Some ''unknown''\<rparr>)
   \<and> files ((fresh_world (\<lambda>_ _. Rejects) None)\<lparr>can_write := \<lambda>_. False\<rparr>)
       (getConfigPath ((fresh_world (\<lambda>_ _. Rejects) None)\<lparr>can_write := \<lambda>_. False\<rparr>)) = Missing
   \<and> \<not> returned (startup ((fresh_world (\<lambda>_ _. Rejects) None)\<lparr>can_write := \<lambda>_. False\<rparr>))
   \<and> config (final (startup ((fresh_world (\<lambda>_ _. Rejects) None)\<lparr>can_write := \<lambda>_. False\<rparr>)))
       = \<lparr>cookie = Some ''unknown''\<rparr>
   \<and> printed startup ((fresh_world (\<lambda>_ _. Rejects) None)\<lparr>can_write := \<lambda>_. False\<rparr>) =
       [[[Lit ''Couldn't read configuration file:'']], [[Val (Err NotFound)]],
        [[Lit ''Wrote default file.'']]]"
proof -
  let ?w = "fresh_world (\<lambda>_ _. Rejects) None"
  let ?v = "?w\<lparr>files := (\<lambda>_. Missing)(getConfigPath ?w := Content (Config_json \<lparr>cookie = Some ''abc123''\<rparr>))\<rparr>"
  let ?u = "?w\<lparr>can_write := \<lambda>_. False\<rparr>"
  have f: "files ?v (getConfigPath ?v) = Content (Config_json \<lparr>cookie = Some ''abc123''\<rparr>)"
    by simp
  have g: "files ?w (getConfigPath ?w) = Missing" "dirs ?w (path_dirname (getConfigPath ?w))"
    "can_write ?w (getConfigPath ?w)"
    by (simp_all add: fresh_world_def)
  have h: "files ?u (getConfigPath ?u) = Missing" "\<not> can_write ?u (getConfigPath ?u)"
    by (simp_all add: fresh_world_def)
  from startup_config [of ?v "\<lparr>cookie = Some ''abc123''\<rparr>"] f
  have 1: "startup ?v = Ret () (?v\<lparr>config := \<lparr>cookie = Some ''abc123''\<rparr>\<rparr>)" by blast
  from startup_config [of ?w] g
  have 2: "startup ?w =
           Ret () (?w\<lparr>dirs := (dirs ?w)(path_dirname (getConfigPath ?w) := True),
             files := (files ?w)(getConfigPath ?w := Content (Config_json \<lparr>cookie = Some ''unknown''\<rparr>)),
             config := \<lparr>cookie = Some ''unknown''\<rparr>,
             console := console ?w @
               [[[Lit ''Couldn't read configuration file:'']],
                [[Val (Err (case files ?w (getConfigPath ?w) of Missing \<Rightarrow> NotFound
                              | Unreadable \<Rightarrow> PermissionDenied | Content _ \<Rightarrow> SyntaxError))]],
                [[Lit ''Wrote default file.'']]]\<rparr>)" by blast
  from startup_config [of ?u] h
  have 3: "config (final (startup ?u)) = \<lparr>cookie = Some ''unknown''\<rparr>
        \<and> printed startup ?u =
            [[[Lit ''Couldn't read configuration file:'']],
             [[Val (Err (case files ?u (getConfigPath ?u) of Missing \<Rightarrow> NotFound
                           | Unreadable \<Rightarrow> PermissionDenied | Content _ \<Rightarrow> SyntaxError))]],
             [[Lit ''Wrote default file.'']]]
        \<and> \<not> returned (startup ?u)" by blast
  have 4: "config (final (startup ?u)) = \<lparr>cookie = Some ''unknown''\<rparr>"
    "printed startup ?u = [[[Lit ''Couldn't read configuration file:'']], [[Val (Err NotFound)]],
        [[Lit ''Wrote default file.'']]]" "\<not> returned (startup ?u)"
    using 3 h(1) by simp_all
  show ?thesis
    unfolding 1 2 using f g h 4 by simp
qed

subsection \<open>Currency values\<close>

lemma printed_console_only:
  assumes "console_only m"
  shows "console (final (m w)) = console w @ printed m w"
proof -
  from assms obtain ls where "final (m w) = w\<lparr>console := console w @ ls\<rparr>"
    unfolding console_only_def by blast
  then show ?thesis by (simp add: printed_def)
qed

lemma printed_seq_log:
  assumes "console_only m"
  shows "printed (seq (console_log l) m) w = l # printed m (w\<lparr>console := console w @ [l]\<rparr>)"
proof -
  let ?w = "w\<lparr>console := console w @ [l]\<rparr>"
  from assms obtain ls where f: "final (m ?w) = ?w\<lparr>console := console ?w @ ls\<rparr>"
    unfolding console_only_def by blast
  then show ?thesis by (simp add: printed_def)
qed

lemma printed_log [simp]: "printed (console_log l) w = [l]"
  by (simp add: printed_def console_log_def)

lemma console_only_view_user_transaction [simp]: "console_only (view_user_transaction t)"
  unfolding view_user_transaction_def by (intro console_only_if console_only_log console_only_ret)

lemma console_only_view_user_report [simp]: "console_only (view_user_report js)"
  unfolding view_user_report_def
  by (intro console_only_seq console_only_if console_only_for_each console_only_log
      console_only_ret console_only_view_user_transaction)

lemma console_only_portfolio_transaction [simp]: "console_only (portfolio_transaction t)"
  unfolding portfolio_transaction_def
  by (auto split: option.split)

lemma summary_report_prints:
  "summary_report js w =
     Ret () (w\<lparr>console := console w @
       [[[Chalk bold [Lit ''Portfolio''], Lit '' Summary'']],
        [[Lit ''Balance: '', Chalk yellowBright [Lit ''$''],
          Chalk yellow [Val (Num (spec_currency (baseCurrencyBalance js)))]]],
        [[Lit ''Total coin value: '', Chalk yellowBright [Lit ''$''],
          Chalk yellow [Val (Num (spec_currency (totalCoinValue js)))]]],
        [[Lit ''Total value: '', Chalk yellowBright [Lit ''$''],
          Chalk yellow [Val (Num (spec_currency (totalValue js)))]]]]\<rparr>)"
  by (simp add: summary_report_def console_log_def spec_currency_def)

lemma view_user_report_head:
  "take 8 (printed (view_user_report js) w) =
     [[[Chalk bold [Val (Str (profile_name (user_profile js)))], Lit '' (@'',
        Chalk italic [Val (Str (profile_username (user_profile js)))], Lit '') '',
        (if profile_isAdmin (user_profile js) then Chalk bgRedBright [Lit ''ADMIN''] else Lit [])]],
      [[Val (Str (profile_bio (user_profile js)))]],
      [[Lit ''Total portfolio: '', Chalk yellowBright [Lit ''$''],
        Chalk yellow [Val (Num (spec_currency (totalPortfolioValue (user_stats js))))]]],
      [[Lit ''Illiquid value: '', Chalk yellowBright [Lit ''$''],
        Chalk yellow [Val (Num (spec_currency (holdingsValue (user_stats js))))]]],
      [[Lit ''Liquid value: '', Chalk yellowBright [Lit ''$''],
        Chalk yellow [floor_1000 (profile_baseCurrencyBalance (user_profile js))]]],
      [[Lit ''Buy volume: '', Chalk yellowBright [Lit ''$''],
        Chalk yellow [Val (Num (Math_floor (Fin (totalBuyVolume (user_stats js)))))]]],
      [[Lit ''Sell volume: '', Chalk yellowBright [Lit ''$''],
        Chalk yellow [floor_1000 (totalSellVolume (user_stats js))]]],
      [[num (coinsCreated (user_stats js)), Lit '' created coins'']]]"
  unfolding view_user_report_def
  by (simp add: printed_seq_log console_only_seq console_only_if console_only_for_each
      spec_currency_def)

lemma portfolio_report_head:
  assumes "json a = Summary_json b c t hs"
  shows "take 4 (printed (portfolio_report a r) w) =
     [[[Chalk bold [Lit ''Portfolio'']]],
      [[Lit ''Balance: '', Chalk yellowBright [Lit ''$''], Chalk yellow [Val (Num (spec_currency b))]]],
      [[Lit ''Total coin value: '', Chalk yellowBright [Lit ''$''],
        Chalk yellow [Val (Num (spec_currency c))]]],
      [[Lit ''Total value: '', Chalk yellowBright [Lit ''$''], Chalk yellow [Val (Num (spec_currency t))]]]]"
proof -
  have k: "console_only (case json r of Transactions_json ts \<Rightarrow> for_each portfolio_transaction ts
                          | _ \<Rightarrow> unmodelled)"
    by (auto split: payload.split)
  show ?thesis
    unfolding portfolio_report_def assms
    by (simp add: printed_seq_log console_only_seq console_only_for_each k spec_currency_def)
qed

text \<open>The lines of the transaction logs that show an amount of currency.\<close>

lemma view_user_transaction_prints:
  "printed (view_user_transaction (Recent ''BUY'' q sy nm am rc sn)) w =
     [[[Lit ''  '', Chalk bgGreen [Lit ''Buy''], Lit '' '', Val (Num (spec_currency q)), Lit '' '',
        Chalk bgWhite [Val (Str sy)], Lit '' for '', Chalk yellow [Lit ''$''],
        Chalk yellowBright [num am]]]]"
  "printed (view_user_transaction (Recent ''SELL'' q sy nm am rc sn)) w =
     [[[Lit ''  '', Chalk bgRedBright [Lit ''Sell''], Lit '' '', Val (Num (spec_currency q)), Lit '' '',
        Chalk bgWhite [Val (Str sy)], Lit '' for '', Chalk yellow [Lit ''$''],
        Chalk yellowBright [num am]]]]"
  "printed (view_user_transaction (Recent ''TRANSFER_OUT'' q sy ''LINKCOIN'' am rc sn)) w =
     [[[Lit ''  '', Chalk bgBlue [Lit ''Transferred''], Lit '' '', Chalk yellow [Lit ''$''],
        Chalk yellowBright [Val (Num (spec_currency am))], Lit '' to '',
        Chalk bold [Val (str_or_null rc)], Lit '' '']]]"
  "printed (view_user_transaction (Recent ''TRANSFER_IN'' q sy ''LINKCOIN'' am rc sn)) w =
     [[[Lit ''  '', Chalk bgBlue [Lit ''Received''], Lit '' '', Chalk yellow [Lit ''$''],
        Chalk yellowBright [Val (Num (spec_currency am))], Lit '' from '',
        Chalk bold [Val (str_or_null sn)]]]]"
  by (simp_all add: view_user_transaction_def spec_currency_def)

lemma portfolio_transaction_prints:
  "printed (portfolio_transaction (Transaction ''BUY'' q sy i am rc sn)) w =
     [[[Lit ''  '', Chalk bgGreen [Lit ''Buy''], Lit '' '', Val (Num (spec_currency q)), Lit '' '',
        Chalk bgWhite [Val (Str sy)], Lit '' for '', Chalk yellow [Lit ''$''],
        Chalk yellowBright [num am]]]]"
  "printed (portfolio_transaction (Transaction ''SELL'' q sy i am rc sn)) w =
     [[[Lit ''  '', Chalk bgRedBright [Lit ''Sell''], Lit '' '', Val (Num (spec_currency q)), Lit '' '',
        Chalk bgWhite [Val (Str sy)], Lit '' for '', Chalk yellow [Lit ''$''],
        Chalk yellowBright [num am]]]]"
  "printed (portfolio_transaction (Transaction ''TRANSFER_OUT'' q sy 1 am (Some u) sn)) w =
     [[[Lit ''  '', Chalk bgBlue [Lit ''Transferred''], Lit '' '', Chalk yellow [Lit ''$''],
        Chalk yellowBright [Val (Num (spec_currency am))], Lit '' to '',
        Chalk bold [Val (Str u)], Lit '' '']]]"
  "printed (portfolio_transaction (Transaction ''TRANSFER_IN'' q sy 1 am rc (Some u))) w =
     [[[Lit ''  '', Chalk bgBlue [Lit ''Received''], Lit '' '', Chalk yellow [Lit ''$''],
        Chalk yellowBright [Val (Num (spec_currency am))], Lit '' from '',
        Chalk bold [Val (Str u)]]]]"
  by (simp_all add: portfolio_transaction_def spec_currency_def)

text \<open>The balance lines of \<^verbatim>\<open>daily-reward\<close>, \<^verbatim>\<open>buy-coin\<close> and \<^verbatim>\<open>sell-coin\<close>.\<close>

lemma daily_reward_line:
  assumes "cookie (config w) \<noteq> Some ''unknown''"
    and "\<forall>rq. server w (length (network w)) rq = Responds a" and "ok a"
    and "json a = Reward_json cl bal rw"
  shows "printed (daily_reward_callback args) w =
        [[[Chalk greenBright [Lit ''Redeemed''], Lit '' '', num cl,
           Lit ('' rewards'' @ [CHR 0x0A] @ ''New balance: ''), Chalk yellow [Lit ''$''],
           Chalk yellowBright [num bal], Lit '' (+'', Chalk yellowBright [num rw], Lit '')'']]]"
  using assms
  by (simp add: daily_reward_callback_def api_req_known bind_def console_log_def printed_def)

lemma trade_lines:
  assumes "cookie (config w) \<noteq> Some ''unknown''"
    and "\<forall>rq. server w (length (network w)) rq = Responds a" and "ok a"
    and "json a = Trade_json sold bal"
  shows "printed (buy_coin_callback [coin, amount]) w ! 1 =
        [[Lit ''New balance: '', Chalk yellow [Lit ''$''], Chalk yellowBright [num bal],
          Lit '' (-'', Chalk redBright [Val (Str amount)], Lit '')'']]
      \<and> printed (sell_coin_callback [coin, amount]) w ! 1 =
        [[Lit ''New balance: '', Chalk yellow [Lit ''$''], Chalk yellowBright [num bal],
          Lit '' (+'', Chalk greenBright [Val (Str amount)], Lit '')'']]"
  using assms
  by (simp add: buy_coin_callback_def sell_coin_callback_def
      api_req_known bind_def seq_def console_log_def printed_def)

lemma spec_currency_values:
  "spec_currency (1 / 1024) = Fin (1152921504606847 / 2 ^ 60)"
  "spec_currency (3 / 2) = Fin (3 / 2)"
  "spec_currency 0 = Fin 0"
  by (simp_all add: spec_currency_def double_eval)

text \<open>
  Claim C5 says that every currency value is displayed as \<^verbatim>\<open>round(x*1000)/1000\<close>, the
  liquid value, the buy volume and the sell volume of \<^verbatim>\<open>view-user\<close> included. Those three
  go through \<^verbatim>\<open>Math.floor\<close>: a liquid value of 1/1024 is displayed as 0 where rounding
  gives 0.001, and a buy volume of 1.5 as 1. Eight more values are displayed as the server
  sent them, not rounded: the current price of a holding, the amount of a purchase and of
  a sale in both transaction logs, and the new balance of \<^verbatim>\<open>daily-reward\<close>, \<^verbatim>\<open>buy-coin\<close> and
  \<^verbatim>\<open>sell-coin\<close>; there 1/1024 stays 0.0009765625.
\<close>

theorem currency_display_counterexample:
  "printed (view_user_report (User_json
       \<lparr>profile_name = ''Ann'', profile_username = ''ann'', profile_isAdmin = False,
        profile_bio = ''hello'', profile_baseCurrencyBalance = 1 / 1024\<rparr>
       \<lparr>totalPortfolioValue = 1 / 1024, holdingsValue = 0, totalBuyVolume = 3 / 2,
        totalSellVolume = 1 / 1024, coinsCreated = 0\<rparr> [] []))
     (fresh_world (\<lambda>_ _. Rejects) (Some ''abc'')) =
     [[[Chalk bold [Val (Str ''Ann'')], Lit '' (@'', Chalk italic [Val (Str ''ann'')], Lit '') '', Lit []]],
      [[Val (Str ''hello'')]],
      [[Lit ''Total portfolio: '', Chalk yellowBright [Lit ''$''],
        Chalk yellow [num (1152921504606847 / 2 ^ 60)]]],
      [[Lit ''Illiquid value: '', Chalk yellowBright [Lit ''$''], Chalk yellow [num 0]]],
      [[Lit ''Liquid value: '', Chalk yellowBright [Lit ''$''], Chalk yellow [num 0]]],
      [[Lit ''Buy volume: '', Chalk yellowBright [Lit ''$''], Chalk yellow [num 1]]],
      [[Lit ''Sell volume: '', Chalk yellowBright [Lit ''$''], Chalk yellow [num 0]]],
      [[num 0, Lit '' created coins'']],
      [[Lit ''Recent transactions'']]]
   \<and> spec_currency (1 / 1024) = Fin (1152921504606847 / 2 ^ 60)
   \<and> spec_currency (1 / 1024) \<noteq> Fin 0
   \<and> spec_currency (1 / 1024) \<noteq> Fin (1 / 1024)
   \<and> spec_currency (3 / 2) = Fin (3 / 2)
   \<and> portfolio_holding_line (Holding ''ABC'' 0 (1 / 1024) 0 0 0) =
       [[Lit ''  '', Chalk bgWhite [Val (Str ''ABC'')], Lit '' | '', num 0, Lit '' | '',
         Chalk yellow [Lit ''$''], Chalk yellowBright [num (1 / 1024)], Lit '' | '',
         Chalk bgGray [Lit ''- '', num 0], Lit '' | '', Chalk bgGray [Lit ''- '', num 0],
         Lit '' | '', Chalk yellow [Lit ''$''], Chalk yellowBright [num 0]]]
   \<and> printed (view_user_transaction (Recent ''BUY'' 0 ''ABC'' ''Abc'' (1 / 1024) None None))
        (fresh_world (\<lambda>_ _. Rejects) (Some ''abc'')) =
       [[[Lit ''  '', Chalk bgGreen [Lit ''Buy''], Lit '' '', num 0, Lit '' '',
          Chalk bgWhite [Val (Str ''ABC'')], Lit '' for '', Chalk yellow [Lit ''$''],
          Chalk yellowBright [num (1 / 1024)]]]]
   \<and> printed (view_user_transaction (Recent ''SELL'' 0 ''ABC'' ''Abc'' (1 / 1024) None None))
        (fresh_world (\<lambda>_ _. Rejects) (Some ''abc'')) =
       [[[Lit ''  '', Chalk bgRedBright [Lit ''Sell''], Lit '' '', num 0, Lit '' '',
          Chalk bgWhite [Val (Str ''ABC'')], Lit '' for '', Chalk yellow [Lit ''$''],
          Chalk yellowBright [num (1 / 1024)]]]]
   \<and> printed (portfolio_transaction (Transaction ''BUY'' 0 ''ABC'' 7 (1 / 1024) None None))
        (fresh_world (\<lambda>_ _. Rejects) (Some ''abc'')) =
       [[[Lit ''  '', Chalk bgGreen [Lit ''Buy''], Lit '' '', num 0, Lit '' '',
          Chalk bgWhite [Val (Str ''ABC'')], Lit '' for '', Chalk yellow [Lit ''$''],
          Chalk yellowBright [num (1 / 1024)]]]]
   \<and> printed (portfolio_transaction (Transaction ''SELL'' 0 ''ABC'' 7 (1 / 1024) None None))
        (fresh_world (\<lambda>_ _. Rejects) (Some ''abc'')) =
       [[[Lit ''  '', Chalk bgRedBright [Lit ''Sell''], Lit '' '', num 0, Lit '' '',
          Chalk bgWhite [Val (Str ''ABC'')], Lit '' for '', Chalk yellow [Lit ''$''],
          Chalk yellowBright [num (1 / 1024)]]]]
   \<and> printed (daily_reward_callback [])
        (fresh_world (\<lambda>_ _. Responds \<lparr>ok = True, body_text = [],
           json = Reward_json 1 (1 / 1024) 0\<rparr>) (Some ''abc'')) =
       [[[Chalk greenBright [Lit ''Redeemed''], Lit '' '', num 1,
          Lit ('' rewards'' @ [CHR 0x0A] @ ''New balance: ''), Chalk yellow [Lit ''$''],
          Chalk yellowBright [num (1 / 1024)], Lit '' (+'', Chalk yellowBright [num 0], Lit '')'']]]
   \<and> printed (buy_coin_callback [''ABC'', ''1''])
        (fresh_world (\<lambda>_ _. Responds \<lparr>ok = True, body_text = [],
           json = Trade_json 1 (1 / 1024)\<rparr>) (Some ''abc'')) ! 1 =
       [[Lit ''New balance: '', Chalk yellow [Lit ''$''], Chalk yellowBright [num (1 / 1024)],
         Lit '' (-'', Chalk redBright [Val (Str ''1'')], Lit '')'']]
   \<and> printed (sell_coin_callback [''ABC'', ''1''])
        (fresh_world (\<lambda>_ _. Responds \<lparr>ok = True, body_text = [],
           json = Trade_json 1 (1 / 1024)\<rparr>) (Some ''abc'')) ! 1 =
       [[Lit ''New balance: '', Chalk yellow [Lit ''$''], Chalk yellowBright [num (1 / 1024)],
         Lit '' (+'', Chalk greenBright [Val (Str ''1'')], Lit '')'']]"
proof -
  have z: "num_div (Math_floor (num_mul (Fin (1 / 1024)) (Fin 1000))) (Fin 1000) = Fin 0"
    "Math_floor (Fin (3 / 2)) = Fin 1"
    by (simp_all add: double_eval)
  have c: "cookie (config (fresh_world srv (Some ''abc''))) \<noteq> Some ''unknown''"
    "server (fresh_world srv (Some ''abc'')) = srv" for srv
    by (simp_all add: fresh_world_def)
  have 1: "printed (view_user_report (User_json
       \<lparr>profile_name = ''Ann'', profile_username = ''ann'', profile_isAdmin = False,
        profile_bio = ''hello'', profile_baseCurrencyBalance = 1 / 1024\<rparr>
       \<lparr>totalPortfolioValue = 1 / 1024, holdingsValue = 0, totalBuyVolume = 3 / 2,
        totalSellVolume = 1 / 1024, coinsCreated = 0\<rparr> [] []))
     (fresh_world (\<lambda>_ _. Rejects) (Some ''abc'')) =
     [[[Chalk bold [Val (Str ''Ann'')], Lit '' (@'', Chalk italic [Val (Str ''ann'')], Lit '') '', Lit []]],
      [[Val (Str ''hello'')]],
      [[Lit ''Total portfolio: '', Chalk yellowBright [Lit ''$''],
        Chalk yellow [num (1152921504606847 / 2 ^ 60)]]],
      [[Lit ''Illiquid value: '', Chalk yellowBright [Lit ''$''], Chalk yellow [num 0]]],
      [[Lit ''Liquid value: '', Chalk yellowBright [Lit ''$''], Chalk yellow [num 0]]],
      [[Lit ''Buy volume: '', Chalk yellowBright [Lit ''$''], Chalk yellow [num 1]]],
      [[Lit ''Sell volume: '', Chalk yellowBright [Lit ''$''], Chalk yellow [num 0]]],
      [[num 0, Lit '' created coins'']],
      [[Lit ''Recent transactions'']]]"
    by (simp add: view_user_report_def printed_def console_log_def objects_gt_zero_def
        fresh_world_def spec_currency_def [symmetric] spec_currency_values z)
  have 2: "portfolio_holding_line (Holding ''ABC'' 0 (1 / 1024) 0 0 0) =
       [[Lit ''  '', Chalk bgWhite [Val (Str ''ABC'')], Lit '' | '', num 0, Lit '' | '',
         Chalk yellow [Lit ''$''], Chalk yellowBright [num (1 / 1024)], Lit '' | '',
         Chalk bgGray [Lit ''- '', num 0], Lit '' | '', Chalk bgGray [Lit ''- '', num 0],
         Lit '' | '', Chalk yellow [Lit ''$''], Chalk yellowBright [num 0]]]"
    by (simp add: portfolio_holding_line_def portfolio_percentageChange_def
        portfolio_dayChange_def spec_currency_def [symmetric] spec_currency_values)
  have 3: "spec_currency (1 / 1024) \<noteq> Fin 0" "spec_currency (1 / 1024) \<noteq> Fin (1 / 1024)"
    by (simp_all add: spec_currency_values)
  note 4 = view_user_transaction_prints(1,2) [where q = 0, unfolded spec_currency_values]
    portfolio_transaction_prints(1,2) [where q = 0, unfolded spec_currency_values]
  have 5: "printed (daily_reward_callback [])
        (fresh_world (\<lambda>_ _. Responds \<lparr>ok = True, body_text = [],
           json = Reward_json 1 (1 / 1024) 0\<rparr>) (Some ''abc'')) =
       [[[Chalk greenBright [Lit ''Redeemed''], Lit '' '', num 1,
          Lit ('' rewards'' @ [CHR 0x0A] @ ''New balance: ''), Chalk yellow [Lit ''$''],
          Chalk yellowBright [num (1 / 1024)], Lit '' (+'', Chalk yellowBright [num 0], Lit '')'']]]"
    by (rule daily_reward_line [where a = "\<lparr>ok = True, body_text = [],
           json = Reward_json 1 (1 / 1024) 0\<rparr>"]) (simp_all add: c)
  have 6: "printed (buy_coin_callback [''ABC'', ''1''])
        (fresh_world (\<lambda>_ _. Responds \<lparr>ok = True, body_text = [],
           json = Trade_json 1 (1 / 1024)\<rparr>) (Some ''abc'')) ! 1 =
       [[Lit ''New balance: '', Chalk yellow [Lit ''$''], Chalk yellowBright [num (1 / 1024)],
         Lit '' (-'', Chalk redBright [Val (Str ''1'')], Lit '')'']]
   \<and> printed (sell_coin_callback [''ABC'', ''1''])
        (fresh_world (\<lambda>_ _. Responds \<lparr>ok = True, body_text = [],
           json = Trade_json 1 (1 / 1024)\<rparr>) (Some ''abc'')) ! 1 =
       [[Lit ''New balance: '', Chalk yellow [Lit ''$''], Chalk yellowBright [num (1 / 1024)],
         Lit '' (+'', Chalk greenBright [Val (Str ''1'')], Lit '')'']]"
    by (rule trade_lines [where a = "\<lparr>ok = True, body_text = [], json = Trade_json 1 (1 / 1024)\<rparr>"])
      (simp_all add: c)
  show ?thesis
    by (intro conjI 1 2 3 4 5 6 [THEN conjunct1] 6 [THEN conjunct2] spec_currency_values(1,2))
qed


text \<open>
  Claim C5, amended. After the currency glyph, the value is \<^verbatim>\<open>round(x*1000)/1000\<close>, computed
  in doubles, at these places: the three values of \<^verbatim>\<open>summary\<close> and of \<^verbatim>\<open>portfolio\<close>, the value
  of a holding, the new balance after \<^verbatim>\<open>coinflip\<close> and \<^verbatim>\<open>slots\<close>, the current price in
  \<^verbatim>\<open>market\<close> and of a created coin in \<^verbatim>\<open>view-user\<close>, the total portfolio and the illiquid
  value of \<^verbatim>\<open>view-user\<close>, and the amount of a transfer of currency in both transaction logs.
  The liquid value and the sell volume of \<^verbatim>\<open>view-user\<close> are \<^verbatim>\<open>floor(x*1000)/1000\<close>. The current
  price of a holding, the amount of a purchase and of a sale in both transaction logs, and
  the new balance of \<^verbatim>\<open>daily-reward\<close>, \<^verbatim>\<open>buy-coin\<close> and \<^verbatim>\<open>sell-coin\<close> are displayed as the
  server sent them.
\<close>

theorem currency_display:
  "printed (summary_report (Summary_json b c t hs)) w =
     [[[Chalk bold [Lit ''Portfolio''], Lit '' Summary'']],
      [[Lit ''Balance: '', Chalk yellowBright [Lit ''$''], Chalk yellow [Val (Num (spec_currency b))]]],
      [[Lit ''Total coin value: '', Chalk yellowBright [Lit ''$''],
        Chalk yellow [Val (Num (spec_currency c))]]],
      [[Lit ''Total value: '', Chalk yellowBright [Lit ''$''], Chalk yellow [Val (Num (spec_currency t))]]]]
   \<and> (json a = Summary_json b c t hs \<longrightarrow>
        take 4 (printed (portfolio_report a r) w) =
          [[[Chalk bold [Lit ''Portfolio'']]],
           [[Lit ''Balance: '', Chalk yellowBright [Lit ''$''],
             Chalk yellow [Val (Num (spec_currency b))]]],
           [[Lit ''Total coin value: '', Chalk yellowBright [Lit ''$''],
             Chalk yellow [Val (Num (spec_currency c))]]],
           [[Lit ''Total value: '', Chalk yellowBright [Lit ''$''],
             Chalk yellow [Val (Num (spec_currency t))]]]])
   \<and> (cookie (config w) \<noteq> Some ''unknown'' \<and> (\<forall>rq. server w (length (network w)) rq = Responds a)
        \<and> ok a \<and> json a = Reward_json cl bal rw \<longrightarrow>
        printed (daily_reward_callback args) w =
          [[[Chalk greenBright [Lit ''Redeemed''], Lit '' '', num cl,
             Lit ('' rewards'' @ [CHR 0x0A] @ ''New balance: ''), Chalk yellow [Lit ''$''],
             Chalk yellowBright [num bal], Lit '' (+'', Chalk yellowBright [num rw], Lit '')'']]])
   \<and> (cookie (config w) \<noteq> Some ''unknown'' \<and> (\<forall>rq. server w (length (network w)) rq = Responds a)
        \<and> ok a \<and> json a = Trade_json sold bal \<longrightarrow>
        printed (buy_coin_callback [coin, amt]) w ! 1 =
          [[Lit ''New balance: '', Chalk yellow [Lit ''$''], Chalk yellowBright [num bal],
            Lit '' (-'', Chalk redBright [Val (Str amt)], Lit '')'']]
        \<and> printed (sell_coin_callback [coin, amt]) w ! 1 =
          [[Lit ''New balance: '', Chalk yellow [Lit ''$''], Chalk yellowBright [num bal],
            Lit '' (+'', Chalk greenBright [Val (Str amt)], Lit '')'']])
   \<and> portfolio_holding_line h =
        [[Lit ''  '', Chalk bgWhite [Val (Str (holding_symbol h))], Lit '' | '',
          Val (Num (spec_currency (holding_quantity h))), Lit '' | '',
          Chalk yellow [Lit ''$''], Chalk yellowBright [num (holding_currentPrice h)], Lit '' | '',
          portfolio_percentageChange h, Lit '' | '', portfolio_dayChange h, Lit '' | '',
          Chalk yellow [Lit ''$''], Chalk yellowBright [Val (Num (spec_currency (holding_value h)))]]]
   \<and> printed (gamble_result (Gamble_json wn nb po syms) amount) w ! 1 =
        [[Lit ''New balance: '', Chalk yellowBright [Lit ''$''],
          Chalk yellow [Val (Num (spec_currency nb))],
          Lit (if wn then '' (+'' else '' (-''),
          (if wn then Chalk yellowBright [num po] else Chalk redBright [Val (Num amount)]), Lit '')'']]
   \<and> market_line k =
        [[Lit ''  '', Chalk bgWhite [Val (Str (coin_symbol k))], Lit '' ('', Val (Str (coin_name k)),
          Lit '') | '', Chalk yellowBright [Lit ''$''],
          Chalk yellow [Val (Num (spec_currency (coin_currentPrice k)))],
          Lit '' | '', market_dayChange k, Lit '' | '', num (coin_marketCap k), Lit '' | @'',
          Chalk bold [Val (Str (coin_creatorName k))]]]
   \<and> printed (view_user_report (User_json p st cs ts)) w ! 2 =
        [[Lit ''Total portfolio: '', Chalk yellowBright [Lit ''$''],
          Chalk yellow [Val (Num (spec_currency (totalPortfolioValue st)))]]]
   \<and> printed (view_user_report (User_json p st cs ts)) w ! 3 =
        [[Lit ''Illiquid value: '', Chalk yellowBright [Lit ''$''],
          Chalk yellow [Val (Num (spec_currency (holdingsValue st)))]]]
   \<and> printed (view_user_report (User_json p st cs ts)) w ! 4 =
        [[Lit ''Liquid value: '', Chalk yellowBright [Lit ''$''],
          Chalk yellow [Val (Num (num_div (Math_floor (num_mul (Fin (profile_baseCurrencyBalance p))
                                                                 (Fin 1000))) (Fin 1000)))]]]
   \<and> printed (view_user_report (User_json p st cs ts)) w ! 6 =
        [[Lit ''Sell volume: '', Chalk yellowBright [Lit ''$''],
          Chalk yellow [Val (Num (num_div (Math_floor (num_mul (Fin (totalSellVolume st))
                                                                 (Fin 1000))) (Fin 1000)))]]]
   \<and> view_user_coin_line k =
        [[Lit ''  '', Chalk bgWhite [], Lit '' ('', Val (Builtin ''chalk.name''), Lit '') | '',
          Chalk yellow [Lit ''$''], Chalk yellowBright [Val (Num (spec_currency (coin_currentPrice k)))],
          Lit '' | '', view_user_dayChange k, Lit '' | '',
          Val (Num (num_div (Math_floor (num_mul (Fin (coin_marketCap k)) (Fin 1000))) (Fin 1000)))]]
   \<and> printed (view_user_transaction (Recent ''TRANSFER_OUT'' q sy ''LINKCOIN'' am rc sn)) w =
        [[[Lit ''  '', Chalk bgBlue [Lit ''Transferred''], Lit '' '', Chalk yellow [Lit ''$''],
           Chalk yellowBright [Val (Num (spec_currency am))], Lit '' to '',
           Chalk bold [Val (str_or_null rc)], Lit '' '']]]
   \<and> printed (view_user_transaction (Recent ''TRANSFER_IN'' q sy ''LINKCOIN'' am rc sn)) w =
        [[[Lit ''  '', Chalk bgBlue [Lit ''Received''], Lit '' '', Chalk yellow [Lit ''$''],
           Chalk yellowBright [Val (Num (spec_currency am))], Lit '' from '',
           Chalk bold [Val (str_or_null sn)]]]]
   \<and> printed (portfolio_transaction (Transaction ''TRANSFER_OUT'' q sy 1 am (Some u) sn)) w =
        [[[Lit ''  '', Chalk bgBlue [Lit ''Transferred''], Lit '' '', Chalk yellow [Lit ''$''],
           Chalk yellowBright [Val (Num (spec_currency am))], Lit '' to '',
           Chalk bold [Val (Str u)], Lit '' '']]]
   \<and> printed (portfolio_transaction (Transaction ''TRANSFER_IN'' q sy 1 am rc (Some u))) w =
        [[[Lit ''  '', Chalk bgBlue [Lit ''Received''], Lit '' '', Chalk yellow [Lit ''$''],
           Chalk yellowBright [Val (Num (spec_currency am))], Lit '' from '',
           Chalk bold [Val (Str u)]]]]
   \<and> printed (view_user_transaction (Recent ''BUY'' q sy nm am rc sn)) w =
        [[[Lit ''  '', Chalk bgGreen [Lit ''Buy''], Lit '' '', Val (Num (spec_currency q)), Lit '' '',
           Chalk bgWhite [Val (Str sy)], Lit '' for '', Chalk yellow [Lit ''$''],
           Chalk yellowBright [num am]]]]
   \<and> printed (view_user_transaction (Recent ''SELL'' q sy nm am rc sn)) w =
        [[[Lit ''  '', Chalk bgRedBright [Lit ''Sell''], Lit '' '', Val (Num (spec_currency q)), Lit '' '',
           Chalk bgWhite [Val (Str sy)], Lit '' for '', Chalk yellow [Lit ''$''],
           Chalk yellowBright [num am]]]]
   \<and> printed (portfolio_transaction (Transaction ''BUY'' q sy i am rc sn)) w =
        [[[Lit ''  '', Chalk bgGreen [Lit ''Buy''], Lit '' '', Val (Num (spec_currency q)), Lit '' '',
           Chalk bgWhite [Val (Str sy)], Lit '' for '', Chalk yellow [Lit ''$''],
           Chalk yellowBright [num am]]]]
   \<and> printed (portfolio_transaction (Transaction ''SELL'' q sy i am rc sn)) w =
        [[[Lit ''  '', Chalk bgRedBright [Lit ''Sell''], Lit '' '', Val (Num (spec_currency q)), Lit '' '',
           Chalk bgWhite [Val (Str sy)], Lit '' for '', Chalk yellow [Lit ''$''],
           Chalk yellowBright [num am]]]]"
proof -
  let ?v = "printed (view_user_report (User_json p st cs ts)) w"
  have v: "?v ! 2 = take 8 ?v ! 2" "?v ! 3 = take 8 ?v ! 3" "?v ! 4 = take 8 ?v ! 4"
    "?v ! 6 = take 8 ?v ! 6"
    by simp_all
  have v2: "?v ! 2 = [[Lit ''Total portfolio: '', Chalk yellowBright [Lit ''$''],
          Chalk yellow [Val (Num (spec_currency (totalPortfolioValue st)))]]]"
    unfolding v view_user_report_head by simp
  have v3: "?v ! 3 = [[Lit ''Illiquid value: '', Chalk yellowBright [Lit ''$''],
          Chalk yellow [Val (Num (spec_currency (holdingsValue st)))]]]"
    unfolding v view_user_report_head by simp
  have v4: "?v ! 4 = [[Lit ''Liquid value: '', Chalk yellowBright [Lit ''$''],
          Chalk yellow [floor_1000 (profile_baseCurrencyBalance p)]]]"
    unfolding v view_user_report_head by simp
  have v6: "?v ! 6 = [[Lit ''Sell volume: '', Chalk yellowBright [Lit ''$''],
          Chalk yellow [floor_1000 (totalSellVolume st)]]]"
    unfolding v view_user_report_head by simp
  have g: "printed (gamble_result (Gamble_json wn nb po syms) amount) w ! 1 =
        [[Lit ''New balance: '', Chalk yellowBright [Lit ''$''],
          Chalk yellow [Val (Num (spec_currency nb))],
          Lit (if wn then '' (+'' else '' (-''),
          (if wn then Chalk yellowBright [num po] else Chalk redBright [Val (Num amount)]), Lit '')'']]"
    by (simp add: printed_def gamble_result_prints spec_currency_def)
  have s: "printed (summary_report (Summary_json b c t hs)) w =
     [[[Chalk bold [Lit ''Portfolio''], Lit '' Summary'']],
      [[Lit ''Balance: '', Chalk yellowBright [Lit ''$''], Chalk yellow [Val (Num (spec_currency b))]]],
      [[Lit ''Total coin value: '', Chalk yellowBright [Lit ''$''],
        Chalk yellow [Val (Num (spec_currency c))]]],
      [[Lit ''Total value: '', Chalk yellowBright [Lit ''$''], Chalk yellow [Val (Num (spec_currency t))]]]]"
    by (simp add: printed_def summary_report_prints)
  have l: "portfolio_holding_line h =
        [[Lit ''  '', Chalk bgWhite [Val (Str (holding_symbol h))], Lit '' | '',
          Val (Num (spec_currency (holding_quantity h))), Lit '' | '',
          Chalk yellow [Lit ''$''], Chalk yellowBright [num (holding_currentPrice h)], Lit '' | '',
          portfolio_percentageChange h, Lit '' | '', portfolio_dayChange h, Lit '' | '',
          Chalk yellow [Lit ''$''], Chalk yellowBright [Val (Num (spec_currency (holding_value h)))]]]"
    by (simp add: portfolio_holding_line_def spec_currency_def)
  have m: "market_line k =
        [[Lit ''  '', Chalk bgWhite [Val (Str (coin_symbol k))], Lit '' ('', Val (Str (coin_name k)),
          Lit '') | '', Chalk yellowBright [Lit ''$''],
          Chalk yellow [Val (Num (spec_currency (coin_currentPrice k)))],
          Lit '' | '', market_dayChange k, Lit '' | '', num (coin_marketCap k), Lit '' | @'',
          Chalk bold [Val (Str (coin_creatorName k))]]]"
    by (simp add: market_line_def spec_currency_def)
  have u: "view_user_coin_line k =
        [[Lit ''  '', Chalk bgWhite [], Lit '' ('', Val (Builtin ''chalk.name''), Lit '') | '',
          Chalk yellow [Lit ''$''], Chalk yellowBright [Val (Num (spec_currency (coin_currentPrice k)))],
          Lit '' | '', view_user_dayChange k, Lit '' | '',
          floor_1000 (coin_marketCap k)]]"
    by (simp add: view_user_coin_line_def spec_currency_def)
  have q: "json a = Summary_json b c t hs \<longrightarrow>
        take 4 (printed (portfolio_report a r) w) =
          [[[Chalk bold [Lit ''Portfolio'']]],
           [[Lit ''Balance: '', Chalk yellowBright [Lit ''$''],
             Chalk yellow [Val (Num (spec_currency b))]]],
           [[Lit ''Total coin value: '', Chalk yellowBright [Lit ''$''],
             Chalk yellow [Val (Num (spec_currency c))]]],
           [[Lit ''Total value: '', Chalk yellowBright [Lit ''$''],
             Chalk yellow [Val (Num (spec_currency t))]]]]"
    using portfolio_report_head [of a b c t hs r w] by (intro impI)
  have d: "cookie (config w) \<noteq> Some ''unknown'' \<and> (\<forall>rq. server w (length (network w)) rq = Responds a)
        \<and> ok a \<and> json a = Reward_json cl bal rw \<longrightarrow>
        printed (daily_reward_callback args) w =
          [[[Chalk greenBright [Lit ''Redeemed''], Lit '' '', num cl,
             Lit ('' rewards'' @ [CHR 0x0A] @ ''New balance: ''), Chalk yellow [Lit ''$''],
             Chalk yellowBright [num bal], Lit '' (+'', Chalk yellowBright [num rw], Lit '')'']]]"
  proof (intro impI, elim conjE)
    assume "cookie (config w) \<noteq> Some ''unknown''" "\<forall>rq. server w (length (network w)) rq = Responds a"
      "ok a" "json a = Reward_json cl bal rw"
    then show "printed (daily_reward_callback args) w =
          [[[Chalk greenBright [Lit ''Redeemed''], Lit '' '', num cl,
             Lit ('' rewards'' @ [CHR 0x0A] @ ''New balance: ''), Chalk yellow [Lit ''$''],
             Chalk yellowBright [num bal], Lit '' (+'', Chalk yellowBright [num rw], Lit '')'']]]"
      by (rule daily_reward_line)
  qed
  have e: "cookie (config w) \<noteq> Some ''unknown'' \<and> (\<forall>rq. server w (length (network w)) rq = Responds a)
        \<and> ok a \<and> json a = Trade_json sold bal \<longrightarrow>
        printed (buy_coin_callback [coin, amt]) w ! 1 =
          [[Lit ''New balance: '', Chalk yellow [Lit ''$''], Chalk yellowBright [num bal],
            Lit '' (-'', Chalk redBright [Val (Str amt)], Lit '')'']]
        \<and> printed (sell_coin_callback [coin, amt]) w ! 1 =
          [[Lit ''New balance: '', Chalk yellow [Lit ''$''], Chalk yellowBright [num bal],
            Lit '' (+'', Chalk greenBright [Val (Str amt)], Lit '')'']]"
  proof (intro impI, elim conjE)
    assume "cookie (config w) \<noteq> Some ''unknown''" "\<forall>rq. server w (length (network w)) rq = Responds a"
      "ok a" "json a = Trade_json sold bal"
    then show "printed (buy_coin_callback [coin, amt]) w ! 1 =
          [[Lit ''New balance: '', Chalk yellow [Lit ''$''], Chalk yellowBright [num bal],
            Lit '' (-'', Chalk redBright [Val (Str amt)], Lit '')'']]
        \<and> printed (sell_coin_callback [coin, amt]) w ! 1 =
          [[Lit ''New balance: '', Chalk yellow [Lit ''$''], Chalk yellowBright [num bal],
            Lit '' (+'', Chalk greenBright [Val (Str amt)], Lit '')'']]"
      by (rule trade_lines)
  qed
  show ?thesis
    by (intro conjI s q l g m v2 v3 v4 v6 u view_user_transaction_prints
        portfolio_transaction_prints d e)
qed


theorem currency_display_witness:
  "printed (summary_report (Summary_json (6949954944958149 / 2 ^ 49) (5188146770730811 / 2 ^ 60)
       (2254051613498933 / 2 ^ 52) []))
     (fresh_world (\<lambda>_ _. Rejects) (Some ''abc'')) =
     [[[Chalk bold [Lit ''Portfolio''], Lit '' Summary'']],
      [[Lit ''Balance: '', Chalk yellowBright [Lit ''$''],
        Chalk yellow [num (3475090062469759 / 2 ^ 48)]]],
      [[Lit ''Total coin value: '', Chalk yellowBright [Lit ''$''],
        Chalk yellow [num (5764607523034235 / 2 ^ 60)]]],
      [[Lit ''Total value: '', Chalk yellowBright [Lit ''$''], Chalk yellow [num (1 / 2)]]]]
   \<and> json \<lparr>ok = True, body_text = [], json = Summary_json 1 2 3 []\<rparr> = Summary_json 1 2 3 []
   \<and> take 4 (printed (portfolio_report \<lparr>ok = True, body_text = [], json = Summary_json 1 2 3 []\<rparr>
          \<lparr>ok = True, body_text = [], json = Transactions_json []\<rparr>)
          (fresh_world (\<lambda>_ _. Rejects) (Some ''abc''))) =
          [[[Chalk bold [Lit ''Portfolio'']]],
           [[Lit ''Balance: '', Chalk yellowBright [Lit ''$''], Chalk yellow [num 1]]],
           [[Lit ''Total coin value: '', Chalk yellowBright [Lit ''$''], Chalk yellow [num 2]]],
           [[Lit ''Total value: '', Chalk yellowBright [Lit ''$''], Chalk yellow [num 3]]]]
   \<and> cookie (config (fresh_world (\<lambda>_ _. Responds \<lparr>ok = True, body_text = [],
           json = Reward_json 3 (25 / 2) 5\<rparr>) (Some ''abc''))) \<noteq> Some ''unknown''
   \<and> printed (daily_reward_callback [])
        (fresh_world (\<lambda>_ _. Responds \<lparr>ok = True, body_text = [],
           json = Reward_json 3 (25 / 2) 5\<rparr>) (Some ''abc'')) =
       [[[Chalk greenBright [Lit ''Redeemed''], Lit '' '', num 3,
          Lit ('' rewards'' @ [CHR 0x0A] @ ''New balance: ''), Chalk yellow [Lit ''$''],
          Chalk yellowBright [num (25 / 2)], Lit '' (+'', Chalk yellowBright [num 5], Lit '')'']]]
   \<and> cookie (config (fresh_world (\<lambda>_ _. Responds \<lparr>ok = True, body_text = [],
           json = Trade_json 4 (1 / 1024)\<rparr>) (Some ''abc''))) \<noteq> Some ''unknown''
   \<and> printed (buy_coin_callback [''ABC'', ''20''])
        (fresh_world (\<lambda>_ _. Responds \<lparr>ok = True, body_text = [],
           json = Trade_json 4 (1 / 1024)\<rparr>) (Some ''abc'')) ! 1 =
       [[Lit ''New balance: '', Chalk yellow [Lit ''$''], Chalk yellowBright [num (1 / 1024)],
         Lit '' (-'', Chalk redBright [Val (Str ''20'')], Lit '')'']]"
proof -
  let ?w = "fresh_world (\<lambda>_ _. Rejects) (Some ''abc'')"
  let ?a = "\<lparr>ok = True, body_text = [], json = Summary_json 1 2 3 []\<rparr>"
  let ?r = "\<lparr>ok = True, body_text = [], json = Reward_json 3 (25 / 2) 5\<rparr>"
  let ?t = "\<lparr>ok = True, body_text = [], json = Trade_json 4 (1 / 1024)\<rparr>"
  have v: "spec_currency (6949954944958149 / 2 ^ 49) = Fin (3475090062469759 / 2 ^ 48)"
    "spec_currency (5188146770730811 / 2 ^ 60) = Fin (5764607523034235 / 2 ^ 60)"
    "spec_currency (2254051613498933 / 2 ^ 52) = Fin (1 / 2)"
    "spec_currency 1 = Fin 1" "spec_currency 2 = Fin 2" "spec_currency 3 = Fin 3"
    by (simp_all add: spec_currency_def double_eval)
  have j: "json ?a = Summary_json 1 2 3 []"
    by simp
  have c: "cookie (config (fresh_world srv (Some ''abc''))) \<noteq> Some ''unknown''" for srv
    by (simp add: fresh_world_def)
  have hr: "cookie (config (fresh_world (\<lambda>_ _. Responds ?r) (Some ''abc''))) \<noteq> Some ''unknown''
      \<and> (\<forall>rq. server (fresh_world (\<lambda>_ _. Responds ?r) (Some ''abc''))
                 (length (network (fresh_world (\<lambda>_ _. Responds ?r) (Some ''abc'')))) rq = Responds ?r)
      \<and> ok ?r \<and> json ?r = Reward_json 3 (25 / 2) 5"
    by (simp add: fresh_world_def)
  have ht: "cookie (config (fresh_world (\<lambda>_ _. Responds ?t) (Some ''abc''))) \<noteq> Some ''unknown''
      \<and> (\<forall>rq. server (fresh_world (\<lambda>_ _. Responds ?t) (Some ''abc''))
                 (length (network (fresh_world (\<lambda>_ _. Responds ?t) (Some ''abc'')))) rq = Responds ?t)
      \<and> ok ?t \<and> json ?t = Trade_json 4 (1 / 1024)"
    by (simp add: fresh_world_def)
  note t1 = currency_display [where b = "6949954944958149 / 2 ^ 49" and c = "5188146770730811 / 2 ^ 60"
      and t = "2254051613498933 / 2 ^ 52" and hs = "[]" and w = ?w, THEN conjunct1, unfolded v]
  note t2 = currency_display [where b = 1 and c = 2 and t = 3 and hs = "[]" and a = ?a
      and r = "\<lparr>ok = True, body_text = [], json = Transactions_json []\<rparr>" and w = ?w,
      THEN conjunct2, THEN conjunct1, THEN mp, OF j, unfolded v]
  note t3 = currency_display [where w = "fresh_world (\<lambda>_ _. Responds ?r) (Some ''abc'')" and a = ?r
      and cl = 3 and bal = "25 / 2" and rw = 5 and args = "[]",
      THEN conjunct2, THEN conjunct2, THEN conjunct1, THEN mp, OF hr]
  note t4 = currency_display [where w = "fresh_world (\<lambda>_ _. Responds ?t) (Some ''abc'')" and a = ?t
      and sold = 4 and bal = "1 / 1024" and coin = "''ABC''" and amt = "''20''",
      THEN conjunct2, THEN conjunct2, THEN conjunct2, THEN conjunct1, THEN mp, OF ht, THEN conjunct1]
  show ?thesis
    by (intro conjI t1 t2 t3 t4 j c)
qed

subsection \<open>The purchases of \<^verbatim>\<open>invest\<close>\<close>

lemma request_headers_cong [simp]:
  "request_headers (w\<lparr>console := l\<rparr>) = request_headers w"
  "request_headers (w\<lparr>network := n\<rparr>) = request_headers w"
  by (simp_all add: request_headers_def)

lemma buy_request_cong [simp]:
  "buy_request (w\<lparr>console := l\<rparr>) = buy_request w"
  "buy_request (w\<lparr>network := n\<rparr>) = buy_request w"
  by (intro ext, simp add: buy_request_def)+

lemma after_buys_same [simp]: "after_buys w cs amount i i = w"
  by (simp add: after_buys_def)

lemma after_buys_fields [simp]:
  "config (after_buys w cs amount i j) = config w"
  "server (after_buys w cs amount i j) = server w"
  "length (network (after_buys w cs amount i j)) = length (network w) + (j - i)"
  "buy_request (after_buys w cs amount i j) = buy_request w"
  by (simp_all add: after_buys_def)

lemma after_buys_Suc:
  assumes "i \<le> j"
  shows "(after_buys w cs amount i j)
           \<lparr>network := network (after_buys w cs amount i j) @ [buy_request w (coin_symbol (cs ! j)) amount],
            console := console (after_buys w cs amount i j) @ [invested_line (coin_symbol (cs ! j)) amount]\<rparr>
         = after_buys w cs amount i (Suc j)"
  using assms by (simp add: after_buys_def)

text \<open>One turn of the loop whose BUY goes well.\<close>

lemma invest_loop_step:
  assumes "cookie (config v) \<noteq> Some ''unknown''" and "i < length cs"
    and "num_lt (Fin (real i)) limit"
    and "server v (length (network v)) (buy_request v (coin_symbol (cs ! i)) amount) = Responds t"
    and "ok t"
  shows "invest_loop limit amount cs i v =
           invest_loop limit amount cs (Suc i)
             (v\<lparr>network := network v @ [buy_request v (coin_symbol (cs ! i)) amount],
               console := console v @ [invested_line (coin_symbol (cs ! i)) amount]\<rparr>)"
  using assms
  by (subst invest_loop.simps)
    (simp add: api_req_known Let_def buy_request_def invested_line_def console_log_def)

lemma invest_loop_steps:
  assumes "cookie (config w) \<noteq> Some ''unknown''"
    and "j \<le> length cs" and "i \<le> j"
    and "\<And>k. k < j \<Longrightarrow> num_lt (Fin (real k)) limit"
    and "\<And>k. i \<le> k \<Longrightarrow> k < j \<Longrightarrow>
           \<exists>t. server w (length (network w) + (k - i)) (buy_request w (coin_symbol (cs ! k)) amount)
                  = Responds t \<and> ok t"
  shows "invest_loop limit amount cs i w = invest_loop limit amount cs j (after_buys w cs amount i j)"
  using assms(2-)
proof (induction j)
  case 0
  then show ?case by simp
next
  case (Suc j)
  show ?case
  proof (cases "i = Suc j")
    case True
    then show ?thesis by simp
  next
    case False
    with Suc.prems have ij: "i \<le> j" by simp
    have ih: "invest_loop limit amount cs i w = invest_loop limit amount cs j (after_buys w cs amount i j)"
      using Suc.prems ij by (intro Suc.IH) auto
    from Suc.prems(4) [of j] ij obtain t
      where t: "server w (length (network w) + (j - i)) (buy_request w (coin_symbol (cs ! j)) amount)
                  = Responds t" "ok t"
      by auto
    have "invest_loop limit amount cs j (after_buys w cs amount i j) =
          invest_loop limit amount cs (Suc j)
            ((after_buys w cs amount i j)
               \<lparr>network := network (after_buys w cs amount i j) @ [buy_request (after_buys w cs amount i j) (coin_symbol (cs ! j)) amount],
                console := console (after_buys w cs amount i j) @ [invested_line (coin_symbol (cs ! j)) amount]\<rparr>)"
      using assms(1) Suc.prems(1) Suc.prems(3) [of j] t
      by (intro invest_loop_step [where t = t]) simp_all
    with ih show ?thesis
      by (simp add: after_buys_Suc [OF ij])
  qed
qed


lemma invest_loop_done:
  "\<not> num_lt (Fin (real j)) limit \<Longrightarrow> invest_loop limit amount cs j v = Ret () v"
  by (subst invest_loop.simps) simp

lemma invest_loop_overrun:
  "num_lt (Fin (real j)) limit \<Longrightarrow> \<not> j < length cs \<Longrightarrow>
   invest_loop limit amount cs j v = Throw TypeError v"
  by (subst invest_loop.simps) simp

lemma invest_loop_rejects:
  assumes "cookie (config v) \<noteq> Some ''unknown''" and "j < length cs"
    and "num_lt (Fin (real j)) limit"
    and "server v (length (network v)) (buy_request v (coin_symbol (cs ! j)) amount) = Rejects"
  shows "invest_loop limit amount cs j v =
           Throw NetworkError (v\<lparr>network := network v @ [buy_request v (coin_symbol (cs ! j)) amount]\<rparr>)"
  using assms
  by (subst invest_loop.simps) (simp add: api_req_known Let_def buy_request_def)

lemma invest_loop_not_ok:
  assumes "cookie (config v) \<noteq> Some ''unknown''" and "j < length cs"
    and "num_lt (Fin (real j)) limit"
    and "server v (length (network v)) (buy_request v (coin_symbol (cs ! j)) amount) = Responds t"
    and "\<not> ok t"
  shows "invest_loop limit amount cs j v =
           Ret () (v\<lparr>network := network v @ [buy_request v (coin_symbol (cs ! j)) amount],
                    console := console v @ [[[Chalk redBright [Lit ''API ERROR''], Lit '':'']],
                                             [[Val (Str (body_text t))]]]\<rparr>)"
  using assms
  by (subst invest_loop.simps)
    (simp add: api_req_known Let_def buy_request_def api_error_def console_log_def)

lemma invest_limit_numbers:
  assumes "invest_limit b am = Fin (of_int z)"
  shows "parseFloat b \<noteq> NaN" "parseFloat am \<noteq> NaN"
proof -
  have "Math_floor (num_div (parseFloat b) (parseFloat am)) \<noteq> NaN"
    using assms by (simp add: invest_limit_def)
  then have "num_div (parseFloat b) (parseFloat am) \<noteq> NaN"
    by (cases "num_div (parseFloat b) (parseFloat am)") simp_all
  then show "parseFloat b \<noteq> NaN" "parseFloat am \<noteq> NaN"
    by (auto simp: num_div_def)
qed

lemma invest_callback_market:
  assumes "cookie (config w) \<noteq> Some ''unknown''"
    and "invest_limit b am = Fin (of_int z)"
    and "server w (length (network w))
           (invest_market_request w (case rest of [] \<Rightarrow> ''1'' | p # _ \<Rightarrow> p) (Fin (of_int z)))
         = Responds r"
    and "ok r" and "json r = Market_json pages cs"
  shows "invest_callback (b # am # rest) w =
           invest_loop (Fin (of_int z)) (parseFloat am) cs 0
             (w\<lparr>network := network w @
                   [invest_market_request w (case rest of [] \<Rightarrow> ''1'' | p # _ \<Rightarrow> p) (Fin (of_int z))],
                 console := console w @
                   [[[Lit ''Investing in '', Chalk greenBright [Val (Num (Fin (of_int z)))],
                      Lit '' coins at the top of the marketplace'']]]\<rparr>)"
  using assms invest_limit_numbers [OF assms(2)]
  by (simp add: invest_callback_def Number_isNaN_def Let_def api_req_known bind_def
      invest_market_request_def invest_limit_def [symmetric])

lemma num_lt_floor: "num_lt (Fin (real k)) (Fin (of_int z)) = (k < nat z)"
  by (simp add: num_lt_def nat_less_iff) linarith

lemma sent_after_buys:
  assumes "network v = network w @ [q]" and "buy_request v = buy_request w"
  shows "drop (length (network w)) (network (after_buys v cs amount 0 n) @ extra) =
           q # map (\<lambda>k. buy_request w (coin_symbol (cs ! k)) amount) [0..<n] @ extra"
  using assms by (simp add: after_buys_def)

text \<open>
  The count for the budget 100 and the amount 20 is 5. For the budget 0.3 and the amount
  0.1 it is 2, not 3: the quotient of the two doubles is just below 3.
\<close>

lemma invest_limit_100_20: "invest_limit ''100'' ''20'' = Fin (of_int 5)"
  by (simp add: invest_limit_def parseFloat_eval double_eval)

lemma invest_limit_03_01: "invest_limit ''0.3'' ''0.1'' = Fin (of_int 2)"
  by (simp add: invest_limit_def parseFloat_eval double_eval)

lemma parseFloat_20: "parseFloat ''20'' = Fin 20"
  by (simp add: parseFloat_eval double_eval)

lemma parseFloat_tenth: "parseFloat ''0.1'' = Fin (3602879701896397 / 2 ^ 55)"
  by (simp add: parseFloat_eval double_eval)

lemma upt_5: "[0..<5] = [0, 1, 2, 3, 4]" "[0..<3] = [0, 1, 2]" "[0..<2] = [0, Suc 0]"
  by (simp_all add: upt_rec)


text \<open>
  Claim C2 says that \<^verbatim>\<open>invest\<close> issues floor(b/a) BUY requests whenever every trade call
  succeeds. The loop runs over the indices below that count, not over the coins the page
  lists: for the budget 100 and the amount 20 the count is 5, but when the market page
  lists two coins only, two BUY requests go out, both succeed, and reading the symbol of
  the third coin throws a TypeError.
\<close>

theorem invest_buys_counterexample:
  "Math_floor (num_div (parseFloat ''100'') (parseFloat ''20'')) = Fin 5
   \<and> thrown (invest_callback [''100'', ''20'']
        (fresh_world (market_server (take 2 five_coins) None) (Some ''abc''))) = Some TypeError
   \<and> sent (invest_callback [''100'', ''20''])
        (fresh_world (market_server (take 2 five_coins) None) (Some ''abc'')) =
       invest_market_request (fresh_world (market_server (take 2 five_coins) None) (Some ''abc'')) ''1'' (Fin 5)
       # map (\<lambda>s. buy_request (fresh_world (market_server (take 2 five_coins) None) (Some ''abc'')) s (Fin 20))
           [''AAA'', ''BBB'']"
proof -
  let ?cs = "take 2 five_coins"
  let ?w = "fresh_world (market_server ?cs None) (Some ''abc'')"
  let ?q = "invest_market_request ?w ''1'' (Fin 5)"
  let ?v = "?w\<lparr>network := network ?w @ [?q],
               console := console ?w @
                 [[[Lit ''Investing in '', Chalk greenBright [Val (Num (Fin 5))],
                    Lit '' coins at the top of the marketplace'']]]\<rparr>"
  have c: "cookie (config ?w) \<noteq> Some ''unknown''" by (simp add: fresh_world_def)
  have cs: "length ?cs = 2" "coin_symbol (?cs ! 0) = ''AAA''" "coin_symbol (?cs ! Suc 0) = ''BBB''"
    by (simp_all add: five_coins_def)
  have "invest_callback (''100'' # ''20'' # []) ?w =
          invest_loop (Fin (of_int 5)) (parseFloat ''20'') ?cs 0
            (?w\<lparr>network := network ?w @ [invest_market_request ?w (case [] of [] \<Rightarrow> ''1'' | p # _ \<Rightarrow> p) (Fin (of_int 5))],
               console := console ?w @
                 [[[Lit ''Investing in '', Chalk greenBright [Val (Num (Fin (of_int 5)))],
                    Lit '' coins at the top of the marketplace'']]]\<rparr>)"
    by (rule invest_callback_market [OF c invest_limit_100_20, where pages = 1
          and r = "\<lparr>ok = True, body_text = [], json = Market_json 1 (take 2 five_coins)\<rparr>"])
      (simp_all add: fresh_world_def market_server_def)
  then have start: "invest_callback [''100'', ''20''] ?w = invest_loop (Fin 5) (Fin 20) ?cs 0 ?v"
    by (simp add: parseFloat_20)
  have v: "cookie (config ?v) \<noteq> Some ''unknown''" "network ?v = network ?w @ [?q]"
    "buy_request ?v = buy_request ?w"
    using c by simp_all
  have run: "invest_loop (Fin 5) (Fin 20) ?cs 0 ?v =
               invest_loop (Fin 5) (Fin 20) ?cs 2 (after_buys ?v ?cs (Fin 20) 0 2)"
    by (rule invest_loop_steps [OF v(1)])
      (simp_all add: cs five_coins_def fresh_world_def market_server_def num_lt_def)
  have stop: "invest_loop (Fin 5) (Fin 20) ?cs 2 (after_buys ?v ?cs (Fin 20) 0 2) =
                Throw TypeError (after_buys ?v ?cs (Fin 20) 0 2)"
    by (rule invest_loop_overrun) (simp_all add: cs num_lt_def)
  have s: "sent (invest_callback [''100'', ''20'']) ?w =
             ?q # map (\<lambda>k. buy_request ?w (coin_symbol (?cs ! k)) (Fin 20)) [0..<2]"
    unfolding sent_def start run stop
    using sent_after_buys [OF v(2) v(3), of ?cs "Fin 20" 2 "[]"] by simp
  have l: "Math_floor (num_div (parseFloat ''100'') (parseFloat ''20'')) = Fin 5"
    using invest_limit_100_20 by (simp add: invest_limit_def)
  show ?thesis
    unfolding start run stop using s [unfolded start run stop] l
    by (simp add: upt_5 cs five_coins_def)
qed

text \<open>
  Claim C2, amended. Let the count that \<^verbatim>\<open>invest\<close> computes from the budget and the amount,
  \<^verbatim>\<open>Math.floor(budget/amount)\<close> on the doubles the two arguments parse to, be a finite
  number \<open>z\<close>; let the cookie be set, and let the request for the market page, which
  carries that count as its limit, come back ok with at least \<open>z\<close> coins. Then
  \<^item> when every BUY is answered ok, the command returns, and after the market request it
    has sent exactly one BUY for each of the first \<open>z\<close> coins of the page, in their
    order (none when the count is not positive);
  \<^item> when the BUYs before the one of index \<open>n\<close> are answered ok and that one is rejected
    or answered not ok, the command has sent those \<open>n\<close> BUYs and the failing one, and
    nothing after it.
\<close>

theorem invest_buys:
  assumes "cookie (config w) \<noteq> Some ''unknown''"
    and "invest_limit b am = Fin (of_int z)"
    and "server w (length (network w))
           (invest_market_request w (case rest of [] \<Rightarrow> ''1'' | p # _ \<Rightarrow> p) (invest_limit b am))
         = Responds r"
    and "ok r" and "json r = Market_json pages cs"
    and "nat z \<le> length cs"
  shows "((\<forall>k < nat z. \<exists>t.
           server w (length (network w) + 1 + k)
             (buy_request w (coin_symbol (cs ! k)) (parseFloat am)) = Responds t \<and> ok t)
        \<longrightarrow> returned (invest_callback (b # am # rest) w)
          \<and> sent (invest_callback (b # am # rest)) w =
              invest_market_request w (case rest of [] \<Rightarrow> ''1'' | p # _ \<Rightarrow> p) (invest_limit b am)
              # map (\<lambda>k. buy_request w (coin_symbol (cs ! k)) (parseFloat am)) [0..<nat z])
    \<and> (\<forall>n < nat z.
          (\<forall>k < n. \<exists>t.
             server w (length (network w) + 1 + k)
               (buy_request w (coin_symbol (cs ! k)) (parseFloat am)) = Responds t \<and> ok t)
          \<and> (server w (length (network w) + 1 + n)
                (buy_request w (coin_symbol (cs ! n)) (parseFloat am)) = Rejects
             \<or> (\<exists>t. server w (length (network w) + 1 + n)
                       (buy_request w (coin_symbol (cs ! n)) (parseFloat am)) = Responds t \<and> \<not> ok t))
        \<longrightarrow> sent (invest_callback (b # am # rest)) w =
              invest_market_request w (case rest of [] \<Rightarrow> ''1'' | p # _ \<Rightarrow> p) (invest_limit b am)
              # map (\<lambda>k. buy_request w (coin_symbol (cs ! k)) (parseFloat am)) [0..<Suc n])"
proof -
  let ?limit = "Fin (of_int z)"
  let ?y = "parseFloat am"
  let ?N = "nat z"
  let ?q = "invest_market_request w (case rest of [] \<Rightarrow> ''1'' | p # _ \<Rightarrow> p) ?limit"
  let ?v = "w\<lparr>network := network w @ [?q],
               console := console w @
                 [[[Lit ''Investing in '', Chalk greenBright [Val (Num ?limit)],
                    Lit '' coins at the top of the marketplace'']]]\<rparr>"
  let ?buy = "\<lambda>k. buy_request w (coin_symbol (cs ! k)) ?y"
  have start: "invest_callback (b # am # rest) w = invest_loop ?limit ?y cs 0 ?v"
    by (rule invest_callback_market [OF assms(1,2) assms(3) [unfolded assms(2)] assms(4,5)])
  have v: "cookie (config ?v) \<noteq> Some ''unknown''" "network ?v = network w @ [?q]"
    "buy_request ?v = buy_request w" "server ?v = server w"
    using assms(1) by simp_all
  have run: "invest_loop ?limit ?y cs 0 ?v =
               invest_loop ?limit ?y cs n (after_buys ?v cs ?y 0 n)"
    if n: "n \<le> ?N"
      and oks: "\<forall>k < n. \<exists>t. server w (length (network w) + 1 + k) (?buy k) = Responds t \<and> ok t"
    for n
  proof (rule invest_loop_steps [OF v(1)])
    show "n \<le> length cs" using n assms(6) by simp
    show "0 \<le> n" by simp
    show "num_lt (Fin (real k)) ?limit" if "k < n" for k
      using that n by (simp add: num_lt_floor)
    show "\<exists>t. server ?v (length (network ?v) + (k - 0)) (buy_request ?v (coin_symbol (cs ! k)) ?y)
                 = Responds t \<and> ok t" if "k < n" for k
      using oks that by (simp add: v(3))
  qed
  have good: "returned (invest_callback (b # am # rest) w)
          \<and> sent (invest_callback (b # am # rest)) w = ?q # map ?buy [0..<?N]"
    if oks: "\<forall>k < ?N. \<exists>t. server w (length (network w) + 1 + k) (?buy k) = Responds t \<and> ok t"
  proof -
    have "invest_callback (b # am # rest) w = Ret () (after_buys ?v cs ?y 0 ?N)"
      unfolding start run [OF le_refl oks]
      by (rule invest_loop_done) (simp add: num_lt_floor)
    then show ?thesis
      using sent_after_buys [OF v(2) v(3), of cs ?y ?N "[]"] by (simp add: sent_def)
  qed
  have bad: "sent (invest_callback (b # am # rest)) w = ?q # map ?buy [0..<Suc n]"
    if n: "n < ?N"
      and oks: "\<forall>k < n. \<exists>t. server w (length (network w) + 1 + k) (?buy k) = Responds t \<and> ok t"
      and fails: "server w (length (network w) + 1 + n) (?buy n) = Rejects
             \<or> (\<exists>t. server w (length (network w) + 1 + n) (?buy n) = Responds t \<and> \<not> ok t)"
    for n
  proof -
    let ?u = "after_buys ?v cs ?y 0 n"
    from n have nle: "n \<le> ?N" by simp
    have u: "cookie (config ?u) \<noteq> Some ''unknown''" "n < length cs" "num_lt (Fin (real n)) ?limit"
      "server ?u (length (network ?u)) = server w (length (network w) + 1 + n)"
      "buy_request ?u = buy_request w"
      using assms(1) assms(6) n by (simp_all add: num_lt_floor)
    have "network (final (invest_loop ?limit ?y cs n ?u)) = network ?u @ [?buy n]"
    proof (rule disjE [OF fails])
      assume "server w (length (network w) + 1 + n) (?buy n) = Rejects"
      then show ?thesis
        using invest_loop_rejects [OF u(1-3), of ?y] by (simp add: u(4,5))
    next
      assume "\<exists>t. server w (length (network w) + 1 + n) (?buy n) = Responds t \<and> \<not> ok t"
      then obtain t where "server w (length (network w) + 1 + n) (?buy n) = Responds t" "\<not> ok t"
        by blast
      then show ?thesis
        using invest_loop_not_ok [OF u(1-3), of ?y t] by (simp add: u(4,5))
    qed
    then show ?thesis
      unfolding sent_def start run [OF nle oks]
      using sent_after_buys [OF v(2) v(3), of cs ?y n "[?buy n]"] by simp
  qed
  from good bad show ?thesis unfolding assms(2) by blast
qed


theorem invest_buys_witness:
  "returned (invest_callback [''100'', ''20'']
      (fresh_world (market_server five_coins None) (Some ''abc'')))
   \<and> sent (invest_callback [''100'', ''20''])
        (fresh_world (market_server five_coins None) (Some ''abc'')) =
       invest_market_request (fresh_world (market_server five_coins None) (Some ''abc'')) ''1'' (Fin 5)
       # map (\<lambda>s. buy_request (fresh_world (market_server five_coins None) (Some ''abc'')) s (Fin 20))
           [''AAA'', ''BBB'', ''CCC'', ''DDD'', ''EEE'']
   \<and> sent (invest_callback [''100'', ''20''])
        (fresh_world (market_server five_coins (Some 3)) (Some ''abc'')) =
       invest_market_request (fresh_world (market_server five_coins (Some 3)) (Some ''abc'')) ''1'' (Fin 5)
       # map (\<lambda>s. buy_request (fresh_world (market_server five_coins (Some 3)) (Some ''abc'')) s (Fin 20))
           [''AAA'', ''BBB'', ''CCC'']
   \<and> returned (invest_callback [''0.3'', ''0.1'']
      (fresh_world (market_server five_coins None) (Some ''abc'')))
   \<and> sent (invest_callback [''0.3'', ''0.1''])
        (fresh_world (market_server five_coins None) (Some ''abc'')) =
       invest_market_request (fresh_world (market_server five_coins None) (Some ''abc'')) ''1'' (Fin 2)
       # map (\<lambda>s. buy_request (fresh_world (market_server five_coins None) (Some ''abc'')) s
                    (Fin (3602879701896397 / 2 ^ 55)))
           [''AAA'', ''BBB'']"
proof -
  let ?w = "fresh_world (market_server five_coins None) (Some ''abc'')"
  let ?u = "fresh_world (market_server five_coins (Some 3)) (Some ''abc'')"
  let ?r = "\<lparr>ok = True, body_text = [], json = Market_json 1 five_coins\<rparr>"
  have cs: "length five_coins = 5" "coin_symbol (five_coins ! 0) = ''AAA''"
    "coin_symbol (five_coins ! Suc 0) = ''BBB''" "coin_symbol (five_coins ! 2) = ''CCC''"
    "coin_symbol (five_coins ! 3) = ''DDD''" "coin_symbol (five_coins ! 4) = ''EEE''"
    by (simp_all add: five_coins_def)
  have cw: "cookie (config ?w) \<noteq> Some ''unknown''" and cu: "cookie (config ?u) \<noteq> Some ''unknown''"
    by (simp_all add: fresh_world_def)
  have mw: "server ?w (length (network ?w)) rq = Responds ?r"
    and mu: "server ?u (length (network ?u)) rq = Responds ?r" for rq
    by (simp_all add: fresh_world_def market_server_def)
  have okw: "\<forall>k < n. \<exists>t. server ?w (length (network ?w) + 1 + k) (rq k) = Responds t \<and> ok t" for n rq
    by (simp add: fresh_world_def market_server_def)
  have o: "ok ?r" "json ?r = Market_json 1 five_coins" "nat 5 \<le> length five_coins"
    "nat 2 \<le> length five_coins"
    by (simp_all add: cs)
  note tw = invest_buys [OF cw invest_limit_100_20 mw o(1,2,3), of "[]", THEN conjunct1, THEN mp, OF okw]
  have n2: "(2::nat) < nat 5"
    by simp
  have pu: "(\<forall>k < 2. \<exists>t.
             server ?u (length (network ?u) + 1 + k)
               (buy_request ?u (coin_symbol (five_coins ! k)) (parseFloat ''20'')) = Responds t \<and> ok t)
          \<and> (server ?u (length (network ?u) + 1 + 2)
                (buy_request ?u (coin_symbol (five_coins ! 2)) (parseFloat ''20'')) = Rejects
             \<or> (\<exists>t. server ?u (length (network ?u) + 1 + 2)
                       (buy_request ?u (coin_symbol (five_coins ! 2)) (parseFloat ''20'')) = Responds t
                     \<and> \<not> ok t))"
    by (auto simp: fresh_world_def market_server_def)
  note tu = invest_buys [OF cu invest_limit_100_20 mu o(1,2,3), of "[]", THEN conjunct2,
      THEN spec, where x = 2, THEN mp, OF n2, THEN mp, OF pu]
  note tv = invest_buys [OF cw invest_limit_03_01 mw o(1,2,4), of "[]", THEN conjunct1, THEN mp, OF okw]
  have 1: "returned (invest_callback [''100'', ''20''] ?w)
      \<and> sent (invest_callback [''100'', ''20'']) ?w =
          invest_market_request ?w ''1'' (Fin 5)
          # map (\<lambda>k. buy_request ?w (coin_symbol (five_coins ! k)) (Fin 20)) [0..<5]"
    using tw by (simp add: invest_limit_100_20 parseFloat_20)
  have 2: "sent (invest_callback [''100'', ''20'']) ?u =
              invest_market_request ?u ''1'' (Fin 5)
              # map (\<lambda>k. buy_request ?u (coin_symbol (five_coins ! k)) (Fin 20)) [0..<3]"
    using tu by (simp add: invest_limit_100_20 parseFloat_20)
  have 3: "returned (invest_callback [''0.3'', ''0.1''] ?w)
      \<and> sent (invest_callback [''0.3'', ''0.1'']) ?w =
          invest_market_request ?w ''1'' (Fin 2)
          # map (\<lambda>k. buy_request ?w (coin_symbol (five_coins ! k)) (Fin (3602879701896397 / 2 ^ 55)))
              [0..<2]"
    using tv by (simp add: invest_limit_03_01 parseFloat_tenth)
  from 1 2 3 show ?thesis
    by (simp add: upt_5 cs)
qed

subsection \<open>Commands without a cookie\<close>

lemma mk_file_readable:
  "readable w p \<Longrightarrow>
   mk_file p w = Ret \<lparr>file_name = str_or_undefined (pop (split_on (CHR ''/'') p)),
                      file_type = [Lit ''image/'', Val (str_or_undefined (pop (split_on (CHR ''.'') p)))],
                      file_bytes = p\<rparr> w"
  by (simp add: mk_file_def readable_def seq_def bind_def Deno_readFile_def Deno_stat_def Let_def
      split: file_state.splits)

lemma mk_file_unreadable:
  "\<not> readable w p \<Longrightarrow>
   mk_file p w = Throw (if files w (Plain p) = Missing then NotFound else PermissionDenied) w"
  by (simp add: mk_file_def readable_def seq_def bind_def Deno_readFile_def Deno_stat_def Let_def
      split: file_state.splits)

lemma handler_names: "map fst handlers = map fst command_info"
  by (simp add: handlers_def command_info_def)

lemma coinflip_unknown:
  "cookie (config w) = Some ''unknown'' \<Longrightarrow>
   coinflip_callback args w = Ret () (w\<lparr>console := console w @ [unauthenticated_warning]\<rparr>)"
  by (simp add: coinflip_callback_def Let_def split_beta api_req_unknown)

lemma slots_unknown:
  "cookie (config w) = Some ''unknown'' \<Longrightarrow>
   slots_callback args w = Ret () (w\<lparr>console := console w @ [unauthenticated_warning]\<rparr>)"
  by (simp add: slots_callback_def Let_def split_beta api_req_unknown)

lemma summary_unknown:
  "cookie (config w) = Some ''unknown'' \<Longrightarrow>
   summary_callback args w = Ret () (w\<lparr>console := console w @ [unauthenticated_warning]\<rparr>)"
  by (simp add: summary_callback_def api_req_unknown)

lemma redeem_unknown:
  "cookie (config w) = Some ''unknown'' \<Longrightarrow>
   redeem_callback args w = Ret () (w\<lparr>console := console w @ [unauthenticated_warning]\<rparr>)"
  by (simp add: redeem_callback_def api_req_unknown)

lemma daily_reward_unknown:
  "cookie (config w) = Some ''unknown'' \<Longrightarrow>
   daily_reward_callback args w = Ret () (w\<lparr>console := console w @ [unauthenticated_warning]\<rparr>)"
  by (simp add: daily_reward_callback_def api_req_unknown)

lemma notifications_unknown:
  "cookie (config w) = Some ''unknown'' \<Longrightarrow>
   notifications_callback args w = Ret () (w\<lparr>console := console w @ [unauthenticated_warning]\<rparr>)"
  by (simp add: notifications_callback_def api_req_unknown)

lemma market_unknown:
  "cookie (config w) = Some ''unknown'' \<Longrightarrow>
   market_callback args w = Ret () (w\<lparr>console := console w @ [unauthenticated_warning]\<rparr>)"
  by (simp add: market_callback_def Let_def split_beta api_req_unknown)

lemma new_coin_unknown:
  assumes "cookie (config w) = Some ''unknown''"
  shows "new_coin_callback args w =
     Ret () (w\<lparr>console := console w @
       (if length args \<noteq> 3 then [[[Lit ''Invalid argument length'']]]
        else if readable w (args ! 2) then [unauthenticated_warning]
        else [[[Chalk redBright [Lit ''Error whilst creating logo file''], Lit '':'']],
              [[Val (Err (if files w (Plain (args ! 2)) = Missing then NotFound else PermissionDenied))]]])\<rparr>)"
proof (cases "\<exists>n s i. args = [n, s, i]")
  case True
  then obtain n s i where a: "args = [n, s, i]" by blast
  show ?thesis
  proof (cases "readable w i")
    case True
    then show ?thesis
      using assms by (simp add: a new_coin_callback_def try_catch_def mk_file_readable api_req_unknown)
  next
    case False
    then show ?thesis
      using assms
      by (simp add: a new_coin_callback_def try_catch_def mk_file_unreadable console_log_def)
  qed
next
  case False
  then have "length args \<noteq> 3"
    by (cases args; cases "tl args"; cases "tl (tl args)"; cases "tl (tl (tl args))") auto
  with False show ?thesis
    by (auto simp: new_coin_callback_def console_log_def split: list.split)
qed

lemma invest_unknown:
  assumes "cookie (config w) = Some ''unknown''"
  shows "invest_callback args w =
     Ret () (w\<lparr>console := console w @
       (if length args < 2 then [[[Lit ''Invald paramteres to command'']]]
        else if Number_isNaN (parseFloat (args ! 0)) \<or> Number_isNaN (parseFloat (args ! 1)) then []
        else [unauthenticated_warning])\<rparr>)"
proof (cases args)
  case Nil
  then show ?thesis by (simp add: invest_callback_def console_log_def)
next
  case (Cons b r)
  show ?thesis
  proof (cases r)
    case Nil
    with Cons show ?thesis by (simp add: invest_callback_def console_log_def)
  next
    case (Cons am rest)
    with \<open>args = b # r\<close> assms show ?thesis
      by (simp add: invest_callback_def Let_def api_req_unknown)
  qed
qed

lemma view_user_unknown:
  assumes "cookie (config w) = Some ''unknown''"
  shows "view_user_callback args w =
     Ret () (w\<lparr>console := console w @
       (if length args = 1 then [unauthenticated_warning]
        else [[[Lit ''Invalid parameters to command'']]])\<rparr>)"
  using assms
  by (cases args; cases "tl args")
    (auto simp: view_user_callback_def console_log_def api_req_unknown)

lemma buy_coin_unknown:
  assumes "cookie (config w) = Some ''unknown''"
  shows "buy_coin_callback args w =
     Ret () (w\<lparr>console := console w @
       (if length args = 2 then [unauthenticated_warning]
        else [[[Lit ''Invalid command parameters'']]])\<rparr>)"
  using assms
  by (cases args; cases "tl args"; cases "tl (tl args)")
    (auto simp: buy_coin_callback_def console_log_def api_req_unknown)

lemma sell_coin_unknown:
  assumes "cookie (config w) = Some ''unknown''"
  shows "sell_coin_callback args w =
     Ret () (w\<lparr>console := console w @
       (if length args = 2 then [unauthenticated_warning]
        else [[[Lit ''Invalid command parameters'']]])\<rparr>)"
  using assms
  by (cases args; cases "tl args"; cases "tl (tl args)")
    (auto simp: sell_coin_callback_def console_log_def api_req_unknown)

lemma portfolio_unknown:
  "cookie (config w) = Some ''unknown'' \<Longrightarrow>
   portfolio_callback args w =
     Ret () (w\<lparr>console := console w @ [unauthenticated_warning, unauthenticated_warning]\<rparr>)"
  by (simp add: portfolio_callback_def api_req_unknown)

lemma only_printed:
  assumes "m w = Ret () (w\<lparr>console := console w @ ls\<rparr>)"
  shows "returned (m w) \<and> sent m w = [] \<and> config (final (m w)) = config w \<and> printed m w = ls"
  using assms by (simp add: sent_def printed_def)

lemma me_request_eq:
  "me w = (case server w (length (network w)) (me_request w) of
             Rejects \<Rightarrow> Throw NetworkError (w\<lparr>network := network w @ [me_request w]\<rparr>)
           | Responds req \<Rightarrow>
               (if \<not> ok req then seq (api_error req) (ret None)
                else (case json req of Page_data _ _ _ \<Rightarrow> ret (Some (json req)) | _ \<Rightarrow> unmodelled))
                 (w\<lparr>network := network w @ [me_request w]\<rparr>))"
  by (simp add: me_def me_request_def fetch_def bind_def Let_def split: reply.split)

lemma parseFloat_100: "parseFloat ''100'' = Fin 100"
  by (simp add: parseFloat_eval double_eval)

text \<open>
  While the cookie is the default one, each of \<^verbatim>\<open>coinflip\<close>, \<^verbatim>\<open>slots\<close>, \<^verbatim>\<open>summary\<close>,
  \<^verbatim>\<open>redeem\<close>, \<^verbatim>\<open>new-coin\<close>, \<^verbatim>\<open>daily-reward\<close>, \<^verbatim>\<open>notifications\<close>, \<^verbatim>\<open>invest\<close>, \<^verbatim>\<open>view-user\<close>,
  \<^verbatim>\<open>market\<close>, \<^verbatim>\<open>buy-coin\<close> and \<^verbatim>\<open>sell-coin\<close> returns without a network call and with the
  config as it was. It prints the warning exactly once, and nothing else, when its own
  checks let the arguments through to the gateway; a handler whose checks stop the
  arguments does not call the gateway and prints no warning.
\<close>

lemma guarded_commands_without_cookie:
  assumes "cookie (config w) = Some ''unknown''"
    and "name \<in> set guarded_gateway_commands"
    and "map_of handlers name = Some cb"
  shows "returned (cb args w) \<and> sent (cb args) w = [] \<and> config (final (cb args w)) = config w
    \<and> count_list (printed (cb args) w) unauthenticated_warning =
        (if reaches_gateway name args w then 1 else 0)
    \<and> (reaches_gateway name args w \<longrightarrow>
         cb args w = Ret () (w\<lparr>console := console w @ [unauthenticated_warning]\<rparr>))"
proof -
  have goal: ?thesis
    if "cb args w = Ret () (w\<lparr>console := console w @ ls\<rparr>)"
      and "reaches_gateway name args w \<Longrightarrow> ls = [unauthenticated_warning]"
      and "\<not> reaches_gateway name args w \<Longrightarrow> unauthenticated_warning \<notin> set ls"
    for ls
    using only_printed [of "cb args" w ls, OF that(1)] that
    by (cases "reaches_gateway name args w") auto
  from assms(2) have "name = ''coinflip'' \<or> name = ''slots'' \<or> name = ''summary''
    \<or> name = ''redeem'' \<or> name = ''new-coin'' \<or> name = ''daily-reward''
    \<or> name = ''notifications'' \<or> name = ''invest'' \<or> name = ''view-user''
    \<or> name = ''market'' \<or> name = ''buy-coin'' \<or> name = ''sell-coin''"
    unfolding guarded_gateway_commands_def
    by (simp only: list.set insert_iff empty_iff simp_thms)
  then show ?thesis
  proof (elim disjE)
    assume c1: "name = ''coinflip''"
    with assms(3) have "cb = coinflip_callback" by (simp add: handlers_def)
    with c1 show ?thesis
      by (intro goal [of "[unauthenticated_warning]"])
        (simp_all add: coinflip_unknown [OF assms(1)] reaches_gateway_def)
  next
    assume c2: "name = ''slots''"
    with assms(3) have "cb = slots_callback" by (simp add: handlers_def)
    with c2 show ?thesis
      by (intro goal [of "[unauthenticated_warning]"])
        (simp_all add: slots_unknown [OF assms(1)] reaches_gateway_def)
  next
    assume c3: "name = ''summary''"
    with assms(3) have "cb = summary_callback" by (simp add: handlers_def)
    with c3 show ?thesis
      by (intro goal [of "[unauthenticated_warning]"])
        (simp_all add: summary_unknown [OF assms(1)] reaches_gateway_def)
  next
    assume c4: "name = ''redeem''"
    with assms(3) have "cb = redeem_callback" by (simp add: handlers_def)
    with c4 show ?thesis
      by (intro goal [of "[unauthenticated_warning]"])
        (simp_all add: redeem_unknown [OF assms(1)] reaches_gateway_def)
  next
    assume c5: "name = ''new-coin''"
    with assms(3) have "cb = new_coin_callback" by (simp add: handlers_def)
    with c5 show ?thesis
      by (intro goal [of "if length args \<noteq> 3 then [[[Lit ''Invalid argument length'']]]
        else if readable w (args ! 2) then [unauthenticated_warning]
        else [[[Chalk redBright [Lit ''Error whilst creating logo file''], Lit '':'']],
              [[Val (Err (if files w (Plain (args ! 2)) = Missing then NotFound else PermissionDenied))]]]"])
        (auto simp: new_coin_unknown [OF assms(1)] reaches_gateway_def unauthenticated_warning_def)
  next
    assume c6: "name = ''daily-reward''"
    with assms(3) have "cb = daily_reward_callback" by (simp add: handlers_def)
    with c6 show ?thesis
      by (intro goal [of "[unauthenticated_warning]"])
        (simp_all add: daily_reward_unknown [OF assms(1)] reaches_gateway_def)
  next
    assume c7: "name = ''notifications''"
    with assms(3) have "cb = notifications_callback" by (simp add: handlers_def)
    with c7 show ?thesis
      by (intro goal [of "[unauthenticated_warning]"])
        (simp_all add: notifications_unknown [OF assms(1)] reaches_gateway_def)
  next
    assume c8: "name = ''invest''"
    with assms(3) have "cb = invest_callback" by (simp add: handlers_def)
    with c8 show ?thesis
      by (intro goal [of "if length args < 2 then [[[Lit ''Invald paramteres to command'']]]
        else if Number_isNaN (parseFloat (args ! 0)) \<or> Number_isNaN (parseFloat (args ! 1)) then []
        else [unauthenticated_warning]"])
        (auto simp: invest_unknown [OF assms(1)] reaches_gateway_def unauthenticated_warning_def)
  next
    assume c9: "name = ''view-user''"
    with assms(3) have "cb = view_user_callback" by (simp add: handlers_def)
    with c9 show ?thesis
      by (intro goal [of "if length args = 1 then [unauthenticated_warning]
        else [[[Lit ''Invalid parameters to command'']]]"])
        (auto simp: view_user_unknown [OF assms(1)] reaches_gateway_def unauthenticated_warning_def)
  next
    assume c10: "name = ''market''"
    with assms(3) have "cb = market_callback" by (simp add: handlers_def)
    with c10 show ?thesis
      by (intro goal [of "[unauthenticated_warning]"])
        (simp_all add: market_unknown [OF assms(1)] reaches_gateway_def)
  next
    assume c11: "name = ''buy-coin''"
    with assms(3) have "cb = buy_coin_callback" by (simp add: handlers_def)
    with c11 show ?thesis
      by (intro goal [of "if length args = 2 then [unauthenticated_warning]
        else [[[Lit ''Invalid command parameters'']]]"])
        (auto simp: buy_coin_unknown [OF assms(1)] reaches_gateway_def unauthenticated_warning_def)
  next
    assume c12: "name = ''sell-coin''"
    with assms(3) have "cb = sell_coin_callback" by (simp add: handlers_def)
    with c12 show ?thesis
      by (intro goal [of "if length args = 2 then [unauthenticated_warning]
        else [[[Lit ''Invalid command parameters'']]]"])
        (auto simp: sell_coin_unknown [OF assms(1)] reaches_gateway_def unauthenticated_warning_def)
  qed
qed

lemma guarded_commands_example:
  "cookie (config (fresh_world (\<lambda>_ _. Rejects) (Some ''unknown''))) = Some ''unknown''
   \<and> ''invest'' \<in> set guarded_gateway_commands
   \<and> map_of handlers ''invest'' = Some invest_callback
   \<and> reaches_gateway ''invest'' [''100'', ''20''] (fresh_world (\<lambda>_ _. Rejects) (Some ''unknown''))
   \<and> invest_callback [''100'', ''20''] (fresh_world (\<lambda>_ _. Rejects) (Some ''unknown'')) =
       Ret () ((fresh_world (\<lambda>_ _. Rejects) (Some ''unknown''))\<lparr>console := [unauthenticated_warning]\<rparr>)
   \<and> sent (invest_callback [''100'', ''20'']) (fresh_world (\<lambda>_ _. Rejects) (Some ''unknown'')) = []
   \<and> count_list (printed (invest_callback [''100'', ''20''])
        (fresh_world (\<lambda>_ _. Rejects) (Some ''unknown''))) unauthenticated_warning = 1"
proof -
  let ?w = "fresh_world (\<lambda>_ _. Rejects) (Some ''unknown'')"
  have c: "cookie (config ?w) = Some ''unknown''" by (simp add: fresh_world_def)
  have n: "''invest'' \<in> set guarded_gateway_commands"
    by (simp add: guarded_gateway_commands_def)
  have h: "map_of handlers ''invest'' = Some invest_callback"
    by (simp add: handlers_def)
  have r: "reaches_gateway ''invest'' [''100'', ''20''] ?w"
    by (simp add: reaches_gateway_def parseFloat_100 parseFloat_20 Number_isNaN_def)
  have e: "console ?w = []" by (simp add: fresh_world_def)
  from guarded_commands_without_cookie [OF c n h, of "[''100'', ''20'']"] r
  have 1: "invest_callback [''100'', ''20''] ?w = Ret () (?w\<lparr>console := [unauthenticated_warning]\<rparr>)
    \<and> sent (invest_callback [''100'', ''20'']) ?w = []
    \<and> count_list (printed (invest_callback [''100'', ''20'']) ?w) unauthenticated_warning = 1"
    unfolding e by simp
  show ?thesis
    by (intro conjI c n h r 1 [THEN conjunct1] 1 [THEN conjunct2, THEN conjunct1]
        1 [THEN conjunct2, THEN conjunct2])
qed

text \<open>
  Claim C1. While the cookie is the default one, every command that calls the gateway is to
  make no network call and to print the warning exactly once, \<^verbatim>\<open>portfolio\<close> and \<^verbatim>\<open>settings\<close>
  in particular. The code does not keep to it for these two. \<^verbatim>\<open>portfolio\<close> calls the
  gateway twice before it looks at either result, so the warning is printed twice.
  \<^verbatim>\<open>settings\<close> first calls \<^verbatim>\<open>me()\<close>, which has none of the gateway's guard: its request
  goes out, with the default cookie in its header, before the gateway prints the warning.
\<close>

theorem portfolio_settings_without_cookie:
  "cookie (config (fresh_world (\<lambda>_ _. Responds \<lparr>ok = True, body_text = [],
       json = Page_data ''Ann'' ''ann'' ''hi''\<rparr>) (Some ''unknown''))) = Some ''unknown''
   \<and> portfolio_callback []
       (fresh_world (\<lambda>_ _. Responds \<lparr>ok = True, body_text = [],
          json = Page_data ''Ann'' ''ann'' ''hi''\<rparr>) (Some ''unknown'')) =
       Ret () ((fresh_world (\<lambda>_ _. Responds \<lparr>ok = True, body_text = [],
          json = Page_data ''Ann'' ''ann'' ''hi''\<rparr>) (Some ''unknown''))
            \<lparr>console := [unauthenticated_warning, unauthenticated_warning]\<rparr>)
   \<and> count_list (printed (portfolio_callback [])
       (fresh_world (\<lambda>_ _. Responds \<lparr>ok = True, body_text = [],
          json = Page_data ''Ann'' ''ann'' ''hi''\<rparr>) (Some ''unknown''))) unauthenticated_warning = 2
   \<and> sent (portfolio_callback [])
       (fresh_world (\<lambda>_ _. Responds \<lparr>ok = True, body_text = [],
          json = Page_data ''Ann'' ''ann'' ''hi''\<rparr>) (Some ''unknown'')) = []
   \<and> sent (settings_callback [''none'', ''none'', ''none'', ''none''])
       (fresh_world (\<lambda>_ _. Responds \<lparr>ok = True, body_text = [],
          json = Page_data ''Ann'' ''ann'' ''hi''\<rparr>) (Some ''unknown'')) =
       [\<lparr>url = [Lit ''https://rugplay.com/__data.json?x-sveltekit-trailing-slash=1&x-sveltekit-invalidated=10''],
         http_method = ''GET'',
         headers = [(''User-Agent'', Str ''Mozilla/5.0 (Windows NT 10.0; Win64; x64) AppleWebKit/537.36 (KHTML, like Gecko) Chrome/125.0.0.0 Safari/537.36''),
                    (''Cookie'', Str ''unknown''),
                    (''Accept-Language'', Str ''en-US,en;q=0.9''),
                    (''Origin'', Str ''https://rugplay.com'')],
         body = No_body\<rparr>]
   \<and> printed (settings_callback [''none'', ''none'', ''none'', ''none''])
       (fresh_world (\<lambda>_ _. Responds \<lparr>ok = True, body_text = [],
          json = Page_data ''Ann'' ''ann'' ''hi''\<rparr>) (Some ''unknown'')) = [unauthenticated_warning]"
proof -
  let ?w = "fresh_world (\<lambda>_ _. Responds \<lparr>ok = True, body_text = [], json = Page_data ''Ann'' ''ann'' ''hi''\<rparr>)
        (Some ''unknown'')"
  have c: "cookie (config ?w) = Some ''unknown''" by (simp add: fresh_world_def)
  have e: "console ?w = []" "network ?w = []" by (simp_all add: fresh_world_def)
  have p: "portfolio_callback [] ?w =
      Ret () (?w\<lparr>console := [unauthenticated_warning, unauthenticated_warning]\<rparr>)"
    using portfolio_unknown [OF c, of "[]"] by (simp add: e)
  have 1: "count_list (printed (portfolio_callback []) ?w) unauthenticated_warning = 2"
    "sent (portfolio_callback []) ?w = []"
    by (simp_all add: p printed_def sent_def e)
  have s: "server ?w (length (network ?w)) (me_request ?w) =
      Responds \<lparr>ok = True, body_text = [], json = Page_data ''Ann'' ''ann'' ''hi''\<rparr>"
    by (simp add: fresh_world_def)
  have "me ?w = Ret (Some (Page_data ''Ann'' ''ann'' ''hi'')) (?w\<lparr>network := network ?w @ [me_request ?w]\<rparr>)"
    unfolding me_request_eq s by simp
  then have "settings_callback [''none'', ''none'', ''none'', ''none''] ?w =
      Ret () (?w\<lparr>network := network ?w @ [me_request ?w],
                  console := console ?w @ [unauthenticated_warning]\<rparr>)"
    using c by (simp add: settings_callback_def api_req_unknown Let_def)
  then have 2: "sent (settings_callback [''none'', ''none'', ''none'', ''none'']) ?w = [me_request ?w]"
    "printed (settings_callback [''none'', ''none'', ''none'', ''none'']) ?w = [unauthenticated_warning]"
    by (simp_all add: sent_def printed_def)
  have m: "me_request ?w =
       \<lparr>url = [Lit ''https://rugplay.com/__data.json?x-sveltekit-trailing-slash=1&x-sveltekit-invalidated=10''],
         http_method = ''GET'',
         headers = [(''User-Agent'', Str ''Mozilla/5.0 (Windows NT 10.0; Win64; x64) AppleWebKit/537.36 (KHTML, like Gecko) Chrome/125.0.0.0 Safari/537.36''),
                    (''Cookie'', Str ''unknown''),
                    (''Accept-Language'', Str ''en-US,en;q=0.9''),
                    (''Origin'', Str ''https://rugplay.com'')],
         body = No_body\<rparr>"
    by (simp add: me_request_def request_headers_def fresh_world_def str_or_undefined_def)
  show ?thesis
    by (intro conjI c p 1 2(2) 2(1) [unfolded m])
qed

end
